theory Spec2Isabelle
  imports Main
begin

section \<open>Package name encoding\<close>

text \<open>
  Strings are modelled as their UTF-8 byte sequences (\<open>string\<close> is a list of 8-bit
  characters).  On a well-formed string the built-in \<open>encodeURIComponent\<close> keeps the
  unreserved characters \<open>A-Z a-z 0-9 - _ . ! ~ * ' ( )\<close> and writes every other
  byte as \<open>%XX\<close> with two upper-case hexadecimal digits.
\<close>

definition is_unreserved :: "char \<Rightarrow> bool" where
  "is_unreserved c =
     (let n = (of_char c :: nat) in
        (65 \<le> n \<and> n \<le> 90) \<or> (97 \<le> n \<and> n \<le> 122) \<or> (48 \<le> n \<and> n \<le> 57) \<or>
        n \<in> {45, 95, 46, 33, 126, 42, 39, 40, 41})"

definition hex_digit :: "nat \<Rightarrow> char" where
  "hex_digit n = (if n < 10 then char_of (48 + n) else char_of (55 + n))"

definition encode_byte :: "char \<Rightarrow> string" where
  "encode_byte c =
     (if is_unreserved c then [c]
      else [CHR ''%'', hex_digit ((of_char c :: nat) div 16), hex_digit ((of_char c :: nat) mod 16)])"

definition encodeURIComponent :: "string \<Rightarrow> string" where
  "encodeURIComponent s = concat (map encode_byte s)"

text \<open>
  \<^verbatim>\<open>const encode = function (thing): string {
    return encodeURIComponent(thing).replace(/^%40/, '@');
  };\<close>
\<close>

definition encode :: "string \<Rightarrow> string" where
  "encode thing =
     (let s = encodeURIComponent thing
      in if take 3 s = ''%40'' then CHR ''@'' # drop 3 s else s)"

text \<open>
  Percent-decoding, the inverse transformation: \<open>%XX\<close> (hexadecimal digits of either
  case) is read back as one byte, any other character stands for itself, and a \<open>%\<close>
  that is not followed by two hexadecimal digits is an error (\<open>None\<close>).
\<close>

definition hex_value :: "char \<Rightarrow> nat option" where
  "hex_value c =
     (let n = (of_char c :: nat) in
        if 48 \<le> n \<and> n \<le> 57 then Some (n - 48)
        else if 65 \<le> n \<and> n \<le> 70 then Some (n - 55)
        else if 97 \<le> n \<and> n \<le> 102 then Some (n - 87)
        else None)"

fun percent_decode :: "string \<Rightarrow> string option" where
  "percent_decode [] = Some []"
| "percent_decode (c # cs) =
     (if c = CHR ''%'' then
        (case cs of
           h1 # h2 # rest \<Rightarrow>
             (case (hex_value h1, hex_value h2) of
                (Some a, Some b) \<Rightarrow> map_option ((#) (char_of (16 * a + b))) (percent_decode rest)
              | _ \<Rightarrow> None)
         | _ \<Rightarrow> None)
      else map_option ((#) c) (percent_decode cs))"


section \<open>Constants and helpers taken from outside the file\<close>

text \<open>
  Modelled from the spec: the tables \<open>HTTP_STATUS\<close>, \<open>HEADERS\<close>, \<open>TOKEN_BASIC\<close> and
  \<open>TOKEN_BEARER\<close> of \<open>@verdaccio/core\<close> are imported by \<open>proxy.ts\<close> and are not among
  the sources.  The status codes are the standard HTTP ones; the header names and values
  are those the spec lists (\<open>Accept: application/json;\<close>, \<open>Accept-Encoding\<close>,
  \<open>User-Agent\<close>, \<open>Authorization\<close>, \<open>X-Forwarded-For\<close>, \<open>If-None-Match\<close>,
  \<open>Content-Length\<close>, \<open>Basic\<close>, \<open>Bearer\<close>), with \<open>authorization\<close> and \<open>content-length\<close>
  in lower case, as the configuration example in \<open>proxy.ts\<close> writes the first and as
  the HTTP library hands over the second.  The properties below depend on these names
  only in that they differ from each other and from \<open>via\<close> and \<open>x-forwarded-for\<close>.
\<close>

definition HTTP_STATUS_OK :: int where "HTTP_STATUS_OK = 200"
definition HTTP_STATUS_MULTIPLE_CHOICES :: int where "HTTP_STATUS_MULTIPLE_CHOICES = 300"
definition HTTP_STATUS_NOT_MODIFIED :: int where "HTTP_STATUS_NOT_MODIFIED = 304"
definition HTTP_STATUS_BAD_REQUEST :: int where "HTTP_STATUS_BAD_REQUEST = 400"
definition HTTP_STATUS_NOT_FOUND :: int where "HTTP_STATUS_NOT_FOUND = 404"

definition HEADERS_ACCEPT :: string where "HEADERS_ACCEPT = ''Accept''"
definition HEADERS_ACCEPT_ENCODING :: string where "HEADERS_ACCEPT_ENCODING = ''Accept-Encoding''"
definition HEADERS_USER_AGENT :: string where "HEADERS_USER_AGENT = ''User-Agent''"
definition HEADERS_AUTHORIZATION :: string where "HEADERS_AUTHORIZATION = ''authorization''"
definition HEADERS_FORWARDED_FOR :: string where "HEADERS_FORWARDED_FOR = ''X-Forwarded-For''"
definition HEADERS_NONE_MATCH :: string where "HEADERS_NONE_MATCH = ''If-None-Match''"
definition HEADERS_JSON :: string where "HEADERS_JSON = ''application/json''"
definition HEADER_TYPE_CONTENT_LENGTH :: string where "HEADER_TYPE_CONTENT_LENGTH = ''content-length''"
definition TOKEN_BASIC :: string where "TOKEN_BASIC = ''Basic''"
definition TOKEN_BEARER :: string where "TOKEN_BEARER = ''Bearer''"

text \<open>\<^verbatim>\<open>const contentTypeAccept = `${jsonContentType};`;\<close>\<close>

definition contentTypeAccept :: string where
  "contentTypeAccept = HEADERS_JSON @ '';''"

subsection \<open>Strings and objects of the language\<close>

text \<open>
  A header object is a map from (case-sensitive) property names to strings.  A property
  read is truthy when the property is present and not the empty string.
\<close>

type_synonym headers = "string \<Rightarrow> string option"

definition truthy :: "string option \<Rightarrow> bool" where
  "truthy v = (case v of None \<Rightarrow> False | Some s \<Rightarrow> s \<noteq> [])"

text \<open>\<open>headers[k] = headers[k] || d\<close>\<close>

definition or_default :: "headers \<Rightarrow> string \<Rightarrow> string \<Rightarrow> headers" where
  "or_default h k d = (if truthy (h k) then h else h(k \<mapsto> d))"

text \<open>\<open>(v ? v + ', ' : '')\<close>\<close>

definition with_comma :: "string option \<Rightarrow> string" where
  "with_comma v = (case v of None \<Rightarrow> [] | Some s \<Rightarrow> if s \<noteq> [] then s @ '', '' else [])"

text \<open>
  \<open>toLowerCase\<close> and lodash's \<open>upperFirst\<close> on the ASCII letters.  The lower-cased
  string is compared with \<open>basic\<close> and \<open>bearer\<close>, and no character outside ASCII
  lower-cases to one of their letters alone: a type that passes the comparison is made
  of ASCII letters.
\<close>

definition to_lower :: "char \<Rightarrow> char" where
  "to_lower c = (let n = (of_char c :: nat) in if 65 \<le> n \<and> n \<le> 90 then char_of (n + 32) else c)"

definition to_upper :: "char \<Rightarrow> char" where
  "to_upper c = (let n = (of_char c :: nat) in if 97 \<le> n \<and> n \<le> 122 then char_of (n - 32) else c)"

definition toLowerCase :: "string \<Rightarrow> string" where
  "toLowerCase s = map to_lower s"

definition upperFirst :: "string \<Rightarrow> string" where
  "upperFirst s = (case s of [] \<Rightarrow> [] | c # cs \<Rightarrow> to_upper c # cs)"

subsection \<open>The helper that writes the header value\<close>

text \<open>
  Modelled from the spec: \<open>buildToken\<close> of \<open>@verdaccio/utils\<close> is not among the sources.
  The spec gives the header value as \<open><Type> <token>\<close>, where the type is \<open>Basic\<close> or
  \<open>Bearer\<close>, capitalised in the output whatever the case of the input: the helper puts
  the first letter of the type in upper case and the others in lower case, and joins
  the type and the token with one space.
\<close>

definition buildToken :: "string \<Rightarrow> string \<Rightarrow> string" where
  "buildToken ty tok = upperFirst (toLowerCase ty) @ '' '' @ tok"

section \<open>Data model\<close>

subsection \<open>Errors\<close>

text \<open>
  The members of \<open>API_ERROR\<close> the file uses, and the messages it builds.  The message
  constructors stand for the template strings of the source:
  \<^item> \<open>ApiStatus BAD_STATUS_CODE n\<close> for \<^verbatim>\<open>`${errorUtils.API_ERROR.BAD_STATUS_CODE}: ${code}`\<close>,
  \<^item> \<open>BadUplinkStatus n\<close> for \<^verbatim>\<open>`bad uplink status code: ${res.statusCode}`\<close>,
  \<^item> \<open>BadStatusFromUplink n\<close> for \<^verbatim>\<open>`bad status code ${response.status} from uplink`\<close>,
  \<^item> \<open>AuthInvalidMsg\<close> for \<^verbatim>\<open>'Auth invalid'\<close>,
  \<^item> \<open>AuthTypeNotAllowed t\<close> for \<^verbatim>\<open>`Auth type '${_type}' not allowed`\<close>,
  \<^item> \<open>TokenRequiredMsg\<close> for \<open>constants.ERROR_CODE.token_required\<close>.
\<close>

datatype api_error =
  UPLINK_OFFLINE | NOT_PACKAGE_UPLINK | NOT_FILE_UPLINK | NOT_MODIFIED_NO_DATA
  | BAD_STATUS_CODE | CONTENT_MISMATCH

datatype message =
  Api api_error
  | ApiStatus api_error int
  | BadUplinkStatus int
  | BadStatusFromUplink int
  | AuthInvalidMsg
  | AuthTypeNotAllowed string
  | TokenRequiredMsg

record 'b response =
  statusCode :: int
  res_headers :: headers
  res_body :: 'b

text \<open>
  The errors the HTTP libraries raise: got's \<open>HTTPError\<close> (its \<open>code\<close> is
  \<open>ERR_NON_2XX_3XX_RESPONSE\<close> and it carries the response), and any other error, of which
  only the \<open>code\<close> is read.
\<close>

datatype 'b lib_error = HTTPError "'b response" | RequestError string

text \<open>
  Every error value the file throws or forwards:
  \<^item> \<open>InternalError m rs\<close> is \<open>errorUtils.getInternalError(m)\<close> with its field
    \<open>remoteStatus\<close> (\<open>None\<close> until assigned),
  \<^item> \<open>NotFoundError m\<close> is \<open>errorUtils.getNotFound(m)\<close>,
  \<^item> \<open>CodeError n m\<close> is \<open>errorUtils.getCode(n, m)\<close>,
  \<^item> \<open>AuthError m\<close> is the \<open>new Error(m)\<close> of \<open>_throwErrorAuth\<close>,
  \<^item> \<open>LibError e\<close> is an error of the HTTP library,
  \<^item> \<open>TypeError\<close> is the language's own (\<open>new URL\<close> on an invalid URL, a property read
    on \<open>undefined\<close>).
\<close>

datatype 'b verror =
  InternalError message "int option"
  | NotFoundError message
  | CodeError int message
  | AuthError message
  | LibError "'b lib_error"
  | TypeError

text \<open>The error kinds of the spec, as the values the file builds for them.\<close>

definition UplinkOffline :: "'b verror" where
  "UplinkOffline = InternalError (Api UPLINK_OFFLINE) None"

definition NotModifiedNoData :: "'b verror" where
  "NotModifiedNoData = CodeError HTTP_STATUS_NOT_MODIFIED (Api NOT_MODIFIED_NO_DATA)"

definition NotFoundUplink :: "'b verror" where
  "NotFoundUplink = NotFoundError (Api NOT_PACKAGE_UPLINK)"

definition NotFileUplink :: "'b verror" where
  "NotFileUplink = NotFoundError (Api NOT_FILE_UPLINK)"

definition BadStatusCode :: "int \<Rightarrow> 'b verror" where
  "BadStatusCode code = InternalError (ApiStatus BAD_STATUS_CODE code) (Some code)"

definition ContentMismatch :: "'b verror" where
  "ContentMismatch = InternalError (Api CONTENT_MISMATCH) None"

definition TokenRequired :: "'b verror" where
  "TokenRequired = AuthError TokenRequiredMsg"

text \<open>\<open>err.code\<close> as the \<open>catch\<close> of \<open>getRemoteMetadataNext\<close> reads it, when it is a string.\<close>

definition err_code :: "'b verror \<Rightarrow> string option" where
  "err_code e =
     (case e of
        LibError (HTTPError r) \<Rightarrow> Some ''ERR_NON_2XX_3XX_RESPONSE''
      | LibError (RequestError c) \<Rightarrow> Some c
      | _ \<Rightarrow> None)"

definition err_response :: "'b verror \<Rightarrow> 'b response option" where
  "err_response e = (case e of LibError (HTTPError r) \<Rightarrow> Some r | _ \<Rightarrow> None)"

subsection \<open>Configuration and the client object\<close>

text \<open>
  \<open>config.auth\<close>: absent, a value that is not an object, or an object with the fields
  \<open>type\<close>, \<open>token\<close> (here \<open>Some\<close> exactly when it is a string) and \<open>token_env\<close> (absent, a
  string, a boolean, or anything else).
\<close>

datatype token_env = TokenEnvNil | TokenEnvString string | TokenEnvBoolean bool | TokenEnvOther

record auth_conf =
  auth_type :: "string option"
  token :: "string option"
  token_env :: token_env

datatype auth_value = AuthNil | AuthNotObject | AuthObject auth_conf

record UpLinkConf =
  conf_url :: string
  conf_auth :: auth_value
  conf_headers :: "headers option"

record URL =
  href :: string
  host :: string
  protocol :: string

datatype agents = AgentHTTP string | AgentHTTPS string

record request =
  req_uri :: string
  req_method :: string
  req_headers :: headers
  req_agent :: "agents option"

text \<open>
  The messages written to the logger, by level.  \<open>HostOnline\<close> is the template
  \<open>host ... is now online\<close>, \<open>HostBackOnline\<close> is \<open>host ... is back online\<close>, \<open>HostOffline\<close> is
  \<open>host ... is now offline\<close>, \<open>Retry n\<close> is the retry line with its \<open>retryCount\<close>,
  \<open>Streaming\<close> and \<open>Status\<close> are the two status lines, \<open>MakingRequest\<close>, \<open>SearchRequest\<close> and
  \<open>SearchError\<close> are the lines of \<open>request\<close> and \<open>search\<close>, and \<open>Plain m\<close> is a bare message.
\<close>

datatype level = Warn | Info | Http | Error

datatype log_msg =
  HostOnline | HostBackOnline | HostOffline | Retry int | Streaming | Status
  | MakingRequest | SearchRequest | SearchError | Plain message

text \<open>
  The fields of \<open>ProxyStorage\<close> the modelled methods read or write.  \<open>logger\<close> holds what
  has been written to the logger, and \<open>sent\<close> (not a field of the class) records every
  request handed to an HTTP library: the network activity of the client.
  \<open>last_request_time\<close> is \<open>None\<close> until it is first assigned (the constructor does not
  initialise it).
\<close>

record ProxyStorage =
  config :: UpLinkConf
  failed_requests :: int
  userAgent :: string
  server_id :: string
  url :: URL
  max_fails :: int
  fail_timeout :: int
  upname :: string
  proxy :: "string option"
  agent :: "agents option"
  last_request_time :: "int option"
  logger :: "(level \<times> log_msg) list"
  sent :: "request list"

definition log :: "level \<Rightarrow> log_msg \<Rightarrow> ProxyStorage \<Rightarrow> ProxyStorage" where
  "log l m this = this\<lparr>logger := logger this @ [(l, m)]\<rparr>"

text \<open>
  The constructor, from the uplink's configuration, \<open>user_agent\<close> and \<open>server_id\<close> of the
  main configuration, the parsed \<open>config.url\<close>, the value \<open>_setupProxy\<close> leaves in
  \<open>this.proxy\<close>, and the numbers \<open>max_fails\<close> and \<open>fail_timeout\<close> as \<open>Number\<close> and
  \<open>parseInterval\<close> return them.
  \<^verbatim>\<open>this.failed_requests = 0;
  ...
  this.url = new URL(this.config.url);
  const isHTTPS = this.url.protocol === 'https:';
  this._setupProxy(this.url.hostname, config, mainConfig, isHTTPS);
  if (typeof this.proxy === 'string') {
    this.agent = isHTTPS
      ? { https: new ProxyAgent(this.proxy) as AgentHTTPS }
      : { http: new ProxyAgent(this.proxy) as AgentHTTP };
  }
  this.config.url = this.config.url.replace(/\/$/, '');\<close>
\<close>

definition strip_trailing_slash :: "string \<Rightarrow> string" where
  "strip_trailing_slash s = (if s \<noteq> [] \<and> last s = CHR ''/'' then butlast s else s)"

definition new_ProxyStorage ::
  "UpLinkConf \<Rightarrow> string \<Rightarrow> string \<Rightarrow> URL \<Rightarrow> string option \<Rightarrow> int \<Rightarrow> int \<Rightarrow> ProxyStorage" where
  "new_ProxyStorage cfg user_agent sid u prx mf ft =
     (let isHTTPS = (protocol u = ''https:'')
      in \<lparr> config = cfg\<lparr>conf_url := strip_trailing_slash (conf_url cfg)\<rparr>,
           failed_requests = 0,
           userAgent = user_agent,
           server_id = sid,
           url = u,
           max_fails = mf,
           fail_timeout = ft,
           upname = [],
           proxy = prx,
           agent = (case prx of
                      None \<Rightarrow> None
                    | Some p \<Rightarrow> Some (if isHTTPS then AgentHTTPS p else AgentHTTP p)),
           last_request_time = None,
           logger = [],
           sent = [] \<rparr>)"


section \<open>Header builder\<close>

text \<open>
  A method that can throw after writing to the logger returns the error or the value
  together with the client as it is afterwards.
\<close>

type_synonym ('b, 'a) result = "('b verror + 'a) \<times> ProxyStorage"

text \<open>
  \<^verbatim>\<open>private _throwErrorAuth(message: string): Error {
    this.logger.error(message);
    throw new Error(message);
  }\<close>
\<close>

definition throwErrorAuth :: "ProxyStorage \<Rightarrow> message \<Rightarrow> ('b, 'a) result" where
  "throwErrorAuth this m = (Inl (AuthError m), log Error (Plain m) this)"

text \<open>
  \<^verbatim>\<open>private _setHeaderAuthorization(headers: any, type: string, token: any): void {
    const _type: string = type.toLowerCase();
    if (_type !== TOKEN_BEARER.toLowerCase() && _type !== TOKEN_BASIC.toLowerCase()) {
      this._throwErrorAuth(`Auth type '${_type}' not allowed`);
    }
    type = _.upperFirst(type);
    headers[HEADERS.AUTHORIZATION] = buildToken(type, token);
  }\<close>
\<close>

definition setHeaderAuthorization ::
  "ProxyStorage \<Rightarrow> headers \<Rightarrow> string \<Rightarrow> string \<Rightarrow> ('b, headers) result" where
  "setHeaderAuthorization this hdrs ty tok =
     (let ty' = toLowerCase ty
      in if ty' \<noteq> toLowerCase TOKEN_BEARER \<and> ty' \<noteq> toLowerCase TOKEN_BASIC
         then throwErrorAuth this (AuthTypeNotAllowed ty')
         else (Inr (hdrs(HEADERS_AUTHORIZATION \<mapsto> buildToken (upperFirst ty) tok)), this))"

text \<open>
  \<open>setAuthNext\<close> (the body of the deprecated \<open>_setAuth\<close> is the same, line by line).
  \<open>env\<close> is \<open>process.env\<close>.  The branches follow the source: no \<open>auth\<close> or an
  \<open>Authorization\<close> already set returns the headers; an \<open>auth\<close> that is not an object
  throws \<open>Auth invalid\<close>; the token is \<open>auth.token\<close> when that is a string, else is read
  through \<open>auth.token_env\<close> when that is not nil (a string names the variable, \<open>true\<close>
  means \<open>NPM_TOKEN\<close>, anything else logs and throws \<open>token_required\<close>), else is
  \<open>NPM_TOKEN\<close>; a nil token throws \<open>token_required\<close>; the type is
  \<open>tokenConf.type || TOKEN_BASIC\<close>.
\<close>

definition setAuthNext ::
  "ProxyStorage \<Rightarrow> (string \<Rightarrow> string option) \<Rightarrow> headers \<Rightarrow> ('b, headers) result" where
  "setAuthNext this env hdrs =
     (case conf_auth (config this) of
        AuthNil \<Rightarrow> (Inr hdrs, this)
      | AuthNotObject \<Rightarrow>
          if truthy (hdrs HEADERS_AUTHORIZATION) then (Inr hdrs, this)
          else throwErrorAuth this AuthInvalidMsg
      | AuthObject tokenConf \<Rightarrow>
          if truthy (hdrs HEADERS_AUTHORIZATION) then (Inr hdrs, this)
          else
            let ty = (if truthy (auth_type tokenConf) then the (auth_type tokenConf) else TOKEN_BASIC);
                finish = (\<lambda>tk. case tk of
                            None \<Rightarrow> throwErrorAuth this TokenRequiredMsg
                          | Some t \<Rightarrow> setHeaderAuthorization this hdrs ty t)
            in (case token tokenConf of
                  Some t \<Rightarrow> finish (Some t)
                | None \<Rightarrow>
                    (case token_env tokenConf of
                       TokenEnvString n \<Rightarrow> finish (env n)
                     | TokenEnvBoolean True \<Rightarrow> finish (env ''NPM_TOKEN'')
                     | TokenEnvNil \<Rightarrow> finish (env ''NPM_TOKEN'')
                     | _ \<Rightarrow> throwErrorAuth (log Error (Plain TokenRequiredMsg) this) TokenRequiredMsg)))"

text \<open>
  \<^verbatim>\<open>private getHeadersNext(headers = {}): gotHeaders {
    headers[accept] = headers[accept] || contentTypeAccept;
    headers[acceptEncoding] = headers[acceptEncoding] || 'gzip';
    headers[userAgent] = headers[userAgent] || `npm (${this.userAgent})`;
    return this.setAuthNext(headers);
  }\<close>
\<close>

definition getHeadersNext ::
  "ProxyStorage \<Rightarrow> (string \<Rightarrow> string option) \<Rightarrow> headers option \<Rightarrow> ('b, headers) result" where
  "getHeadersNext this env hdrs_opt =
     (let h0 = (case hdrs_opt of None \<Rightarrow> Map.empty | Some h \<Rightarrow> h);
          h1 = or_default h0 HEADERS_ACCEPT contentTypeAccept;
          h2 = or_default h1 HEADERS_ACCEPT_ENCODING ''gzip'';
          h3 = or_default h2 HEADERS_USER_AGENT (''npm ('' @ userAgent this @ '')'')
      in setAuthNext this env h3)"

text \<open>
  \<^verbatim>\<open>private addProxyHeadersNext(headers: gotHeaders, remoteAddress?: string): gotHeaders {
    if (!this.agent) {
      headers[HEADERS.FORWARDED_FOR] =
        (headers['x-forwarded-for'] ? headers['x-forwarded-for'] + ', ' : '') + remoteAddress;
    }
    headers['via'] = headers['via'] ? headers['via'] + ', ' : '';
    headers['via'] += '1.1 ' + this.server_id + ' (Verdaccio)';
    return headers;
  }\<close>
  A missing \<open>remoteAddress\<close> is \<open>undefined\<close>, which string concatenation writes as
  \<open>undefined\<close>.
\<close>

definition addProxyHeadersNext :: "ProxyStorage \<Rightarrow> headers \<Rightarrow> string option \<Rightarrow> headers" where
  "addProxyHeadersNext this hdrs remoteAddr =
     (let h1 = (if agent this = None
                then hdrs(HEADERS_FORWARDED_FOR \<mapsto>
                       with_comma (hdrs ''x-forwarded-for'') @
                       (case remoteAddr of None \<Rightarrow> ''undefined'' | Some a \<Rightarrow> a))
                else hdrs);
          h2 = h1(''via'' \<mapsto> with_comma (h1 ''via''))
      in h2(''via'' \<mapsto> with_comma (h1 ''via'') @ ''1.1 '' @ server_id this @ '' (Verdaccio)''))"

text \<open>
  \<^verbatim>\<open>private applyUplinkHeaders(headers: gotHeaders): gotHeaders {
    if (!this.config.headers) { return headers; }
    for (const key in this.config.headers) { headers[key] = this.config.headers[key]; }
    return headers;
  }\<close>
\<close>

definition applyUplinkHeaders :: "ProxyStorage \<Rightarrow> headers \<Rightarrow> headers" where
  "applyUplinkHeaders this hdrs =
     (case conf_headers (config this) of None \<Rightarrow> hdrs | Some ch \<Rightarrow> hdrs ++ ch)"

text \<open>
  The options of a call: \<open>headers\<close>, \<open>etag\<close>, \<open>remoteAddress\<close> and \<open>method\<close>
  (\<open>retry\<close> and \<open>timeout\<close> are handed to the HTTP library as they are).
\<close>

record ISyncUplinksOptions =
  opt_headers :: "headers option"
  etag :: "string option"
  remoteAddress :: "string option"
  opt_method :: "string option"

text \<open>
  The header lines that open \<open>getRemoteMetadataNext\<close> and, word for word,
  \<open>fetchTarballNext\<close>:
  \<^verbatim>\<open>let headers = this.getHeadersNext(options?.headers);
  headers = this.addProxyHeadersNext(headers, options.remoteAddress);
  headers = this.applyUplinkHeaders(headers);
  // the following headers cannot be overwritten
  if (_.isNil(options.etag) === false) {
    headers[HEADERS.NONE_MATCH] = options.etag;
    headers[HEADERS.ACCEPT] = contentTypeAccept;
  }\<close>
\<close>

definition nextHeaders ::
  "ProxyStorage \<Rightarrow> (string \<Rightarrow> string option) \<Rightarrow> ISyncUplinksOptions \<Rightarrow> ('b, headers) result" where
  "nextHeaders this env options =
     (case getHeadersNext this env (opt_headers options) of
        (Inl e, this') \<Rightarrow> (Inl e, this')
      | (Inr h, this') \<Rightarrow>
          let h1 = addProxyHeadersNext this' h (remoteAddress options);
              h2 = applyUplinkHeaders this' h1
          in (Inr (case etag options of
                     None \<Rightarrow> h2
                   | Some e \<Rightarrow> h2(HEADERS_NONE_MATCH \<mapsto> e, HEADERS_ACCEPT \<mapsto> contentTypeAccept)),
              this'))"

section \<open>Health tracker\<close>

text \<open>
  \<^verbatim>\<open>private _ifRequestFailure(): boolean {
    return (
      this.failed_requests >= this.max_fails &&
      Math.abs(Date.now() - (this.last_request_time as number)) < this.fail_timeout
    );
  }\<close>
  With \<open>last_request_time\<close> never assigned the difference is not a number and the
  comparison is false.
\<close>

definition ifRequestFailure :: "ProxyStorage \<Rightarrow> int \<Rightarrow> bool" where
  "ifRequestFailure this now =
     (failed_requests this \<ge> max_fails this \<and>
      (case last_request_time this of
         None \<Rightarrow> False
       | Some t \<Rightarrow> \<bar>now - t\<bar> < fail_timeout this))"

text \<open>
  \<open>_statusCheck(alive)\<close> with its argument (the call without argument is
  \<open>_ifRequestFailure() === false\<close>):
  \<^verbatim>\<open>if (alive) {
    if (this.failed_requests >= this.max_fails) { this.logger.warn(..., 'host ... is back online'); }
    this.failed_requests = 0;
  } else {
    this.failed_requests++;
    if (this.failed_requests === this.max_fails) { this.logger.warn(..., 'host ... is now offline'); }
  }
  this.last_request_time = Date.now();\<close>
\<close>

definition statusCheck :: "ProxyStorage \<Rightarrow> bool \<Rightarrow> int \<Rightarrow> ProxyStorage" where
  "statusCheck this alive now =
     (let t = (if alive
               then (if failed_requests this \<ge> max_fails this
                     then log Warn HostBackOnline this else this)\<lparr>failed_requests := 0\<rparr>
               else (let t' = this\<lparr>failed_requests := failed_requests this + 1\<rparr>
                     in if failed_requests t' = max_fails t' then log Warn HostOffline t' else t'))
      in t\<lparr>last_request_time := Some now\<rparr>)"

section \<open>Metadata fetcher\<close>

text \<open>
  What the library \<open>got\<close> does with a request is an input of the model: the events and
  hook calls it makes, in order, and how its promise settles.  \<open>OnRequest t\<close> is the
  \<open>request\<close> event, emitted for every request that is issued, with \<open>Date.now()\<close> at that
  moment; \<open>AfterResponse r\<close> is a call of the \<open>afterResponse\<close> hook; \<open>BeforeRetry c\<close> is a
  call of the \<open>beforeRetry\<close> hook with its retry count (\<open>None\<close> when it is nil);
  \<open>OnResponse\<close> is the \<open>response\<close> event.  With the options the file passes, got
  resolves with a response of status 2xx or 304 and rejects any other final response
  with an \<open>HTTPError\<close>.
\<close>

datatype 'b got_event = OnRequest int | AfterResponse "'b response" | BeforeRetry "int option" | OnResponse

datatype 'b got_outcome = Resolved "'b response" | Rejected "'b lib_error"

text \<open>
  \<^verbatim>\<open>(afterResponse) => {
    const code = afterResponse.statusCode;
    if (code >= HTTP_STATUS.OK && code < HTTP_STATUS.MULTIPLE_CHOICES) {
      if (this.failed_requests >= this.max_fails) {
        this.failed_requests = 0;
        this.logger.warn({ host: this.url.host }, 'host ... is now online');
      }
    }
    return afterResponse;
  }\<close>
\<close>

definition afterResponse :: "ProxyStorage \<Rightarrow> 'b response \<Rightarrow> ProxyStorage" where
  "afterResponse this r =
     (let code = statusCode r
      in if code \<ge> HTTP_STATUS_OK \<and> code < HTTP_STATUS_MULTIPLE_CHOICES
         then (if failed_requests this \<ge> max_fails this
               then log Warn HostOnline (this\<lparr>failed_requests := 0\<rparr>)
               else this)
         else this)"

text \<open>
  \<^verbatim>\<open>(_options, error: any, count) => {
    this.failed_requests = count ?? 0;
    this.logger.info({ ..., retryCount: this.failed_requests }, "retry ...");
    if (this.failed_requests >= this.max_fails) {
      this.logger.warn({ host: this.url.host }, 'host ... is now offline');
    }
  }\<close>
\<close>

definition beforeRetry :: "ProxyStorage \<Rightarrow> int option \<Rightarrow> ProxyStorage" where
  "beforeRetry this count =
     (let t1 = this\<lparr>failed_requests := (case count of None \<Rightarrow> 0 | Some c \<Rightarrow> c)\<rparr>;
          t2 = log Info (Retry (failed_requests t1)) t1
      in if failed_requests t2 \<ge> max_fails t2 then log Warn HostOffline t2 else t2)"

text \<open>\<^verbatim>\<open>.on('request', () => { this.last_request_time = Date.now(); })\<close>\<close>

definition onRequest :: "ProxyStorage \<Rightarrow> int \<Rightarrow> ProxyStorage" where
  "onRequest this now = this\<lparr>last_request_time := Some now\<rparr>"

fun on_got_event :: "ProxyStorage \<Rightarrow> 'b got_event \<Rightarrow> ProxyStorage" where
  "on_got_event this (OnRequest now) = onRequest this now"
| "on_got_event this (AfterResponse r) = afterResponse this r"
| "on_got_event this (BeforeRetry c) = beforeRetry this c"
| "on_got_event this OnResponse = log Http Streaming this"

text \<open>
  The \<open>catch\<close> of \<open>getRemoteMetadataNext\<close>, which also receives the error thrown for a
  304 inside the \<open>try\<close>:
  \<^verbatim>\<open>if (err.code === 'ERR_NON_2XX_3XX_RESPONSE') {
    const code = err.response.statusCode;
    if (code === HTTP_STATUS.NOT_FOUND) {
      throw errorUtils.getNotFound(errorUtils.API_ERROR.NOT_PACKAGE_UPLINK);
    }
    if (!(code >= HTTP_STATUS.OK && code < HTTP_STATUS.MULTIPLE_CHOICES)) {
      const error = errorUtils.getInternalError(`${errorUtils.API_ERROR.BAD_STATUS_CODE}: ${code}`);
      error.remoteStatus = code;
      throw error;
    }
  }
  throw err;\<close>
\<close>

definition metadata_catch :: "'b verror \<Rightarrow> 'b verror" where
  "metadata_catch err =
     (if err_code err = Some ''ERR_NON_2XX_3XX_RESPONSE'' then
        (case err_response err of
           None \<Rightarrow> TypeError
         | Some r \<Rightarrow>
             let code = statusCode r
             in if code = HTTP_STATUS_NOT_FOUND then NotFoundError (Api NOT_PACKAGE_UPLINK)
                else if \<not> (code \<ge> HTTP_STATUS_OK \<and> code < HTTP_STATUS_MULTIPLE_CHOICES)
                then InternalError (ApiStatus BAD_STATUS_CODE code) (Some code)
                else err)
      else err)"

text \<open>
  \<open>getRemoteMetadataNext(name, options)\<close>, at time \<open>now\<close>, with \<open>got\<close>'s run for the
  request (its events and its outcome).  The result is the pair of the decoded body and
  the \<open>etag\<close> response header.
\<close>

definition getRemoteMetadataNext ::
  "ProxyStorage \<Rightarrow> (string \<Rightarrow> string option) \<Rightarrow> int \<Rightarrow> string \<Rightarrow> ISyncUplinksOptions \<Rightarrow>
   'b got_event list \<times> 'b got_outcome \<Rightarrow> ('b, 'b \<times> string option) result" where
  "getRemoteMetadataNext this env now name options run =
     (if ifRequestFailure this now then (Inl UplinkOffline, this)
      else
        case nextHeaders this env options of
          (Inl e, this') \<Rightarrow> (Inl e, this')
        | (Inr hdrs, this') \<Rightarrow>
            let method = (if truthy (opt_method options) then the (opt_method options) else ''GET'');
                uri = conf_url (config this') @ ''/'' @ encode name;
                t1 = this'\<lparr>sent := sent this' @
                       [\<lparr>req_uri = uri, req_method = method, req_headers = hdrs,
                         req_agent = agent this'\<rparr>]\<rparr>;
                t2 = foldl on_got_event t1 (fst run)
            in (case snd run of
                  Resolved response \<Rightarrow>
                    if statusCode response = HTTP_STATUS_NOT_MODIFIED
                    then (Inl (metadata_catch NotModifiedNoData), t2)
                    else (Inr (res_body response, res_headers response ''etag''),
                          log Http Status t2)
                | Rejected err \<Rightarrow> (Inl (metadata_catch (LibError err)), t2)))"


section \<open>Tarball fetcher\<close>

subsection \<open>The deprecated request helper\<close>

text \<open>
  \<open>_setHeaders(options)\<close>: \<open>options.headers || {}\<close>, the same three defaults as
  \<open>getHeadersNext\<close>, then \<open>_setAuth\<close>.
\<close>

definition setHeaders ::
  "ProxyStorage \<Rightarrow> (string \<Rightarrow> string option) \<Rightarrow> headers option \<Rightarrow> ('b, headers) result" where
  "setHeaders this env hdrs_opt =
     (let h0 = (case hdrs_opt of None \<Rightarrow> Map.empty | Some h \<Rightarrow> h);
          h1 = or_default h0 HEADERS_ACCEPT contentTypeAccept;
          h2 = or_default h1 HEADERS_ACCEPT_ENCODING ''gzip'';
          h3 = or_default h2 HEADERS_USER_AGENT (''npm ('' @ userAgent this @ '')'')
      in setAuthNext this env h3)"

text \<open>The incoming request \<open>options.req\<close>: its headers and \<open>connection.remoteAddress\<close>.\<close>

record incoming =
  in_headers :: headers
  in_remoteAddress :: "string option"

text \<open>
  \<^verbatim>\<open>private _addProxyHeaders(req: any, headers: any): void {
    if (req) {
      if (!this.agent) {
        headers[HEADERS.FORWARDED_FOR] =
          (req.headers['x-forwarded-for'] ? req.headers['x-forwarded-for'] + ', ' : '') +
          req.connection.remoteAddress;
      }
    }
    headers['Via'] = req?.headers['via'] ? req.headers['via'] + ', ' : '';
    headers['Via'] += '1.1 ' + this.server_id + ' (Verdaccio)';
  }\<close>
\<close>

definition addProxyHeaders :: "ProxyStorage \<Rightarrow> incoming option \<Rightarrow> headers \<Rightarrow> headers" where
  "addProxyHeaders this req hdrs =
     (let h1 = (case req of
                  None \<Rightarrow> hdrs
                | Some r \<Rightarrow>
                    if agent this = None
                    then hdrs(HEADERS_FORWARDED_FOR \<mapsto>
                           with_comma (in_headers r ''x-forwarded-for'') @
                           (case in_remoteAddress r of None \<Rightarrow> ''undefined'' | Some a \<Rightarrow> a))
                    else hdrs)
      in h1(''Via'' \<mapsto>
            (case req of None \<Rightarrow> [] | Some r \<Rightarrow> with_comma (in_headers r ''via'')) @
            ''1.1 '' @ server_id this @ '' (Verdaccio)''))"

text \<open>
  The options of \<open>request\<close> and the stream it returns: the stub that only emits
  \<open>UPLINK_OFFLINE\<close> on the next tick, or the request handed to the HTTP library.
\<close>

record request_options =
  ro_uri_full :: "string option"
  ro_uri :: "string option"
  ro_method :: "string option"
  ro_headers :: "headers option"
  ro_req :: "incoming option"

datatype read_stream = OfflineStream | LiveStream

text \<open>
  \<open>request(options)\<close> called without a callback, at time \<open>now\<close>:
  \<^verbatim>\<open>if (this._statusCheck() === false) { ... streamRead.emit('error', UPLINK_OFFLINE) ... return streamRead; }
  const headers: Headers = this._setHeaders(options);
  this._addProxyHeaders(options.req, headers);
  this._overrideWithUpLinkConfLocaligHeaders(headers);
  const method = options.method || 'GET';
  const uri = options.uri_full || this.config.url + options.uri;
  self.logger.info(..., "making request: ...");
  ...
  const req = requestDeprecated(requestOptions, requestCallback);\<close>
  \<open>_overrideWithUpLinkConfLocaligHeaders\<close> has the body of \<open>applyUplinkHeaders\<close>.  The
  request also carries the proxy, the timeout and the TLS options of the client, which
  no property below reads.
\<close>

definition request ::
  "ProxyStorage \<Rightarrow> (string \<Rightarrow> string option) \<Rightarrow> int \<Rightarrow> request_options \<Rightarrow> ('b, read_stream) result" where
  "request this env now options =
     (if \<not> (ifRequestFailure this now = False) then (Inr OfflineStream, this)
      else
        case setHeaders this env (ro_headers options) of
          (Inl e, this') \<Rightarrow> (Inl e, this')
        | (Inr h, this') \<Rightarrow>
            let h1 = addProxyHeaders this' (ro_req options) h;
                h2 = applyUplinkHeaders this' h1;
                method = (if truthy (ro_method options) then the (ro_method options) else ''GET'');
                uri = (if truthy (ro_uri_full options) then the (ro_uri_full options)
                       else conf_url (config this') @
                            (case ro_uri options of None \<Rightarrow> ''undefined'' | Some u \<Rightarrow> u));
                t1 = log Info MakingRequest this'
            in (Inr LiveStream,
                t1\<lparr>sent := sent t1 @
                   [\<lparr>req_uri = uri, req_method = method, req_headers = h2, req_agent = None\<rparr>]\<rparr>))"

subsection \<open>fetchTarball\<close>

text \<open>
  What the returned stream emits: an error, the synthetic \<open>content-length\<close> event, and
  the data and the end that \<open>pipe\<close> copies from the request.
\<close>

datatype 'b stream_event = SError "'b verror" | SContentLength string | SData nat | SEnd

text \<open>
  What the request emits is an input of the model: \<open>response\<close> and \<open>error\<close> (each with
  \<open>Date.now()\<close> at that moment), \<open>data\<close> with the length of the chunk, and \<open>end\<close> with
  the length of its optional chunk.
\<close>

datatype 'b req_event =
  EvResponse int "unit response" | EvError int "'b verror" | EvData nat | EvEnd "nat option"

text \<open>
  The variables of \<open>fetchTarball\<close> (\<open>current_length\<close>, \<open>expected_length\<close>), the flag
  \<open>statusCalled\<close> of \<open>request\<close>, whether \<open>readStream.pipe(stream)\<close> has run, and what the
  returned stream has emitted.
\<close>

record 'b tarball_state =
  current_length :: nat
  expected_length :: "string option"
  statusCalled :: bool
  piped :: bool
  emitted :: "'b stream_event list"

definition emit :: "'b stream_event \<Rightarrow> 'b tarball_state \<Rightarrow> 'b tarball_state" where
  "emit e st = st\<lparr>emitted := emitted st @ [e]\<rparr>"

text \<open>
  \<open>current_length != expected_length\<close> compares a number with the header string, which
  is converted to a number first.  A \<open>Content-Length\<close> header is a non-empty string of
  decimal digits; any other string is taken as not a number, which differs from every
  length.
\<close>

definition ToNumber :: "string \<Rightarrow> nat option" where
  "ToNumber s =
     (if s \<noteq> [] \<and> list_all (\<lambda>c. 48 \<le> (of_char c :: nat) \<and> (of_char c :: nat) \<le> 57) s
      then Some (foldl (\<lambda>a c. 10 * a + ((of_char c :: nat) - 48)) 0 s)
      else None)"

text \<open>
  The handlers, in the order they are registered: those of \<open>request\<close> (\<open>response\<close> calls
  \<open>_statusCheck(true)\<close> and \<open>error\<close> calls \<open>_statusCheck(false)\<close>, once between them), then
  those of \<open>fetchTarball\<close>:
  \<^verbatim>\<open>readStream.on('response', function (res: any) {
    if (res.statusCode === HTTP_STATUS.NOT_FOUND) {
      return stream.emit('error', errorUtils.getNotFound(errorUtils.API_ERROR.NOT_FILE_UPLINK));
    }
    if (!(res.statusCode >= HTTP_STATUS.OK && res.statusCode < HTTP_STATUS.MULTIPLE_CHOICES)) {
      return stream.emit('error', errorUtils.getInternalError(`bad uplink status code: ${res.statusCode}`));
    }
    if (res.headers[HEADER_TYPE.CONTENT_LENGTH]) {
      expected_length = res.headers[HEADER_TYPE.CONTENT_LENGTH];
      stream.emit(HEADER_TYPE.CONTENT_LENGTH, res.headers[HEADER_TYPE.CONTENT_LENGTH]);
    }
    readStream.pipe(stream);
  });
  readStream.on('error', function (err) { stream.emit('error', err); });
  readStream.on('data', function (data) { current_length += data.length; });
  readStream.on('end', function (data) {
    if (data) { current_length += data.length; }
    if (expected_length && current_length != expected_length) {
      stream.emit('error', errorUtils.getInternalError(errorUtils.API_ERROR.CONTENT_MISMATCH));
    }
  });\<close>
\<close>

fun tarball_event ::
  "ProxyStorage \<times> 'b tarball_state \<Rightarrow> 'b req_event \<Rightarrow> ProxyStorage \<times> 'b tarball_state" where
  "tarball_event (this, st) (EvResponse now res) =
     (let this1 = (if \<not> statusCalled st then statusCheck this True now else this);
          st1 = st\<lparr>statusCalled := True\<rparr>
      in if statusCode res = HTTP_STATUS_NOT_FOUND
         then (this1, emit (SError NotFileUplink) st1)
         else if \<not> (statusCode res \<ge> HTTP_STATUS_OK \<and> statusCode res < HTTP_STATUS_MULTIPLE_CHOICES)
         then (this1, emit (SError (InternalError (BadUplinkStatus (statusCode res)) None)) st1)
         else
           let st2 = (if truthy (res_headers res HEADER_TYPE_CONTENT_LENGTH)
                      then emit (SContentLength (the (res_headers res HEADER_TYPE_CONTENT_LENGTH)))
                             (st1\<lparr>expected_length := res_headers res HEADER_TYPE_CONTENT_LENGTH\<rparr>)
                      else st1)
           in (this1, st2\<lparr>piped := True\<rparr>))"
| "tarball_event (this, st) (EvError now err) =
     (let this1 = (if \<not> statusCalled st then statusCheck this False now else this)
      in (this1, emit (SError err) (st\<lparr>statusCalled := True\<rparr>)))"
| "tarball_event (this, st) (EvData n) =
     (let st1 = st\<lparr>current_length := current_length st + n\<rparr>
      in (this, if piped st1 then emit (SData n) st1 else st1))"
| "tarball_event (this, st) (EvEnd d) =
     (let st1 = (case d of None \<Rightarrow> st | Some n \<Rightarrow> st\<lparr>current_length := current_length st + n\<rparr>);
          st2 = (if truthy (expected_length st1) \<and>
                    ToNumber (the (expected_length st1)) \<noteq> Some (current_length st1)
                 then emit (SError ContentMismatch) st1 else st1)
      in (this, if piped st2 then emit SEnd st2 else st2))"

definition tarball_init :: "'b tarball_state" where
  "tarball_init =
     \<lparr>current_length = 0, expected_length = None, statusCalled = False, piped = False,
      emitted = []\<rparr>"

text \<open>
  \<open>fetchTarball(url)\<close> at time \<open>now\<close>, with the events of the request.  The result is
  what the returned stream emits; an exception of the header builder leaves the call
  before a stream is returned.
  \<^verbatim>\<open>const readStream = this.request({
    uri_full: url, encoding: null, headers: { Accept: contentTypeAccept },
  });\<close>
\<close>

definition fetchTarball ::
  "ProxyStorage \<Rightarrow> (string \<Rightarrow> string option) \<Rightarrow> int \<Rightarrow> string \<Rightarrow> 'b req_event list \<Rightarrow>
   ('b, 'b stream_event list) result" where
  "fetchTarball this env now u events =
     (case request this env now
             \<lparr>ro_uri_full = Some u, ro_uri = None, ro_method = None,
              ro_headers = Some [''Accept'' \<mapsto> contentTypeAccept], ro_req = None\<rparr> of
        (Inl e, this') \<Rightarrow> (Inl e, this')
      | (Inr OfflineStream, this') \<Rightarrow> (Inr [SError UplinkOffline], this')
      | (Inr LiveStream, this') \<Rightarrow>
          let fin = foldl tarball_event (this', tarball_init) events
          in (Inr (emitted (snd fin)), fst fin))"

text \<open>The errors among the events of a stream, in order.\<close>

fun errors_of :: "'b stream_event list \<Rightarrow> 'b verror list" where
  "errors_of [] = []"
| "errors_of (SError e # es) = e # errors_of es"
| "errors_of (_ # es) = errors_of es"

subsection \<open>fetchTarballNext\<close>

text \<open>
  \<open>fetchTarballNext(url, options)\<close> builds the headers and hands the request to
  \<open>got.stream\<close>; an exception of the header builder rejects the promise.  The bytes are
  copied to the returned stream by \<open>pipeline\<close>; the function has no \<open>data\<close> or \<open>end\<close>
  handler of its own.
\<close>

definition fetchTarballNext ::
  "ProxyStorage \<Rightarrow> (string \<Rightarrow> string option) \<Rightarrow> string \<Rightarrow> ISyncUplinksOptions \<Rightarrow> ('b, unit) result" where
  "fetchTarballNext this env u options =
     (case nextHeaders this env options of
        (Inl e, this') \<Rightarrow> (Inl e, this')
      | (Inr hdrs, this') \<Rightarrow>
          (Inr (),
           this'\<lparr>sent := sent this' @
              [\<lparr>req_uri = u, req_method = ''GET'', req_headers = hdrs, req_agent = agent this'\<rparr>]\<rparr>))"

text \<open>
  Its \<open>response\<close> handler, as what it emits on the returned stream:
  \<^verbatim>\<open>if (res.statusCode === HTTP_STATUS.NOT_FOUND) {
    return fetchStream.emit('error', errorUtils.getNotFound(errorUtils.API_ERROR.NOT_FILE_UPLINK));
  }
  if (!(res.statusCode >= HTTP_STATUS.OK && res.statusCode < HTTP_STATUS.MULTIPLE_CHOICES)) {
    return fetchStream.emit('error', errorUtils.getInternalError(`bad uplink status code: ${res.statusCode}`));
  }
  if (res.headers[HEADER_TYPE.CONTENT_LENGTH]) {
    expected_length = res.headers[HEADER_TYPE.CONTENT_LENGTH];
    fetchStream.emit(HEADER_TYPE.CONTENT_LENGTH, res.headers[HEADER_TYPE.CONTENT_LENGTH]);
  }\<close>
\<close>

definition fetchTarballNext_response :: "unit response \<Rightarrow> 'b stream_event list" where
  "fetchTarballNext_response res =
     (if statusCode res = HTTP_STATUS_NOT_FOUND then [SError NotFileUplink]
      else if \<not> (statusCode res \<ge> HTTP_STATUS_OK \<and> statusCode res < HTTP_STATUS_MULTIPLE_CHOICES)
      then [SError (InternalError (BadUplinkStatus (statusCode res)) None)]
      else if truthy (res_headers res HEADER_TYPE_CONTENT_LENGTH)
      then [SContentLength (the (res_headers res HEADER_TYPE_CONTENT_LENGTH))]
      else [])"

section \<open>Search streamer\<close>

text \<open>
  \<open>href.replace(/([^:]\/)\/+/g, '$1')\<close>: scanning from the left, a character other than
  \<open>:\<close> followed by two or more slashes is replaced by that character and one slash,
  and the scan goes on after the slashes.
\<close>

function collapse_slashes :: "string \<Rightarrow> string" where
  "collapse_slashes (c # d # e # rest) =
     (if c \<noteq> CHR '':'' \<and> d = CHR ''/'' \<and> e = CHR ''/''
      then c # CHR ''/'' # collapse_slashes (dropWhile (\<lambda>x. x = CHR ''/'') rest)
      else c # collapse_slashes (d # e # rest))"
| "collapse_slashes [c, d] = [c, d]"
| "collapse_slashes [c] = [c]"
| "collapse_slashes [] = []"
  by pat_completeness auto
termination
  by (relation "measure length") (auto simp: less_Suc_eq_le intro: le_trans [OF length_dropWhile_le])

text \<open>A parsed JSON document.\<close>

datatype json =
  JNull | JBool bool | JNum int | JStr string | JArr "json list" | JObj "(string \<times> json) list"

text \<open>
  The library call \<open>JSONStream.parse('objects')\<close>: the path has the one key \<open>objects\<close>,
  and the parser emits, as one item each, the values found under that key of the root
  object that are not \<open>null\<close>; the other keys of the root are skipped.
\<close>

definition JSONStream_parse :: "string \<Rightarrow> json \<Rightarrow> json list" where
  "JSONStream_parse key root =
     (case root of
        JObj kvs \<Rightarrow> map snd (filter (\<lambda>kv. fst kv = key \<and> snd kv \<noteq> JNull) kvs)
      | _ \<Rightarrow> [])"

text \<open>How \<open>undiciFetch\<close> settles: a response, or a transport error.\<close>

datatype 'b fetch_outcome = Fetched "'b response" | FetchFailed "'b verror"

text \<open>
  \<open>search({ url, abort })\<close>.  \<open>URL_href\<close> stands for \<open>new URL(s).href\<close> (\<open>None\<close> when the
  constructor throws), and the body of the response is its text as a parsed JSON
  document.  Every exception is logged and thrown again.
  \<^verbatim>\<open>const fullURL = new URL(`${this.url}${url}`);
  const uri = fullURL.href.replace(/([^:]\/)\/+/g, '$1');
  this.logger.http({ uri, uplink: this.upname }, 'search request to uplink ...');
  response = await undiciFetch(uri, { method: 'GET', signal: abort?.signal });
  if (response.status >= HTTP_STATUS.BAD_REQUEST) {
    throw errorUtils.getInternalError(`bad status code ${response.status} from uplink`);
  }
  const streamSearch = new PassThrough({ objectMode: true });
  const res = await response.text();
  const streamResponse = Readable.from(res);
  streamResponse.pipe(JSONStream.parse('objects')).pipe(streamSearch, { end: true });
  return streamSearch;\<close>
\<close>

definition search ::
  "ProxyStorage \<Rightarrow> (string \<Rightarrow> string option) \<Rightarrow> string \<Rightarrow> json fetch_outcome \<Rightarrow>
   (json, json list) result" where
  "search this URL_href u fetched =
     (case URL_href (href (url this) @ u) of
        None \<Rightarrow> (Inl TypeError, log Error SearchError this)
      | Some full \<Rightarrow>
          let uri = collapse_slashes full;
              t1 = log Http SearchRequest this;
              t2 = t1\<lparr>sent := sent t1 @
                     [\<lparr>req_uri = uri, req_method = ''GET'', req_headers = Map.empty,
                       req_agent = None\<rparr>]\<rparr>
          in (case fetched of
                FetchFailed err \<Rightarrow> (Inl err, log Error SearchError t2)
              | Fetched response \<Rightarrow>
                  if statusCode response \<ge> HTTP_STATUS_BAD_REQUEST
                  then (Inl (InternalError (BadStatusFromUplink (statusCode response)) None),
                        log Error SearchError t2)
                  else (Inr (JSONStream_parse ''objects'' (res_body response)), t2)))"

section \<open>Notions for stating the properties\<close>

text \<open>The field \<open>remoteStatus\<close> of an error.\<close>

definition remoteStatus :: "'b verror \<Rightarrow> int option" where
  "remoteStatus e = (case e of InternalError m rs \<Rightarrow> rs | _ \<Rightarrow> None)"

text \<open>
  For stating what a request carries: the header the caller supplied in
  \<open>options.headers\<close>, and the header the uplink's configuration sets in \<open>config.headers\<close>.
\<close>

definition caller_header :: "ISyncUplinksOptions \<Rightarrow> string \<Rightarrow> string option" where
  "caller_header options k = (case opt_headers options of None \<Rightarrow> None | Some h \<Rightarrow> h k)"

definition uplink_header :: "ProxyStorage \<Rightarrow> string \<Rightarrow> string option" where
  "uplink_header this k = (case conf_headers (config this) of None \<Rightarrow> None | Some ch \<Rightarrow> ch k)"

text \<open>
  A character other than \<open>:\<close> followed by two slashes occurs in the string: what the
  replacement in \<open>search\<close> removes.
\<close>

fun double_slash :: "string \<Rightarrow> bool" where
  "double_slash (c # d # e # rest) =
     ((c \<noteq> CHR '':'' \<and> d = CHR ''/'' \<and> e = CHR ''/'') \<or> double_slash (d # e # rest))"
| "double_slash [c, d] = False"
| "double_slash [c] = False"
| "double_slash [] = False"

text \<open>The errors among the events of a request, in order.\<close>

fun request_errors :: "'b req_event list \<Rightarrow> 'b verror list" where
  "request_errors [] = []"
| "request_errors (EvError t e # evs) = e # request_errors evs"
| "request_errors (_ # evs) = request_errors evs"

text \<open>The error is \<open>bad uplink status code: n\<close> for some status \<open>n\<close>.\<close>

definition is_bad_uplink_status :: "'b verror \<Rightarrow> bool" where
  "is_bad_uplink_status e = (case e of InternalError (BadUplinkStatus n) None \<Rightarrow> True | _ \<Rightarrow> False)"

text \<open>
  The errors a stream of \<open>fetchTarball\<close> can carry once the request is sent: the two of
  the status classification, the content mismatch, and an error of the request itself.
\<close>

definition listed_error :: "'b req_event list \<Rightarrow> 'b verror \<Rightarrow> bool" where
  "listed_error events e =
     (e = NotFileUplink \<or> is_bad_uplink_status e \<or> e = ContentMismatch \<or>
      e \<in> set (request_errors events))"

text \<open>Two clients that differ at most in what has been written to the logger.\<close>

definition same_but_log :: "ProxyStorage \<Rightarrow> ProxyStorage \<Rightarrow> bool" where
  "same_but_log t t' = (\<exists>l. t' = t\<lparr>logger := l\<rparr>)"

section \<open>Example inputs\<close>

text \<open>
  A client for \<open>https://registry.example.com/\<close> with \<open>max_fails = 2\<close> and a
  \<open>fail_timeout\<close> of five minutes, in several configurations, with the options, the
  responses and the headers the examples below use.
\<close>

definition ex_config :: UpLinkConf where
  "ex_config = \<lparr>conf_url = ''https://registry.example.com'', conf_auth = AuthNil, conf_headers = None\<rparr>"

definition ex_url :: URL where
  "ex_url = \<lparr>href = ''https://registry.example.com/'', host = ''registry.example.com'', protocol = ''https:''\<rparr>"

definition ex_client :: ProxyStorage where
  "ex_client = new_ProxyStorage ex_config ''verdaccio/6'' ''srv'' ex_url None 2 300000"

definition ex_offline :: ProxyStorage where
  "ex_offline = ex_client\<lparr>failed_requests := 2, last_request_time := Some 1000\<rparr>"

definition ex_options :: ISyncUplinksOptions where
  "ex_options = \<lparr>opt_headers = None, etag = None, remoteAddress = Some ''10.0.0.7'', opt_method = None\<rparr>"

definition ex_response :: "int \<Rightarrow> json response" where
  "ex_response code = \<lparr>statusCode = code, res_headers = [''etag'' \<mapsto> ''abc''], res_body = JObj [(''name'', JStr ''pkg'')]\<rparr>"

definition ex_headers :: headers where
  "ex_headers =
     [''Accept'' \<mapsto> ''application/json;'', ''Accept-Encoding'' \<mapsto> ''gzip'',
      ''User-Agent'' \<mapsto> ''npm (verdaccio/6)'', ''X-Forwarded-For'' \<mapsto> ''10.0.0.7'',
      ''via'' \<mapsto> ''1.1 srv (Verdaccio)'']"

definition ex_options_via :: ISyncUplinksOptions where
  "ex_options_via =
     \<lparr>opt_headers = Some [''via'' \<mapsto> ''1.0 fred''], etag = None, remoteAddress = None,
      opt_method = None\<rparr>"

definition ex_headers_via :: headers where
  "ex_headers_via =
     [''via'' \<mapsto> ''1.0 fred'', ''Accept'' \<mapsto> ''application/json;'', ''Accept-Encoding'' \<mapsto> ''gzip'',
      ''User-Agent'' \<mapsto> ''npm (verdaccio/6)'', ''X-Forwarded-For'' \<mapsto> ''undefined'',
      ''via'' \<mapsto> ''1.0 fred, 1.1 srv (Verdaccio)'']"

definition ex_config_headers :: UpLinkConf where
  "ex_config_headers =
     ex_config\<lparr>conf_headers := Some [''X-Forwarded-For'' \<mapsto> ''10.1.1.1'', ''via'' \<mapsto> ''1.1 edge'']\<rparr>"

definition ex_override :: ProxyStorage where
  "ex_override = new_ProxyStorage ex_config_headers ''verdaccio/6'' ''srv'' ex_url None 2 300000"

definition ex_proxied :: ProxyStorage where
  "ex_proxied =
     new_ProxyStorage ex_config_headers ''verdaccio/6'' ''srv'' ex_url (Some ''http://corp:8080'') 2 300000"

definition ex_headers_override :: headers where
  "ex_headers_override =
     [''via'' \<mapsto> ''1.0 fred'', ''Accept'' \<mapsto> ''application/json;'', ''Accept-Encoding'' \<mapsto> ''gzip'',
      ''User-Agent'' \<mapsto> ''npm (verdaccio/6)'', ''X-Forwarded-For'' \<mapsto> ''undefined'',
      ''via'' \<mapsto> ''1.0 fred, 1.1 srv (Verdaccio)''] ++
     [''X-Forwarded-For'' \<mapsto> ''10.1.1.1'', ''via'' \<mapsto> ''1.1 edge'']"

definition ex_headers_proxied :: headers where
  "ex_headers_proxied =
     [''via'' \<mapsto> ''1.0 fred'', ''Accept'' \<mapsto> ''application/json;'', ''Accept-Encoding'' \<mapsto> ''gzip'',
      ''User-Agent'' \<mapsto> ''npm (verdaccio/6)'',
      ''via'' \<mapsto> ''1.0 fred, 1.1 srv (Verdaccio)''] ++
     [''X-Forwarded-For'' \<mapsto> ''10.1.1.1'', ''via'' \<mapsto> ''1.1 edge'']"

definition ex_proxied_plain :: ProxyStorage where
  "ex_proxied_plain =
     new_ProxyStorage ex_config ''verdaccio/6'' ''srv'' ex_url (Some ''http://corp:8080'') 2 300000"

definition ex_headers_proxied_plain :: headers where
  "ex_headers_proxied_plain =
     [''Accept'' \<mapsto> ''application/json;'', ''Accept-Encoding'' \<mapsto> ''gzip'',
      ''User-Agent'' \<mapsto> ''npm (verdaccio/6)'', ''via'' \<mapsto> ''1.1 srv (Verdaccio)'']"

definition ex_options_none :: ISyncUplinksOptions where
  "ex_options_none =
     \<lparr>opt_headers = Some [''x-forwarded-for'' \<mapsto> ''192.168.0.9''], etag = Some ''abc'',
      remoteAddress = None, opt_method = None\<rparr>"

definition ex_headers_none :: headers where
  "ex_headers_none =
     [''x-forwarded-for'' \<mapsto> ''192.168.0.9'', ''Accept'' \<mapsto> ''application/json;'',
      ''Accept-Encoding'' \<mapsto> ''gzip'', ''User-Agent'' \<mapsto> ''npm (verdaccio/6)'',
      ''X-Forwarded-For'' \<mapsto> ''192.168.0.9, undefined'', ''via'' \<mapsto> ''1.1 srv (Verdaccio)'',
      ''If-None-Match'' \<mapsto> ''abc'', ''Accept'' \<mapsto> ''application/json;'']"

definition ex_auth_client :: "auth_value \<Rightarrow> ProxyStorage" where
  "ex_auth_client a = ex_client\<lparr>config := ex_config\<lparr>conf_auth := a\<rparr>\<rparr>"

definition ex_env :: "string \<Rightarrow> string option" where
  "ex_env = [''NPM_TOKEN'' \<mapsto> ''secret'', ''UPLINK_TOKEN'' \<mapsto> ''fromenv'']"

definition ex_search_body :: json where
  "ex_search_body =
     JObj [(''total'', JNum 2),
           (''objects'', JArr [JObj [(''a'', JNum 1)], JObj [(''a'', JNum 2)]]),
           (''date'', JStr ''Wed Nov 01 2023'')]"

definition ex_search_response :: "int \<Rightarrow> json response" where
  "ex_search_response code = \<lparr>statusCode = code, res_headers = Map.empty, res_body = ex_search_body\<rparr>"

definition ex_tar_response :: "int \<Rightarrow> unit response" where
  "ex_tar_response code =
     \<lparr>statusCode = code, res_headers = [''content-length'' \<mapsto> ''100''], res_body = ()\<rparr>"

section \<open>What the methods leave unchanged, and the requests they send\<close>

text \<open>
  The header builder changes nothing of the client but the logger; the hooks and the
  handlers of a request do not touch \<open>sent\<close>.  Hence the one request each method
  sends, stated on the client the method was called on.
\<close>

lemmas ex_defs = ex_offline_def ex_client_def new_ProxyStorage_def ex_config_def ex_url_def
  ex_options_def ex_response_def

lemmas const_defs = HTTP_STATUS_OK_def HTTP_STATUS_MULTIPLE_CHOICES_def HTTP_STATUS_NOT_MODIFIED_def
  HTTP_STATUS_BAD_REQUEST_def HTTP_STATUS_NOT_FOUND_def HEADERS_ACCEPT_def
  HEADERS_ACCEPT_ENCODING_def HEADERS_USER_AGENT_def HEADERS_AUTHORIZATION_def
  HEADERS_FORWARDED_FOR_def HEADERS_NONE_MATCH_def HEADERS_JSON_def
  HEADER_TYPE_CONTENT_LENGTH_def TOKEN_BASIC_def TOKEN_BEARER_def contentTypeAccept_def

lemmas ex_defs2 = ex_defs ex_options_via_def ex_config_headers_def ex_override_def ex_proxied_def

lemmas header_defs = nextHeaders_def getHeadersNext_def setAuthNext_def addProxyHeadersNext_def
  applyUplinkHeaders_def or_default_def truthy_def with_comma_def Let_def

lemma log_simps [simp]:
  "sent (log l m t) = sent t" "failed_requests (log l m t) = failed_requests t"
  "max_fails (log l m t) = max_fails t" "last_request_time (log l m t) = last_request_time t"
  "logger (log l m t) = logger t @ [(l, m)]" "agent (log l m t) = agent t"
  "config (log l m t) = config t" "server_id (log l m t) = server_id t"
  "fail_timeout (log l m t) = fail_timeout t" "url (log l m t) = url t"
  by (simp_all add: log_def)

lemma same_but_log_refl: "same_but_log t t"
  by (auto simp: same_but_log_def intro: exI [of _ "logger t"])

lemma same_but_log_log: "same_but_log t t' \<Longrightarrow> same_but_log t (log l m t')"
  by (auto simp: same_but_log_def log_def)

lemma throwErrorAuth_same: "same_but_log t t' \<Longrightarrow> same_but_log t (snd (throwErrorAuth t' m :: ('b, 'a) result))"
  by (simp add: throwErrorAuth_def same_but_log_log)

lemma setHeaderAuthorization_same: "same_but_log t (snd (setHeaderAuthorization t h ty tok :: ('b, headers) result))"
  by (simp add: setHeaderAuthorization_def Let_def throwErrorAuth_same same_but_log_refl)

lemma setAuthNext_same: "same_but_log t (snd (setAuthNext t env h :: ('b, headers) result))"
  by (auto simp: setAuthNext_def Let_def throwErrorAuth_same same_but_log_refl same_but_log_log
      setHeaderAuthorization_same split: auth_value.splits option.splits token_env.splits bool.splits)

lemma getHeadersNext_same: "same_but_log t (snd (getHeadersNext t env ho :: ('b, headers) result))"
  by (simp add: getHeadersNext_def Let_def setAuthNext_same)

lemma setHeaders_same: "same_but_log t (snd (setHeaders t env ho :: ('b, headers) result))"
  by (simp add: setHeaders_def Let_def setAuthNext_same)

lemma nextHeaders_same: "same_but_log t (snd (nextHeaders t env opts :: ('b, headers) result))"
proof (cases "getHeadersNext t env (opt_headers opts) :: ('b, headers) result")
  case (Pair r t')
  with getHeadersNext_same [of t env "opt_headers opts", where ?'b = 'b]
  have "same_but_log t t'" by simp
  with Pair show ?thesis
    by (cases r) (simp_all add: nextHeaders_def Let_def)
qed

lemma same_but_log_fields:
  assumes "same_but_log t t'"
  shows "sent t' = sent t" "agent t' = agent t" "config t' = config t" "server_id t' = server_id t"
    "failed_requests t' = failed_requests t" "max_fails t' = max_fails t"
    "last_request_time t' = last_request_time t" "fail_timeout t' = fail_timeout t"
  using assms by (auto simp: same_but_log_def)

lemma same_but_log_headers:
  assumes "same_but_log t t'"
  shows "applyUplinkHeaders t' h = applyUplinkHeaders t h"
    and "addProxyHeadersNext t' h ra = addProxyHeadersNext t h ra"
    and "addProxyHeaders t' rq h = addProxyHeaders t rq h"
  using same_but_log_fields [OF assms]
  by (simp_all add: applyUplinkHeaders_def addProxyHeadersNext_def addProxyHeaders_def
      split: option.splits)

lemma on_got_event_sent: "sent (on_got_event t ev) = sent t"
  by (cases ev) (simp_all add: onRequest_def afterResponse_def beforeRetry_def Let_def)

lemma foldl_on_got_event_sent: "sent (foldl on_got_event t evs) = sent t"
  by (induction evs arbitrary: t) (simp_all add: on_got_event_sent)



lemma tarball_offline:
  "ifRequestFailure this now \<Longrightarrow>
   fetchTarball this env now u events = (Inr [SError UplinkOffline], this)"
  by (simp add: fetchTarball_def request_def)

lemma metadata_sent:
  assumes "\<not> ifRequestFailure this now"
    and "fst (nextHeaders this env options :: ('b, headers) result) = Inr h"
  shows "sent (snd (getRemoteMetadataNext this env now name options
                      (run :: 'b got_event list \<times> 'b got_outcome))) =
         sent this @ [\<lparr>req_uri = conf_url (config this) @ ''/'' @ encode name,
                        req_method = (if truthy (opt_method options) then the (opt_method options) else ''GET''),
                        req_headers = h, req_agent = agent this\<rparr>]"
proof -
  obtain t' where nh: "(nextHeaders this env options :: ('b, headers) result) = (Inr h, t')"
    using assms(2) by (cases "nextHeaders this env options :: ('b, headers) result") simp
  have "same_but_log this t'"
    using nextHeaders_same [of this env options, where ?'b = 'b] nh by simp
  note f = same_but_log_fields [OF this]
  show ?thesis
    using assms(1) nh f
    by (cases "snd run")
       (simp_all add: getRemoteMetadataNext_def Let_def foldl_on_got_event_sent)
qed


lemma search_sent:
  "URL_href (href (url this) @ p) = Some full \<Longrightarrow>
   sent (snd (search this URL_href p fetched)) =
     sent this @ [\<lparr>req_uri = collapse_slashes full, req_method = ''GET'',
                    req_headers = Map.empty, req_agent = None\<rparr>]"
  by (cases fetched) (simp_all add: search_def Let_def)

lemma tarballNext_sent:
  assumes "fst (nextHeaders this env options :: ('b, headers) result) = Inr h"
  shows "sent (snd (fetchTarballNext this env u options :: ('b, unit) result)) =
         sent this @ [\<lparr>req_uri = u, req_method = ''GET'', req_headers = h, req_agent = agent this\<rparr>]"
proof -
  obtain t' where nh: "(nextHeaders this env options :: ('b, headers) result) = (Inr h, t')"
    using assms by (cases "nextHeaders this env options :: ('b, headers) result") simp
  have "same_but_log this t'"
    using nextHeaders_same [of this env options, where ?'b = 'b] nh by simp
  note f = same_but_log_fields [OF this]
  show ?thesis using nh f by (simp add: fetchTarballNext_def)
qed

section \<open>The headers of a request\<close>

text \<open>
  The header builder sets \<open>authorization\<close> and the three defaults and leaves every other
  header of the caller as it is; from there, the values of \<open>via\<close> and of
  \<open>X-Forwarded-For\<close> in the headers of a request.
\<close>

lemma setHeaderAuthorization_other:
  "fst (setHeaderAuthorization t h ty tok :: ('b, headers) result) = Inr g \<Longrightarrow>
   k \<noteq> HEADERS_AUTHORIZATION \<Longrightarrow> g k = h k"
  by (auto simp: setHeaderAuthorization_def Let_def throwErrorAuth_def split: if_splits)

lemma setAuthNext_other:
  "fst (setAuthNext t env h :: ('b, headers) result) = Inr g \<Longrightarrow>
   k \<noteq> HEADERS_AUTHORIZATION \<Longrightarrow> g k = h k"
  by (auto simp: setAuthNext_def Let_def throwErrorAuth_def
      dest: setHeaderAuthorization_other
      split: auth_value.splits option.splits token_env.splits bool.splits if_splits)

lemma getHeadersNext_other:
  assumes "fst (getHeadersNext t env ho :: ('b, headers) result) = Inr g"
    and "k \<noteq> HEADERS_AUTHORIZATION" "k \<noteq> HEADERS_ACCEPT" "k \<noteq> HEADERS_ACCEPT_ENCODING"
    and "k \<noteq> HEADERS_USER_AGENT"
  shows "g k = (case ho of None \<Rightarrow> None | Some h \<Rightarrow> h k)"
proof -
  have "g k = (or_default (or_default (or_default (case ho of None \<Rightarrow> Map.empty | Some h \<Rightarrow> h)
      HEADERS_ACCEPT contentTypeAccept) HEADERS_ACCEPT_ENCODING ''gzip'')
      HEADERS_USER_AGENT (''npm ('' @ userAgent t @ '')'')) k"
    using assms(1,2) by (auto simp: getHeadersNext_def Let_def dest: setAuthNext_other)
  also have "\<dots> = (case ho of None \<Rightarrow> None | Some h \<Rightarrow> h k)"
    using assms(3-5) by (simp add: or_default_def split: option.splits)
  finally show ?thesis .
qed

lemma nextHeaders_build:
  assumes "fst (nextHeaders this env options :: ('b, headers) result) = Inr h"
  obtains g where "fst (getHeadersNext this env (opt_headers options) :: ('b, headers) result) = Inr g"
    and "h = (case etag options of
                None \<Rightarrow> applyUplinkHeaders this (addProxyHeadersNext this g (remoteAddress options))
              | Some e \<Rightarrow> (applyUplinkHeaders this (addProxyHeadersNext this g (remoteAddress options)))
                            (HEADERS_NONE_MATCH \<mapsto> e, HEADERS_ACCEPT \<mapsto> contentTypeAccept))"
proof (cases "getHeadersNext this env (opt_headers options) :: ('b, headers) result")
  case (Pair r t')
  have sb: "same_but_log this t'"
    using getHeadersNext_same [of this env "opt_headers options", where ?'b = 'b] Pair by simp
  note g = same_but_log_headers [OF sb]
  show ?thesis
  proof (cases r)
    case (Inl e)
    with Pair assms show ?thesis by (simp add: nextHeaders_def)
  next
    case (Inr g0)
    with Pair assms that [of g0] g show ?thesis
      by (auto simp: nextHeaders_def Let_def split: option.splits)
  qed
qed

lemma nextHeaders_via:
  assumes "fst (nextHeaders this env options :: ('b, headers) result) = Inr h"
  shows "h ''via'' =
         (case uplink_header this ''via'' of
            Some v \<Rightarrow> Some v
          | None \<Rightarrow> Some (with_comma (caller_header options ''via'') @
                           ''1.1 '' @ server_id this @ '' (Verdaccio)''))"
proof -
  from assms obtain g where
    g: "fst (getHeadersNext this env (opt_headers options) :: ('b, headers) result) = Inr g"
    and h: "h = (case etag options of
                None \<Rightarrow> applyUplinkHeaders this (addProxyHeadersNext this g (remoteAddress options))
              | Some e \<Rightarrow> (applyUplinkHeaders this (addProxyHeadersNext this g (remoteAddress options)))
                            (HEADERS_NONE_MATCH \<mapsto> e, HEADERS_ACCEPT \<mapsto> contentTypeAccept))"
    by (rule nextHeaders_build)
  have gv: "g ''via'' = caller_header options ''via''"
    using getHeadersNext_other [OF g, of "''via''"] by (simp add: const_defs caller_header_def)
  show ?thesis
    unfolding h
    by (simp add: applyUplinkHeaders_def addProxyHeadersNext_def uplink_header_def gv Let_def
        const_defs map_add_def split: option.splits)
qed

lemma nextHeaders_forwarded:
  assumes "fst (nextHeaders this env options :: ('b, headers) result) = Inr h"
  shows "h HEADERS_FORWARDED_FOR =
         (case uplink_header this HEADERS_FORWARDED_FOR of
            Some v \<Rightarrow> Some v
          | None \<Rightarrow>
              if agent this = None
              then Some (with_comma (caller_header options ''x-forwarded-for'') @
                         (case remoteAddress options of None \<Rightarrow> ''undefined'' | Some a \<Rightarrow> a))
              else caller_header options HEADERS_FORWARDED_FOR)"
proof -
  from assms obtain g where
    g: "fst (getHeadersNext this env (opt_headers options) :: ('b, headers) result) = Inr g"
    and h: "h = (case etag options of
                None \<Rightarrow> applyUplinkHeaders this (addProxyHeadersNext this g (remoteAddress options))
              | Some e \<Rightarrow> (applyUplinkHeaders this (addProxyHeadersNext this g (remoteAddress options)))
                            (HEADERS_NONE_MATCH \<mapsto> e, HEADERS_ACCEPT \<mapsto> contentTypeAccept))"
    by (rule nextHeaders_build)
  have g1: "g ''x-forwarded-for'' = caller_header options ''x-forwarded-for''"
    using getHeadersNext_other [OF g, of "''x-forwarded-for''"]
    by (simp add: const_defs caller_header_def)
  have g2: "g ''X-Forwarded-For'' = caller_header options ''X-Forwarded-For''"
    using getHeadersNext_other [OF g, of "''X-Forwarded-For''"]
    by (simp add: const_defs caller_header_def)
  show ?thesis
    unfolding h
    by (simp add: applyUplinkHeaders_def addProxyHeadersNext_def uplink_header_def g1 g2 Let_def
        const_defs map_add_def split: option.splits)
qed

lemma addProxyHeadersNext_forwarded:
  "addProxyHeadersNext this g ra HEADERS_FORWARDED_FOR =
     (if agent this = None
      then Some (with_comma (g ''x-forwarded-for'') @ (case ra of None \<Rightarrow> ''undefined'' | Some a \<Rightarrow> a))
      else g HEADERS_FORWARDED_FOR)"
  by (simp add: addProxyHeadersNext_def Let_def const_defs)

lemma nextHeaders_other_key:
  assumes "fst (nextHeaders this env options :: ('b, headers) result) = Inr h"
    and "agent this \<noteq> None"
    and "k \<noteq> HEADERS_AUTHORIZATION" "k \<noteq> HEADERS_ACCEPT" "k \<noteq> HEADERS_ACCEPT_ENCODING"
    and "k \<noteq> HEADERS_USER_AGENT" "k \<noteq> ''via''" "k \<noteq> HEADERS_NONE_MATCH"
  shows "h k = (case uplink_header this k of
                  Some v \<Rightarrow> Some v
                | None \<Rightarrow> caller_header options k)"
proof -
  from assms(1) obtain g where
    g: "fst (getHeadersNext this env (opt_headers options) :: ('b, headers) result) = Inr g"
    and h: "h = (case etag options of
                None \<Rightarrow> applyUplinkHeaders this (addProxyHeadersNext this g (remoteAddress options))
              | Some e \<Rightarrow> (applyUplinkHeaders this (addProxyHeadersNext this g (remoteAddress options)))
                            (HEADERS_NONE_MATCH \<mapsto> e, HEADERS_ACCEPT \<mapsto> contentTypeAccept))"
    by (rule nextHeaders_build)
  have gk: "g k = caller_header options k"
    using getHeadersNext_other [OF g assms(3-6)] by (simp add: caller_header_def)
  show ?thesis
    unfolding h using assms(2,4,7,8)
    by (auto simp: applyUplinkHeaders_def addProxyHeadersNext_def uplink_header_def gk Let_def
        map_add_def split: option.splits)
qed

lemma forwarded_name_not_built:
  assumes "toLowerCase k = ''x-forwarded-for''"
  shows "k \<noteq> HEADERS_AUTHORIZATION \<and> k \<noteq> HEADERS_ACCEPT \<and> k \<noteq> HEADERS_ACCEPT_ENCODING \<and>
         k \<noteq> HEADERS_USER_AGENT \<and> k \<noteq> ''via'' \<and> k \<noteq> HEADERS_NONE_MATCH"
  using assms
  by (auto simp: const_defs toLowerCase_def to_lower_def Let_def char_of_eq_iff)

lemma nextHeaders_forwarded_name:
  assumes "fst (nextHeaders this env options :: ('b, headers) result) = Inr h"
    and "agent this \<noteq> None" and "toLowerCase k = ''x-forwarded-for''"
  shows "h k = (case uplink_header this k of
                  Some v \<Rightarrow> Some v
                | None \<Rightarrow> caller_header options k)"
  using nextHeaders_other_key [OF assms(1,2), of k] forwarded_name_not_built [OF assms(3)]
  by simp

section \<open>The header builder on the examples\<close>

text \<open>The headers the builder returns on the example clients, by evaluation.\<close>

lemma ex_nextHeaders:
  "nextHeaders ex_client Map.empty ex_options = (Inr ex_headers, ex_client)"
  by (simp add: nextHeaders_def getHeadersNext_def setAuthNext_def addProxyHeadersNext_def
      applyUplinkHeaders_def or_default_def truthy_def with_comma_def Let_def ex_defs const_defs
      ex_headers_def)

lemma ex_setHeaders:
  "setHeaders ex_client Map.empty (Some [''Accept'' \<mapsto> contentTypeAccept]) =
     (Inr [''Accept'' \<mapsto> ''application/json;'', ''Accept-Encoding'' \<mapsto> ''gzip'',
           ''User-Agent'' \<mapsto> ''npm (verdaccio/6)''], ex_client)"
  by (simp add: setHeaders_def setAuthNext_def or_default_def truthy_def Let_def ex_defs const_defs)

lemma ex_offline_is_offline: "ifRequestFailure ex_offline 2000"
  by (simp add: ifRequestFailure_def ex_defs)

lemma ex_client_is_online: "\<not> ifRequestFailure ex_client 2000"
  by (simp add: ifRequestFailure_def ex_defs)

lemma ex_nextHeaders_via:
  "nextHeaders ex_client Map.empty ex_options_via = (Inr ex_headers_via, ex_client)"
  by (simp add: header_defs ex_defs2 const_defs ex_headers_via_def)

lemma ex_nextHeaders_override:
  "nextHeaders ex_override Map.empty ex_options_via = (Inr ex_headers_override, ex_override)"
  by (simp add: header_defs ex_defs2 const_defs ex_headers_override_def)

lemma ex_nextHeaders_proxied:
  "nextHeaders ex_proxied Map.empty ex_options_via = (Inr ex_headers_proxied, ex_proxied)"
  by (simp add: header_defs ex_defs2 const_defs ex_headers_proxied_def)

lemma ex_nextHeaders_proxied_plain:
  "nextHeaders ex_proxied_plain Map.empty ex_options = (Inr ex_headers_proxied_plain, ex_proxied_plain)"
  by (simp add: header_defs ex_defs2 const_defs ex_headers_proxied_plain_def ex_proxied_plain_def)

lemma ex_nextHeaders_none:
  "nextHeaders ex_client Map.empty ex_options_none = (Inr ex_headers_none, ex_client)"
  by (simp add: header_defs ex_defs2 const_defs ex_headers_none_def ex_options_none_def)

lemma ex_headers_at:
  "ex_headers ''via'' = Some ''1.1 srv (Verdaccio)''"
  "ex_headers_via ''via'' = Some ''1.0 fred, 1.1 srv (Verdaccio)''"
  "ex_headers_via ''X-Forwarded-For'' = Some ''undefined''"
  "ex_headers_override ''via'' = Some ''1.1 edge''"
  "ex_headers_override ''X-Forwarded-For'' = Some ''10.1.1.1''"
  "ex_headers_proxied ''X-Forwarded-For'' = Some ''10.1.1.1''"
  by (simp_all add: ex_headers_def ex_headers_via_def ex_headers_override_def ex_headers_proxied_def)

section \<open>The preflight check (claim C1)\<close>




section \<open>Classification of the metadata response (claim C2)\<close>

lemma metadata_result:
  assumes "\<not> ifRequestFailure this now"
    and "fst (nextHeaders this env options :: ('b, headers) result) = Inr h"
  shows "fst (getRemoteMetadataNext this env now name options (evs, out :: 'b got_outcome)) =
         (case out of
            Resolved r \<Rightarrow>
              if statusCode r = HTTP_STATUS_NOT_MODIFIED then Inl (metadata_catch NotModifiedNoData)
              else Inr (res_body r, res_headers r ''etag'')
          | Rejected e \<Rightarrow> Inl (metadata_catch (LibError e)))"
proof -
  obtain t' where nh: "(nextHeaders this env options :: ('b, headers) result) = (Inr h, t')"
    using assms(2) by (cases "nextHeaders this env options :: ('b, headers) result") simp
  show ?thesis
    using assms(1) nh
    by (cases out) (simp_all add: getRemoteMetadataNext_def Let_def)
qed

text \<open>
  Claim C2.  When the uplink is online and the headers are built, \<open>getRemoteMetadataNext\<close>
  classifies the final response by its status: a 304 (which got resolves with) fails
  with \<open>NotModifiedNoData\<close>; a 404 (which got rejects with an \<open>HTTPError\<close>) fails with
  \<open>NotFoundUplink\<close>; any other status outside 2xx that got rejects fails with
  \<open>BadStatusCode\<close>, whose \<open>remoteStatus\<close> is the status; and a 2xx response returns the
  pair of the decoded body and the \<open>etag\<close> header.
\<close>

theorem metadata_classification:
  "\<not> ifRequestFailure this now \<longrightarrow>
   fst (nextHeaders this env options :: ('b, headers) result) = Inr h \<longrightarrow>
     (statusCode r = 304 \<longrightarrow>
        fst (getRemoteMetadataNext this env now name options (evs, Resolved r))
          = Inl NotModifiedNoData) \<and>
     (statusCode r = 404 \<longrightarrow>
        fst (getRemoteMetadataNext this env now name options (evs, Rejected (HTTPError r)))
          = Inl NotFoundUplink) \<and>
     (statusCode r \<noteq> 404 \<and> \<not> (200 \<le> statusCode r \<and> statusCode r < 300) \<longrightarrow>
        fst (getRemoteMetadataNext this env now name options (evs, Rejected (HTTPError r)))
          = Inl (BadStatusCode (statusCode r)) \<and>
        remoteStatus (BadStatusCode (statusCode r) :: 'b verror) = Some (statusCode r)) \<and>
     (200 \<le> statusCode r \<and> statusCode r < 300 \<longrightarrow>
        fst (getRemoteMetadataNext this env now name options (evs, Resolved (r :: 'b response)))
          = Inr (res_body r, res_headers r ''etag''))"
proof (intro impI)
  assume a: "\<not> ifRequestFailure this now"
    and b: "fst (nextHeaders this env options :: ('b, headers) result) = Inr h"
  note m = metadata_result [OF a b, where name = name and evs = evs]
  show "(statusCode r = 304 \<longrightarrow>
        fst (getRemoteMetadataNext this env now name options (evs, Resolved r))
          = Inl NotModifiedNoData) \<and>
     (statusCode r = 404 \<longrightarrow>
        fst (getRemoteMetadataNext this env now name options (evs, Rejected (HTTPError r)))
          = Inl NotFoundUplink) \<and>
     (statusCode r \<noteq> 404 \<and> \<not> (200 \<le> statusCode r \<and> statusCode r < 300) \<longrightarrow>
        fst (getRemoteMetadataNext this env now name options (evs, Rejected (HTTPError r)))
          = Inl (BadStatusCode (statusCode r)) \<and>
        remoteStatus (BadStatusCode (statusCode r) :: 'b verror) = Some (statusCode r)) \<and>
     (200 \<le> statusCode r \<and> statusCode r < 300 \<longrightarrow>
        fst (getRemoteMetadataNext this env now name options (evs, Resolved r))
          = Inr (res_body r, res_headers r ''etag''))"
    by (simp add: m metadata_catch_def err_code_def err_response_def NotModifiedNoData_def
        NotFoundUplink_def BadStatusCode_def remoteStatus_def Let_def const_defs)
qed

text \<open>The classification at the statuses 304, 404, 500 and 200.\<close>

theorem metadata_classification_witness:
  "fst (getRemoteMetadataNext ex_client Map.empty 2000 ''pkg'' ex_options
          ([OnRequest 2000, AfterResponse (ex_response 304)], Resolved (ex_response 304)))
     = Inl NotModifiedNoData \<and>
   fst (getRemoteMetadataNext ex_client Map.empty 2000 ''pkg'' ex_options
          ([OnRequest 2000, AfterResponse (ex_response 404)], Rejected (HTTPError (ex_response 404))))
     = Inl NotFoundUplink \<and>
   fst (getRemoteMetadataNext ex_client Map.empty 2000 ''pkg'' ex_options
          ([OnRequest 2000, AfterResponse (ex_response 500)], Rejected (HTTPError (ex_response 500))))
     = Inl (InternalError (ApiStatus BAD_STATUS_CODE 500) (Some 500)) \<and>
   fst (getRemoteMetadataNext ex_client Map.empty 2000 ''pkg'' ex_options
          ([OnRequest 2000, AfterResponse (ex_response 200)], Resolved (ex_response 200)))
     = Inr (JObj [(''name'', JStr ''pkg'')], Some ''abc'')"
proof -
  have a: "fst (nextHeaders ex_client Map.empty ex_options :: (json, headers) result) = Inr ex_headers"
    by (simp add: ex_nextHeaders)
  have s: "statusCode (ex_response c) = c" "res_body (ex_response c) = JObj [(''name'', JStr ''pkg'')]"
    "res_headers (ex_response c) ''etag'' = Some ''abc''" for c
    by (simp_all add: ex_response_def)
  show ?thesis
    using metadata_classification [where this = ex_client and now = 2000 and env = Map.empty
        and options = ex_options and h = ex_headers and name = "''pkg''" and r = "ex_response 304"
        and evs = "[OnRequest 2000, AfterResponse (ex_response 304)]"]
      metadata_classification [where this = ex_client and now = 2000 and env = Map.empty
        and options = ex_options and h = ex_headers and name = "''pkg''" and r = "ex_response 404"
        and evs = "[OnRequest 2000, AfterResponse (ex_response 404)]"]
      metadata_classification [where this = ex_client and now = 2000 and env = Map.empty
        and options = ex_options and h = ex_headers and name = "''pkg''" and r = "ex_response 500"
        and evs = "[OnRequest 2000, AfterResponse (ex_response 500)]"]
      metadata_classification [where this = ex_client and now = 2000 and env = Map.empty
        and options = ex_options and h = ex_headers and name = "''pkg''" and r = "ex_response 200"
        and evs = "[OnRequest 2000, AfterResponse (ex_response 200)]"]
      ex_client_is_online a
    by (simp add: s BadStatusCode_def)
qed

section \<open>Transitions of the health tracker (claim C3)\<close>

text \<open>
  The health fields after \<open>getRemoteMetadataNext\<close> are those the hooks and handlers
  leave, applied in the order of the events.
\<close>

lemma metadata_state:
  assumes "\<not> ifRequestFailure this now"
    and "fst (nextHeaders this env options :: ('b, headers) result) = Inr h"
  obtains t1 where
    "\<And>evs out. last_request_time (snd (getRemoteMetadataNext this env now name options
         (evs, out :: 'b got_outcome))) = last_request_time (foldl on_got_event t1 evs)"
    "\<And>evs out. failed_requests (snd (getRemoteMetadataNext this env now name options
         (evs, out :: 'b got_outcome))) = failed_requests (foldl on_got_event t1 evs)"
proof -
  obtain t' where nh: "(nextHeaders this env options :: ('b, headers) result) = (Inr h, t')"
    using assms(2) by (cases "nextHeaders this env options :: ('b, headers) result") simp
  define t1 where "t1 = t'\<lparr>sent := sent t' @
      [\<lparr>req_uri = conf_url (config t') @ ''/'' @ encode name,
        req_method = (if truthy (opt_method options) then the (opt_method options) else ''GET''),
        req_headers = h, req_agent = agent t'\<rparr>]\<rparr>"
  have a: "last_request_time (snd (getRemoteMetadataNext this env now name options
         (evs, out :: 'b got_outcome))) = last_request_time (foldl on_got_event t1 evs)" for evs out
    using assms(1) nh by (cases out) (simp_all add: getRemoteMetadataNext_def Let_def t1_def)
  have b: "failed_requests (snd (getRemoteMetadataNext this env now name options
         (evs, out :: 'b got_outcome))) = failed_requests (foldl on_got_event t1 evs)" for evs out
    using assms(1) nh by (cases out) (simp_all add: getRemoteMetadataNext_def Let_def t1_def)
  show ?thesis by (rule that [OF a b])
qed

text \<open>\<open>_statusCheck(alive)\<close>, field by field.\<close>

lemma statusCheck_fields:
  "last_request_time (statusCheck this alive now) = Some now"
  "failed_requests (statusCheck this True now) = 0"
  "failed_requests (statusCheck this False now) = failed_requests this + 1"
  "logger (statusCheck this True now) =
     (if failed_requests this \<ge> max_fails this then logger this @ [(Warn, HostBackOnline)]
      else logger this)"
  "logger (statusCheck this False now) =
     (if failed_requests this + 1 = max_fails this then logger this @ [(Warn, HostOffline)]
      else logger this)"
  by (simp_all add: statusCheck_def Let_def)

text \<open>
  In \<open>request\<close> the flag \<open>statusCalled\<close> lets only the first \<open>response\<close> or \<open>error\<close> event
  call \<open>_statusCheck\<close>; once it is set, no event changes the health fields.  The header
  builder and the logger do not change them either, so the client that \<open>fetchTarball\<close>
  leaves has the health fields that this first call has set.
\<close>

lemma tarball_event_called:
  "statusCalled st \<Longrightarrow>
   statusCalled (snd (tarball_event (t, st) ev)) \<and>
   failed_requests (fst (tarball_event (t, st) ev)) = failed_requests t \<and>
   last_request_time (fst (tarball_event (t, st) ev)) = last_request_time t"
  by (cases ev) (simp_all add: Let_def emit_def split: option.splits)

lemma foldl_tarball_called:
  "statusCalled (snd p) \<Longrightarrow>
   failed_requests (fst (foldl tarball_event p evs)) = failed_requests (fst p) \<and>
   last_request_time (fst (foldl tarball_event p evs)) = last_request_time (fst p)"
proof (induction evs arbitrary: p)
  case Nil
  then show ?case by simp
next
  case (Cons ev evs)
  obtain t st where p: "p = (t, st)" by (cases p)
  from Cons.prems p have "statusCalled st" by simp
  note c = tarball_event_called [OF this, of t ev]
  from c have "statusCalled (snd (tarball_event p ev))" by (simp add: p)
  from Cons.IH [OF this] c show ?case by (simp add: p)
qed

lemma tarball_first_event:
  "statusCalled (snd (tarball_event (t, tarball_init) (EvResponse now res)))"
  "fst (tarball_event (t, tarball_init) (EvResponse now res)) = statusCheck t True now"
  "statusCalled (snd (tarball_event (t, tarball_init) (EvError now err)))"
  "fst (tarball_event (t, tarball_init) (EvError now err)) = statusCheck t False now"
  by (simp_all add: Let_def emit_def tarball_init_def)

lemma tarball_state:
  assumes "\<not> ifRequestFailure this now"
    and "fst (setHeaders this env (Some [''Accept'' \<mapsto> contentTypeAccept]) :: ('b, headers) result) = Inr h"
  obtains t1 where
    "\<And>events. snd (fetchTarball this env now u (events :: 'b req_event list)) =
        fst (foldl tarball_event (t1, tarball_init) events)"
    "failed_requests t1 = failed_requests this" "last_request_time t1 = last_request_time this"
proof -
  obtain t' where sh: "(setHeaders this env (Some [''Accept'' \<mapsto> contentTypeAccept]) :: ('b, headers) result) = (Inr h, t')"
    using assms(2)
    by (cases "setHeaders this env (Some [''Accept'' \<mapsto> contentTypeAccept]) :: ('b, headers) result") simp
  have sb: "same_but_log this t'"
    using setHeaders_same [of this env "Some [''Accept'' \<mapsto> contentTypeAccept]", where ?'b = 'b] sh by simp
  note f = same_but_log_fields [OF sb]
  define t1 where "t1 = snd (request this env now
             \<lparr>ro_uri_full = Some u, ro_uri = None, ro_method = None,
              ro_headers = Some [''Accept'' \<mapsto> contentTypeAccept], ro_req = None\<rparr> :: ('b, read_stream) result)"
  have a: "snd (fetchTarball this env now u (events :: 'b req_event list)) =
        fst (foldl tarball_event (t1, tarball_init) events)" for events
    using assms(1) sh by (simp add: fetchTarball_def request_def Let_def t1_def)
  have b: "failed_requests t1 = failed_requests this" "last_request_time t1 = last_request_time this"
    using assms(1) sh f by (simp_all add: request_def Let_def t1_def)
  show ?thesis by (rule that [OF a b])
qed

lemma tarball_health:
  assumes "\<not> ifRequestFailure this now"
    and "fst (setHeaders this env (Some [''Accept'' \<mapsto> contentTypeAccept]) :: ('b, headers) result) = Inr h"
  shows "last_request_time (snd (fetchTarball this env now u (EvResponse t res # tevs :: 'b req_event list))) = Some t"
    and "failed_requests (snd (fetchTarball this env now u (EvResponse t res # tevs :: 'b req_event list))) = 0"
    and "last_request_time (snd (fetchTarball this env now u (EvError t e # tevs :: 'b req_event list))) = Some t"
    and "failed_requests (snd (fetchTarball this env now u (EvError t e # tevs :: 'b req_event list))) =
         failed_requests this + 1"
    and "last_request_time (snd (fetchTarball this env now u ([] :: 'b req_event list))) = last_request_time this"
proof -
  from tarball_state [OF assms, where u = u] obtain t1 where
    s: "\<And>events. snd (fetchTarball this env now u (events :: 'b req_event list)) =
        fst (foldl tarball_event (t1, tarball_init) events)"
    and f: "failed_requests t1 = failed_requests this" "last_request_time t1 = last_request_time this"
    by blast
  note r = foldl_tarball_called [OF tarball_first_event(1) [of t1 t res, where ?'a = 'b], of tevs]
  note e = foldl_tarball_called [OF tarball_first_event(3) [of t1 t e], of tevs]
  show "last_request_time (snd (fetchTarball this env now u (EvResponse t res # tevs :: 'b req_event list))) = Some t"
    using r by (simp add: s tarball_first_event statusCheck_fields del: tarball_event.simps)
  show "failed_requests (snd (fetchTarball this env now u (EvResponse t res # tevs :: 'b req_event list))) = 0"
    using r by (simp add: s tarball_first_event statusCheck_fields del: tarball_event.simps)
  show "last_request_time (snd (fetchTarball this env now u (EvError t e # tevs :: 'b req_event list))) = Some t"
    using e by (simp add: s tarball_first_event statusCheck_fields del: tarball_event.simps)
  show "failed_requests (snd (fetchTarball this env now u (EvError t e # tevs :: 'b req_event list))) =
         failed_requests this + 1"
    using e by (simp add: s tarball_first_event statusCheck_fields f del: tarball_event.simps)
  show "last_request_time (snd (fetchTarball this env now u ([] :: 'b req_event list))) = last_request_time this"
    by (simp add: s f)
qed

text \<open>\<open>search\<close> and \<open>fetchTarballNext\<close> neither read nor write the health fields.\<close>

lemma search_health:
  "failed_requests (snd (search this URL_href u fetched)) = failed_requests this"
  "last_request_time (snd (search this URL_href u fetched)) = last_request_time this"
  by (cases fetched; simp add: search_def Let_def split: option.splits)+

lemma tarballNext_health:
  "failed_requests (snd (fetchTarballNext this env u options :: ('b, unit) result)) = failed_requests this"
  "last_request_time (snd (fetchTarballNext this env u options :: ('b, unit) result)) = last_request_time this"
proof -
  obtain r t' where nh: "(nextHeaders this env options :: ('b, headers) result) = (r, t')"
    by (cases "nextHeaders this env options :: ('b, headers) result")
  have "same_but_log this t'"
    using nextHeaders_same [of this env options, where ?'b = 'b] nh by simp
  note f = same_but_log_fields [OF this]
  show "failed_requests (snd (fetchTarballNext this env u options :: ('b, unit) result)) = failed_requests this"
    using nh f by (cases r) (simp_all add: fetchTarballNext_def)
  show "last_request_time (snd (fetchTarballNext this env u options :: ('b, unit) result)) = last_request_time this"
    using nh f by (cases r) (simp_all add: fetchTarballNext_def)
qed

text \<open>
  Claim C3, amended.  In \<open>getRemoteMetadataNext\<close>: after the \<open>request\<close> event of an
  attempt, whatever happened before, \<open>last_request_time\<close> is the time of that attempt; on
  a 2xx response with the counter at or above \<open>max_fails\<close> the counter is 0 and the
  online message is logged, and with the counter below \<open>max_fails\<close> nothing is logged;
  on a retry the counter is the retry index, and the offline message is logged when the
  index is at or above \<open>max_fails\<close>, and not below it.  In \<open>request\<close> and \<open>fetchTarball\<close>
  the tracker is \<open>_statusCheck\<close>: it sets \<open>last_request_time\<close> to the current time; called
  with \<open>true\<close> it logs the back-online message when the counter was at or above
  \<open>max_fails\<close>, and not below it, and sets the counter to 0 in either case; called with
  \<open>false\<close> it adds one to the counter and logs the offline message when the counter has
  become \<open>max_fails\<close>, and at no other value.  The first \<open>response\<close> or \<open>error\<close> event of
  a request of \<open>fetchTarball\<close> calls it, whatever follows, and a request without such an
  event leaves \<open>last_request_time\<close> as it is.  \<open>search\<close> and \<open>fetchTarballNext\<close> leave
  \<open>last_request_time\<close> and the counter as they are.
\<close>

theorem health_tracker_transitions:
  "last_request_time (foldl on_got_event this (evs @ [OnRequest t])) = Some t \<and>
   (HTTP_STATUS_OK \<le> statusCode r \<and> statusCode r < HTTP_STATUS_MULTIPLE_CHOICES \<longrightarrow>
    failed_requests this \<ge> max_fails this \<longrightarrow>
      failed_requests (afterResponse this r) = 0 \<and>
      logger (afterResponse this r) = logger this @ [(Warn, HostOnline)]) \<and>
   (HTTP_STATUS_OK \<le> statusCode r \<and> statusCode r < HTTP_STATUS_MULTIPLE_CHOICES \<longrightarrow>
    failed_requests this < max_fails this \<longrightarrow> logger (afterResponse this r) = logger this) \<and>
   failed_requests (beforeRetry this (Some c)) = c \<and>
   (c \<ge> max_fails this \<longrightarrow>
      logger (beforeRetry this (Some c)) = logger this @ [(Info, Retry c), (Warn, HostOffline)]) \<and>
   (c < max_fails this \<longrightarrow>
      logger (beforeRetry this (Some c)) = logger this @ [(Info, Retry c)]) \<and>
   (\<not> ifRequestFailure this now \<longrightarrow>
    fst (nextHeaders this env options :: ('b, headers) result) = Inr h \<longrightarrow>
      last_request_time (snd (getRemoteMetadataNext this env now name options
        (evs' @ [OnRequest t], out :: 'b got_outcome))) = Some t \<and>
      failed_requests (snd (getRemoteMetadataNext this env now name options
        (evs' @ [BeforeRetry (Some c)], out :: 'b got_outcome))) = c) \<and>
   last_request_time (statusCheck this alive t) = Some t \<and>
   failed_requests (statusCheck this True t) = 0 \<and>
   (failed_requests this \<ge> max_fails this \<longrightarrow>
      logger (statusCheck this True t) = logger this @ [(Warn, HostBackOnline)]) \<and>
   (failed_requests this < max_fails this \<longrightarrow> logger (statusCheck this True t) = logger this) \<and>
   failed_requests (statusCheck this False t) = failed_requests this + 1 \<and>
   (failed_requests this + 1 = max_fails this \<longrightarrow>
      logger (statusCheck this False t) = logger this @ [(Warn, HostOffline)]) \<and>
   (failed_requests this + 1 \<noteq> max_fails this \<longrightarrow> logger (statusCheck this False t) = logger this) \<and>
   (\<not> ifRequestFailure this now \<longrightarrow>
    fst (setHeaders this env (Some [''Accept'' \<mapsto> contentTypeAccept]) :: ('b, headers) result) = Inr hh \<longrightarrow>
      last_request_time (snd (fetchTarball this env now u (EvResponse t res # tevs :: 'b req_event list))) = Some t \<and>
      failed_requests (snd (fetchTarball this env now u (EvResponse t res # tevs :: 'b req_event list))) = 0 \<and>
      last_request_time (snd (fetchTarball this env now u (EvError t e # tevs :: 'b req_event list))) = Some t \<and>
      failed_requests (snd (fetchTarball this env now u (EvError t e # tevs :: 'b req_event list))) =
        failed_requests this + 1 \<and>
      last_request_time (snd (fetchTarball this env now u ([] :: 'b req_event list))) =
        last_request_time this) \<and>
   last_request_time (snd (search this URL_href p fetched)) = last_request_time this \<and>
   failed_requests (snd (search this URL_href p fetched)) = failed_requests this \<and>
   last_request_time (snd (fetchTarballNext this env u options :: ('b, unit) result)) =
     last_request_time this \<and>
   failed_requests (snd (fetchTarballNext this env u options :: ('b, unit) result)) =
     failed_requests this"
proof -
  have m: "last_request_time (snd (getRemoteMetadataNext this env now name options
        (evs' @ [OnRequest t], out :: 'b got_outcome))) = Some t \<and>
      failed_requests (snd (getRemoteMetadataNext this env now name options
        (evs' @ [BeforeRetry (Some c)], out :: 'b got_outcome))) = c"
    if a: "\<not> ifRequestFailure this now"
      and b: "fst (nextHeaders this env options :: ('b, headers) result) = Inr h"
  proof -
    from metadata_state [OF a b, where name = name] obtain t1 where
      l: "\<And>evs out. last_request_time (snd (getRemoteMetadataNext this env now name options
         (evs, out :: 'b got_outcome))) = last_request_time (foldl on_got_event t1 evs)"
      and f: "\<And>evs out. failed_requests (snd (getRemoteMetadataNext this env now name options
         (evs, out :: 'b got_outcome))) = failed_requests (foldl on_got_event t1 evs)"
      by blast
    show ?thesis
      by (simp add: l f onRequest_def beforeRetry_def Let_def)
  qed
  have g: "last_request_time (foldl on_got_event this (evs @ [OnRequest t])) = Some t \<and>
   (HTTP_STATUS_OK \<le> statusCode r \<and> statusCode r < HTTP_STATUS_MULTIPLE_CHOICES \<longrightarrow>
    failed_requests this \<ge> max_fails this \<longrightarrow>
      failed_requests (afterResponse this r) = 0 \<and>
      logger (afterResponse this r) = logger this @ [(Warn, HostOnline)]) \<and>
   (HTTP_STATUS_OK \<le> statusCode r \<and> statusCode r < HTTP_STATUS_MULTIPLE_CHOICES \<longrightarrow>
    failed_requests this < max_fails this \<longrightarrow> logger (afterResponse this r) = logger this) \<and>
   failed_requests (beforeRetry this (Some c)) = c \<and>
   (c \<ge> max_fails this \<longrightarrow>
      logger (beforeRetry this (Some c)) = logger this @ [(Info, Retry c), (Warn, HostOffline)]) \<and>
   (c < max_fails this \<longrightarrow>
      logger (beforeRetry this (Some c)) = logger this @ [(Info, Retry c)])"
    by (simp add: onRequest_def afterResponse_def beforeRetry_def Let_def log_def)
  have s: "last_request_time (statusCheck this alive t) = Some t \<and>
   failed_requests (statusCheck this True t) = 0 \<and>
   (failed_requests this \<ge> max_fails this \<longrightarrow>
      logger (statusCheck this True t) = logger this @ [(Warn, HostBackOnline)]) \<and>
   (failed_requests this < max_fails this \<longrightarrow> logger (statusCheck this True t) = logger this) \<and>
   failed_requests (statusCheck this False t) = failed_requests this + 1 \<and>
   (failed_requests this + 1 = max_fails this \<longrightarrow>
      logger (statusCheck this False t) = logger this @ [(Warn, HostOffline)]) \<and>
   (failed_requests this + 1 \<noteq> max_fails this \<longrightarrow> logger (statusCheck this False t) = logger this)"
    by (simp add: statusCheck_fields)
  have f: "last_request_time (snd (fetchTarball this env now u (EvResponse t res # tevs :: 'b req_event list))) = Some t \<and>
      failed_requests (snd (fetchTarball this env now u (EvResponse t res # tevs :: 'b req_event list))) = 0 \<and>
      last_request_time (snd (fetchTarball this env now u (EvError t e # tevs :: 'b req_event list))) = Some t \<and>
      failed_requests (snd (fetchTarball this env now u (EvError t e # tevs :: 'b req_event list))) =
        failed_requests this + 1 \<and>
      last_request_time (snd (fetchTarball this env now u ([] :: 'b req_event list))) =
        last_request_time this"
    if a: "\<not> ifRequestFailure this now"
      and b: "fst (setHeaders this env (Some [''Accept'' \<mapsto> contentTypeAccept]) :: ('b, headers) result) = Inr hh"
    using tarball_health [OF a b] by blast
  show ?thesis
    using m g s f search_health [of this URL_href p fetched]
      tarballNext_health [of this env u options, where ?'b = 'b]
    by blast
qed

text \<open>
  Claim C3 as stated fails: \<open>search\<close> and \<open>fetchTarballNext\<close> each issue a request, and
  \<open>last_request_time\<close> is not updated: on a new client it is still unset afterwards.
\<close>

theorem health_tracker_transitions_counterexample:
  "sent (snd (search ex_client Some ''-/v1/search?text=verdaccio'' (Fetched (ex_search_response 200)))) =
     [\<lparr>req_uri = ''https://registry.example.com/-/v1/search?text=verdaccio'', req_method = ''GET'',
       req_headers = Map.empty, req_agent = None\<rparr>] \<and>
   last_request_time (snd (search ex_client Some ''-/v1/search?text=verdaccio''
     (Fetched (ex_search_response 200)))) = None \<and>
   sent (snd (fetchTarballNext ex_client Map.empty
     ''https://registry.example.com/pkg/-/pkg-1.0.0.tgz'' ex_options :: (json, unit) result)) =
     [\<lparr>req_uri = ''https://registry.example.com/pkg/-/pkg-1.0.0.tgz'', req_method = ''GET'',
       req_headers = ex_headers, req_agent = None\<rparr>] \<and>
   last_request_time (snd (fetchTarballNext ex_client Map.empty
     ''https://registry.example.com/pkg/-/pkg-1.0.0.tgz'' ex_options :: (json, unit) result)) = None"
proof -
  have f: "href (url ex_client) = ''https://registry.example.com/''" "sent ex_client = []"
    "last_request_time ex_client = None" "agent ex_client = None"
    by (simp_all add: ex_defs)
  have col: "collapse_slashes ''https://registry.example.com/-/v1/search?text=verdaccio'' =
             ''https://registry.example.com/-/v1/search?text=verdaccio''"
    by simp
  show ?thesis
    by (simp add: search_def fetchTarballNext_def ex_nextHeaders Let_def f col
        ex_search_response_def HTTP_STATUS_BAD_REQUEST_def)
qed

text \<open>
  In \<open>getRemoteMetadataNext\<close> the counter is reset from \<open>max_fails\<close> up only: after one
  retry and a 200, on a client with \<open>max_fails = 2\<close>, it is 1.
\<close>

lemma ex_retry_then_ok:
  "failed_requests (snd (getRemoteMetadataNext ex_client Map.empty 2000 ''pkg'' ex_options
      ([OnRequest 2000, AfterResponse (ex_response 503), BeforeRetry (Some 1), OnRequest 2500,
        AfterResponse (ex_response 200)], Resolved (ex_response 200)))) = 1"
proof -
  have f: "failed_requests ex_client = 0" "max_fails ex_client = 2"
    by (simp_all add: ex_defs)
  show ?thesis
    using ex_client_is_online
    by (simp add: getRemoteMetadataNext_def ex_nextHeaders Let_def onRequest_def afterResponse_def
        beforeRetry_def ex_response_def const_defs f truthy_def)
qed

text \<open>
  The transitions on clients with \<open>max_fails = 2\<close>: a new one, one with one failure, and
  one with two failures and a last request at 1000.
\<close>

theorem health_tracker_transitions_witness:
  "last_request_time (foldl on_got_event ex_client [BeforeRetry (Some 1), OnRequest 2500]) = Some 2500 \<and>
   failed_requests (afterResponse ex_offline (ex_response 200)) = 0 \<and>
   logger (afterResponse ex_offline (ex_response 200)) = [(Warn, HostOnline)] \<and>
   logger (afterResponse ex_client (ex_response 200)) = [] \<and>
   failed_requests (beforeRetry ex_client (Some 2)) = 2 \<and>
   logger (beforeRetry ex_client (Some 2)) = [(Info, Retry 2), (Warn, HostOffline)] \<and>
   logger (beforeRetry ex_client (Some 1)) = [(Info, Retry 1)] \<and>
   last_request_time (snd (getRemoteMetadataNext ex_client Map.empty 2000 ''pkg'' ex_options
      ([OnRequest 2000, AfterResponse (ex_response 503), BeforeRetry (Some 1), OnRequest 2500],
       Rejected (RequestError ''ETIMEDOUT'')))) = Some 2500 \<and>
   failed_requests (snd (getRemoteMetadataNext ex_client Map.empty 2000 ''pkg'' ex_options
      ([OnRequest 2000, AfterResponse (ex_response 503), BeforeRetry (Some 2)],
       Rejected (RequestError ''ETIMEDOUT'')))) = 2 \<and>
   last_request_time (statusCheck ex_offline True 2500) = Some 2500 \<and>
   failed_requests (statusCheck ex_offline True 2500) = 0 \<and>
   logger (statusCheck ex_offline True 2500) = [(Warn, HostBackOnline)] \<and>
   failed_requests (statusCheck (ex_client\<lparr>failed_requests := 1\<rparr>) True 2500) = 0 \<and>
   logger (statusCheck (ex_client\<lparr>failed_requests := 1\<rparr>) True 2500) = [] \<and>
   last_request_time (statusCheck (ex_client\<lparr>failed_requests := 1\<rparr>) False 2500) = Some 2500 \<and>
   failed_requests (statusCheck (ex_client\<lparr>failed_requests := 1\<rparr>) False 2500) = 2 \<and>
   logger (statusCheck (ex_client\<lparr>failed_requests := 1\<rparr>) False 2500) = [(Warn, HostOffline)] \<and>
   failed_requests (statusCheck ex_offline False 2500) = 3 \<and>
   logger (statusCheck ex_offline False 2500) = [] \<and>
   last_request_time (snd (fetchTarball ex_client Map.empty 2000
      ''https://registry.example.com/pkg/-/pkg-1.0.0.tgz''
      ([EvResponse 2500 (ex_tar_response 200), EvData 100, EvEnd None] :: json req_event list))) = Some 2500 \<and>
   failed_requests (snd (fetchTarball ex_client Map.empty 2000
      ''https://registry.example.com/pkg/-/pkg-1.0.0.tgz''
      ([EvResponse 2500 (ex_tar_response 200), EvData 100, EvEnd None] :: json req_event list))) = 0 \<and>
   last_request_time (snd (fetchTarball ex_client Map.empty 2000
      ''https://registry.example.com/pkg/-/pkg-1.0.0.tgz''
      ([EvError 2500 (LibError (RequestError ''ECONNRESET'')),
        EvResponse 2600 (ex_tar_response 200)] :: json req_event list))) = Some 2500 \<and>
   failed_requests (snd (fetchTarball ex_client Map.empty 2000
      ''https://registry.example.com/pkg/-/pkg-1.0.0.tgz''
      ([EvError 2500 (LibError (RequestError ''ECONNRESET'')),
        EvResponse 2600 (ex_tar_response 200)] :: json req_event list))) = 1 \<and>
   last_request_time (snd (search ex_offline Some ''-/v1/search?text=verdaccio''
      (Fetched (ex_search_response 200)))) = Some 1000 \<and>
   failed_requests (snd (search ex_offline Some ''-/v1/search?text=verdaccio''
      (Fetched (ex_search_response 200)))) = 2 \<and>
   last_request_time (snd (fetchTarballNext ex_offline Map.empty
      ''https://registry.example.com/pkg/-/pkg-1.0.0.tgz'' ex_options :: (json, unit) result)) = Some 1000 \<and>
   failed_requests (snd (fetchTarballNext ex_offline Map.empty
      ''https://registry.example.com/pkg/-/pkg-1.0.0.tgz'' ex_options :: (json, unit) result)) = 2"
proof -
  have f: "failed_requests ex_offline = 2" "max_fails ex_offline = 2" "logger ex_offline = []"
    "last_request_time ex_offline = Some 1000"
    "failed_requests ex_client = 0" "max_fails ex_client = 2" "logger ex_client = []"
    "statusCode (ex_response 200) = 200"
    by (simp_all add: ex_defs)
  have nh: "fst (nextHeaders ex_client Map.empty ex_options :: (json, headers) result) = Inr ex_headers"
    by (simp add: ex_nextHeaders)
  have sh: "fst (setHeaders ex_client Map.empty (Some [''Accept'' \<mapsto> contentTypeAccept]) :: (json, headers) result) =
     Inr [''Accept'' \<mapsto> ''application/json;'', ''Accept-Encoding'' \<mapsto> ''gzip'',
           ''User-Agent'' \<mapsto> ''npm (verdaccio/6)'']"
    by (simp add: ex_setHeaders)
  note t1 = health_tracker_transitions [where this = ex_client and evs = "[BeforeRetry (Some 1)]"
        and t = 2500 and r = "ex_response 200" and c = 2 and now = 2000 and env = Map.empty
        and options = ex_options and h = ex_headers and name = "''pkg''"
        and evs' = "[OnRequest 2000, AfterResponse (ex_response 503)]"
        and out = "Rejected (RequestError ''ETIMEDOUT'')" and alive = True
        and hh = "[''Accept'' \<mapsto> ''application/json;'', ''Accept-Encoding'' \<mapsto> ''gzip'',
           ''User-Agent'' \<mapsto> ''npm (verdaccio/6)'']"
        and u = "''https://registry.example.com/pkg/-/pkg-1.0.0.tgz''"
        and res = "ex_tar_response 200" and tevs = "[EvData 100, EvEnd None]"
        and e = "LibError (RequestError ''ECONNRESET'')" and URL_href = Some
        and p = "''-/v1/search?text=verdaccio''" and fetched = "Fetched (ex_search_response 200)"]
  note t2 = health_tracker_transitions [where this = ex_offline and evs = "[]"
        and t = 2500 and r = "ex_response 200" and c = 2 and now = 2000 and env = Map.empty
        and options = ex_options and h = ex_headers and name = "''pkg''"
        and evs' = "[OnRequest 2000, AfterResponse (ex_response 503)]"
        and out = "Rejected (RequestError ''ETIMEDOUT'')" and alive = True
        and hh = "[''Accept'' \<mapsto> ''application/json;'', ''Accept-Encoding'' \<mapsto> ''gzip'',
           ''User-Agent'' \<mapsto> ''npm (verdaccio/6)'']"
        and u = "''https://registry.example.com/pkg/-/pkg-1.0.0.tgz''"
        and res = "ex_tar_response 200" and tevs = "[EvData 100, EvEnd None] :: json req_event list"
        and e = "LibError (RequestError ''ECONNRESET'')" and URL_href = Some
        and p = "''-/v1/search?text=verdaccio''" and fetched = "Fetched (ex_search_response 200)"]
  note t3 = health_tracker_transitions [where this = ex_client and evs = "[BeforeRetry (Some 1)]"
        and t = 2500 and r = "ex_response 200" and c = 1 and now = 2000 and env = Map.empty
        and options = ex_options and h = ex_headers and name = "''pkg''"
        and evs' = "[OnRequest 2000, AfterResponse (ex_response 503), BeforeRetry (Some 1)]"
        and out = "Rejected (RequestError ''ETIMEDOUT'')" and alive = True
        and hh = "[''Accept'' \<mapsto> ''application/json;'', ''Accept-Encoding'' \<mapsto> ''gzip'',
           ''User-Agent'' \<mapsto> ''npm (verdaccio/6)'']"
        and u = "''https://registry.example.com/pkg/-/pkg-1.0.0.tgz''"
        and res = "ex_tar_response 200" and tevs = "[EvResponse 2600 (ex_tar_response 200)]"
        and e = "LibError (RequestError ''ECONNRESET'')" and URL_href = Some
        and p = "''-/v1/search?text=verdaccio''" and fetched = "Fetched (ex_search_response 200)"]
  note t4 = health_tracker_transitions [where this = "ex_client\<lparr>failed_requests := 1\<rparr>" and evs = "[]"
        and t = 2500 and r = "ex_response 200" and c = 1 and now = 2000 and env = Map.empty
        and options = ex_options and h = ex_headers and name = "''pkg''"
        and evs' = "[OnRequest 2000, AfterResponse (ex_response 503), BeforeRetry (Some 1)]"
        and out = "Rejected (RequestError ''ETIMEDOUT'')" and alive = False
        and hh = "[''Accept'' \<mapsto> ''application/json;'', ''Accept-Encoding'' \<mapsto> ''gzip'',
           ''User-Agent'' \<mapsto> ''npm (verdaccio/6)'']"
        and u = "''https://registry.example.com/pkg/-/pkg-1.0.0.tgz''"
        and res = "ex_tar_response 200" and tevs = "[EvData 100, EvEnd None] :: json req_event list"
        and e = "LibError (RequestError ''ECONNRESET'')" and URL_href = Some
        and p = "''-/v1/search?text=verdaccio''" and fetched = "Fetched (ex_search_response 200)"]
  have a1: "last_request_time (foldl on_got_event ex_client [BeforeRetry (Some 1), OnRequest 2500]) = Some 2500"
    using t1 by simp
  have a2: "failed_requests (afterResponse ex_offline (ex_response 200)) = 0 \<and>
   logger (afterResponse ex_offline (ex_response 200)) = [(Warn, HostOnline)]"
    using t2 by (simp add: f const_defs)
  have a3: "logger (afterResponse ex_client (ex_response 200)) = []"
    using t1 by (simp add: f const_defs)
  have a4: "failed_requests (beforeRetry ex_client (Some 2)) = 2 \<and>
   logger (beforeRetry ex_client (Some 2)) = [(Info, Retry 2), (Warn, HostOffline)]"
    using t1 by (simp add: f)
  have a5: "logger (beforeRetry ex_client (Some 1)) = [(Info, Retry 1)]"
    using t3 by (simp add: f)
  have a6: "last_request_time (snd (getRemoteMetadataNext ex_client Map.empty 2000 ''pkg'' ex_options
      ([OnRequest 2000, AfterResponse (ex_response 503), BeforeRetry (Some 1), OnRequest 2500],
       Rejected (RequestError ''ETIMEDOUT'')))) = Some 2500"
    using t3 ex_client_is_online nh by simp
  have a7: "failed_requests (snd (getRemoteMetadataNext ex_client Map.empty 2000 ''pkg'' ex_options
      ([OnRequest 2000, AfterResponse (ex_response 503), BeforeRetry (Some 2)],
       Rejected (RequestError ''ETIMEDOUT'')))) = 2"
    using t1 ex_client_is_online nh by simp
  have a8: "last_request_time (statusCheck ex_offline True 2500) = Some 2500 \<and>
   failed_requests (statusCheck ex_offline True 2500) = 0 \<and>
   logger (statusCheck ex_offline True 2500) = [(Warn, HostBackOnline)] \<and>
   failed_requests (statusCheck ex_offline False 2500) = 3 \<and>
   logger (statusCheck ex_offline False 2500) = []"
    using t2 by (simp add: f)
  have a9: "failed_requests (statusCheck (ex_client\<lparr>failed_requests := 1\<rparr>) True 2500) = 0 \<and>
   logger (statusCheck (ex_client\<lparr>failed_requests := 1\<rparr>) True 2500) = [] \<and>
   last_request_time (statusCheck (ex_client\<lparr>failed_requests := 1\<rparr>) False 2500) = Some 2500 \<and>
   failed_requests (statusCheck (ex_client\<lparr>failed_requests := 1\<rparr>) False 2500) = 2 \<and>
   logger (statusCheck (ex_client\<lparr>failed_requests := 1\<rparr>) False 2500) = [(Warn, HostOffline)]"
    using t4 by (simp add: f)
  have a10: "last_request_time (snd (fetchTarball ex_client Map.empty 2000
      ''https://registry.example.com/pkg/-/pkg-1.0.0.tgz''
      ([EvResponse 2500 (ex_tar_response 200), EvData 100, EvEnd None] :: json req_event list))) = Some 2500 \<and>
   failed_requests (snd (fetchTarball ex_client Map.empty 2000
      ''https://registry.example.com/pkg/-/pkg-1.0.0.tgz''
      ([EvResponse 2500 (ex_tar_response 200), EvData 100, EvEnd None] :: json req_event list))) = 0"
    using t1 ex_client_is_online sh by simp
  have a11: "last_request_time (snd (fetchTarball ex_client Map.empty 2000
      ''https://registry.example.com/pkg/-/pkg-1.0.0.tgz''
      ([EvError 2500 (LibError (RequestError ''ECONNRESET'')),
        EvResponse 2600 (ex_tar_response 200)] :: json req_event list))) = Some 2500 \<and>
   failed_requests (snd (fetchTarball ex_client Map.empty 2000
      ''https://registry.example.com/pkg/-/pkg-1.0.0.tgz''
      ([EvError 2500 (LibError (RequestError ''ECONNRESET'')),
        EvResponse 2600 (ex_tar_response 200)] :: json req_event list))) = 1"
    using t3 ex_client_is_online sh by (simp add: f)
  have a12: "last_request_time (snd (search ex_offline Some ''-/v1/search?text=verdaccio''
      (Fetched (ex_search_response 200)))) = Some 1000 \<and>
   failed_requests (snd (search ex_offline Some ''-/v1/search?text=verdaccio''
      (Fetched (ex_search_response 200)))) = 2 \<and>
   last_request_time (snd (fetchTarballNext ex_offline Map.empty
      ''https://registry.example.com/pkg/-/pkg-1.0.0.tgz'' ex_options :: (json, unit) result)) = Some 1000 \<and>
   failed_requests (snd (fetchTarballNext ex_offline Map.empty
      ''https://registry.example.com/pkg/-/pkg-1.0.0.tgz'' ex_options :: (json, unit) result)) = 2"
    using t2 by (simp add: f)
  show ?thesis
    using a1 a2 a3 a4 a5 a6 a7 a8 a9 a10 a11 a12 by blast
qed

section \<open>The Via header (claim C4)\<close>

text \<open>
  Claim C4, amended.  The request that \<open>getRemoteMetadataNext\<close> (on an online uplink) and
  \<open>fetchTarballNext\<close> send carries the headers \<open>h\<close> of the header builder, and in them
  \<open>via\<close> is set: unless the uplink's configured headers set \<open>via\<close> (then the configured
  value is sent), its value is \<open>1.1 <server_id> (Verdaccio)\<close>, preceded by the caller's
  \<open>via\<close> value and \<open>, \<close> when the caller supplied a non-empty one.  The request of
  \<open>search\<close> carries no header.
\<close>

theorem via_header:
  "(fst (nextHeaders this env options :: ('b, headers) result) = Inr h \<longrightarrow>
     (\<not> ifRequestFailure this now \<longrightarrow>
        sent (snd (getRemoteMetadataNext this env now name options
                     (run :: 'b got_event list \<times> 'b got_outcome))) =
          sent this @ [\<lparr>req_uri = conf_url (config this) @ ''/'' @ encode name,
                         req_method = (if truthy (opt_method options) then the (opt_method options) else ''GET''),
                         req_headers = h, req_agent = agent this\<rparr>]) \<and>
     sent (snd (fetchTarballNext this env u options :: ('b, unit) result)) =
       sent this @ [\<lparr>req_uri = u, req_method = ''GET'', req_headers = h, req_agent = agent this\<rparr>] \<and>
     (uplink_header this ''via'' = None \<longrightarrow>
        h ''via'' = Some (with_comma (caller_header options ''via'') @
                          ''1.1 '' @ server_id this @ '' (Verdaccio)'')) \<and>
     (uplink_header this ''via'' = None \<longrightarrow> caller_header options ''via'' = Some v \<longrightarrow> v \<noteq> [] \<longrightarrow>
        h ''via'' = Some (v @ '', '' @ ''1.1 '' @ server_id this @ '' (Verdaccio)'')) \<and>
     (uplink_header this ''via'' = None \<longrightarrow> \<not> truthy (caller_header options ''via'') \<longrightarrow>
        h ''via'' = Some (''1.1 '' @ server_id this @ '' (Verdaccio)'')) \<and>
     (uplink_header this ''via'' = Some w \<longrightarrow> h ''via'' = Some w)) \<and>
   (URL_href (href (url this) @ p) = Some full \<longrightarrow>
      sent (snd (search this URL_href p fetched)) =
        sent this @ [\<lparr>req_uri = collapse_slashes full, req_method = ''GET'',
                       req_headers = Map.empty, req_agent = None\<rparr>])"
proof (intro conjI impI)
  assume nh: "fst (nextHeaders this env options :: ('b, headers) result) = Inr h"
  note v = nextHeaders_via [OF nh]
  show "sent (snd (fetchTarballNext this env u options :: ('b, unit) result)) =
       sent this @ [\<lparr>req_uri = u, req_method = ''GET'', req_headers = h, req_agent = agent this\<rparr>]"
    by (rule tarballNext_sent [OF nh])
  show "h ''via'' = Some w" if "uplink_header this ''via'' = Some w"
    using v that by simp
  show "h ''via'' = Some (with_comma (caller_header options ''via'') @
                          ''1.1 '' @ server_id this @ '' (Verdaccio)'')"
    if "uplink_header this ''via'' = None"
    using v that by simp
  show "h ''via'' = Some (v @ '', '' @ ''1.1 '' @ server_id this @ '' (Verdaccio)'')"
    if "uplink_header this ''via'' = None" "caller_header options ''via'' = Some v" "v \<noteq> []"
    using v that by (simp add: with_comma_def)
  show "h ''via'' = Some (''1.1 '' @ server_id this @ '' (Verdaccio)'')"
    if "uplink_header this ''via'' = None" "\<not> truthy (caller_header options ''via'')"
    using v that by (simp add: with_comma_def truthy_def split: option.splits)
  show "sent (snd (getRemoteMetadataNext this env now name options run)) =
          sent this @ [\<lparr>req_uri = conf_url (config this) @ ''/'' @ encode name,
                         req_method = (if truthy (opt_method options) then the (opt_method options) else ''GET''),
                         req_headers = h, req_agent = agent this\<rparr>]"
    if "\<not> ifRequestFailure this now"
    by (rule metadata_sent [OF that nh])
next
  assume "URL_href (href (url this) @ p) = Some full"
  then show "sent (snd (search this URL_href p fetched)) =
        sent this @ [\<lparr>req_uri = collapse_slashes full, req_method = ''GET'',
                       req_headers = Map.empty, req_agent = None\<rparr>]"
    by (rule search_sent)
qed

text \<open>
  Claim C4 as stated fails: the request of \<open>search\<close> has no \<open>Via\<close> header under either
  spelling, and with \<open>via\<close> among the uplink's configured headers the request of
  \<open>getRemoteMetadataNext\<close> carries the configured value, which does not end with
  \<open>1.1 srv (Verdaccio)\<close>.
\<close>

theorem via_header_counterexample:
  "map (\<lambda>r. (req_headers r ''via'', req_headers r ''Via''))
     (sent (snd (search ex_client Some ''/-/v1/search'' (Fetched (ex_response 200))))) =
     [(None, None)] \<and>
   map (\<lambda>r. req_headers r ''via'')
     (sent (snd (getRemoteMetadataNext ex_override Map.empty 2000 ''pkg'' ex_options_via
                   ([], Resolved (ex_response 200))))) = [Some ''1.1 edge'']"
proof -
  have on: "\<not> ifRequestFailure ex_override 2000"
    by (simp add: ifRequestFailure_def ex_defs2)
  have nh: "fst (nextHeaders ex_override Map.empty ex_options_via :: (json, headers) result)
              = Inr ex_headers_override"
    by (simp add: ex_nextHeaders_override)
  have s0: "sent ex_override = []" "sent ex_client = []"
    by (simp_all add: ex_defs2)
  have u: "Some (href (url ex_client) @ ''/-/v1/search'') = Some ''https://registry.example.com//-/v1/search''"
    by (simp add: ex_defs)
  show ?thesis
    using metadata_sent [OF on nh, of "''pkg''" "([], Resolved (ex_response 200))"]
      search_sent [of Some ex_client "''/-/v1/search''", OF u, of "Fetched (ex_response 200)"]
    by (simp add: s0 ex_headers_at)
qed

text \<open>The \<open>via\<close> header with and without a \<open>via\<close> of the caller, and with a configured one.\<close>

theorem via_header_witness:
  "map (\<lambda>r. req_headers r ''via'')
     (sent (snd (getRemoteMetadataNext ex_client Map.empty 2000 ''pkg'' ex_options_via
                   ([], Resolved (ex_response 200))))) = [Some ''1.0 fred, 1.1 srv (Verdaccio)''] \<and>
   map (\<lambda>r. req_headers r ''via'')
     (sent (snd (fetchTarballNext ex_client Map.empty ''https://registry.example.com/pkg/-/pkg-1.0.0.tgz''
                   ex_options_via :: (json, unit) result))) = [Some ''1.0 fred, 1.1 srv (Verdaccio)''] \<and>
   map (\<lambda>r. req_headers r ''via'')
     (sent (snd (getRemoteMetadataNext ex_client Map.empty 2000 ''pkg'' ex_options
                   ([], Resolved (ex_response 200))))) = [Some ''1.1 srv (Verdaccio)''] \<and>
   map (\<lambda>r. req_headers r ''via'')
     (sent (snd (fetchTarballNext ex_override Map.empty ''https://registry.example.com/pkg/-/pkg-1.0.0.tgz''
                   ex_options_via :: (json, unit) result))) = [Some ''1.1 edge''] \<and>
   map req_headers
     (sent (snd (search ex_client Some ''/-/v1/search'' (Fetched (ex_response 200))))) = [Map.empty]"
proof -
  have on: "\<not> ifRequestFailure ex_client 2000"
    by (rule ex_client_is_online)
  have nh1: "fst (nextHeaders ex_client Map.empty ex_options_via :: (json, headers) result) = Inr ex_headers_via"
    by (simp add: ex_nextHeaders_via)
  have nh2: "fst (nextHeaders ex_client Map.empty ex_options :: (json, headers) result) = Inr ex_headers"
    by (simp add: ex_nextHeaders)
  have nh3: "fst (nextHeaders ex_override Map.empty ex_options_via :: (json, headers) result)
              = Inr ex_headers_override"
    by (simp add: ex_nextHeaders_override)
  have s0: "sent ex_override = []" "sent ex_client = []" "server_id ex_client = ''srv''"
    by (simp_all add: ex_defs2)
  have c: "uplink_header ex_client ''via'' = None" "caller_header ex_options_via ''via'' = Some ''1.0 fred''"
    "\<not> truthy (caller_header ex_options ''via'')" "uplink_header ex_override ''via'' = Some ''1.1 edge''"
    by (simp_all add: uplink_header_def caller_header_def truthy_def ex_defs2)
  have u: "Some (href (url ex_client) @ ''/-/v1/search'') = Some ''https://registry.example.com//-/v1/search''"
    by (simp add: ex_defs)
  note t1 = via_header [where this = ex_client and env = Map.empty and options = ex_options_via
        and h = ex_headers_via and now = 2000 and name = "''pkg''"
        and run = "([], Resolved (ex_response 200))"
        and u = "''https://registry.example.com/pkg/-/pkg-1.0.0.tgz''" and v = "''1.0 fred''"
        and w = "''1.1 edge''"
        and URL_href = Some and p = "''/-/v1/search''"
        and full = "''https://registry.example.com//-/v1/search''"
        and fetched = "Fetched (ex_response 200)"]
  note t2 = via_header [where this = ex_client and env = Map.empty and options = ex_options
        and h = ex_headers and now = 2000 and name = "''pkg''"
        and run = "([], Resolved (ex_response 200))"
        and u = "''https://registry.example.com/pkg/-/pkg-1.0.0.tgz''" and v = "''1.0 fred''"
        and w = "''1.1 edge''"
        and URL_href = Some and p = "''/-/v1/search''"
        and full = "''https://registry.example.com//-/v1/search''"
        and fetched = "Fetched (ex_response 200)"]
  note t3 = via_header [where this = ex_override and env = Map.empty and options = ex_options_via
        and h = ex_headers_override and now = 2000 and name = "''pkg''"
        and run = "([], Resolved (ex_response 200))"
        and u = "''https://registry.example.com/pkg/-/pkg-1.0.0.tgz''" and v = "''1.0 fred''"
        and w = "''1.1 edge''"
        and URL_href = Some and p = "''/-/v1/search''"
        and full = "''https://registry.example.com//-/v1/search''"
        and fetched = "Fetched (ex_response 200)"]
  have a1: "map (\<lambda>r. req_headers r ''via'')
     (sent (snd (getRemoteMetadataNext ex_client Map.empty 2000 ''pkg'' ex_options_via
                   ([], Resolved (ex_response 200))))) = [Some ''1.0 fred, 1.1 srv (Verdaccio)'']"
    using t1 on nh1 c by (simp add: s0 with_comma_def)
  have a2: "map (\<lambda>r. req_headers r ''via'')
     (sent (snd (fetchTarballNext ex_client Map.empty ''https://registry.example.com/pkg/-/pkg-1.0.0.tgz''
                   ex_options_via :: (json, unit) result))) = [Some ''1.0 fred, 1.1 srv (Verdaccio)'']"
    using t1 on nh1 c by (simp add: s0 with_comma_def)
  have a3: "map (\<lambda>r. req_headers r ''via'')
     (sent (snd (getRemoteMetadataNext ex_client Map.empty 2000 ''pkg'' ex_options
                   ([], Resolved (ex_response 200))))) = [Some ''1.1 srv (Verdaccio)'']"
    using t2 on nh2 c by (simp add: s0 with_comma_def caller_header_def ex_defs2)
  have a4: "map (\<lambda>r. req_headers r ''via'')
     (sent (snd (fetchTarballNext ex_override Map.empty ''https://registry.example.com/pkg/-/pkg-1.0.0.tgz''
                   ex_options_via :: (json, unit) result))) = [Some ''1.1 edge'']"
    using t3 nh3 c by (simp add: s0)
  have a5: "map req_headers
     (sent (snd (search ex_client Some ''/-/v1/search'' (Fetched (ex_response 200))))) = [Map.empty]"
    using t1 u by (simp add: s0)
  show ?thesis
    using a1 a2 a3 a4 a5 by blast
qed

section \<open>X-Forwarded-For and the proxy agent (claim C5)\<close>

text \<open>
  Claim C5, amended.  The constructor sets an agent exactly when a proxy is selected,
  and \<open>addProxyHeadersNext\<close> sets \<open>X-Forwarded-For\<close> exactly when no agent is set.  In
  the request that \<open>getRemoteMetadataNext\<close> (on an online uplink) and \<open>fetchTarballNext\<close>
  send, \<open>X-Forwarded-For\<close> is present when no agent is set; with an agent, a header of
  that name in any letter case is the value of the uplink's configured headers, else
  the one the caller supplied, and is absent when neither supplies it.
\<close>

theorem forwarded_for_header:
  "(agent (new_ProxyStorage cfg ua sid u0 prx mf ft) = None) = (prx = None) \<and>
   addProxyHeadersNext this g ra HEADERS_FORWARDED_FOR =
     (if agent this = None
      then Some (with_comma (g ''x-forwarded-for'') @ (case ra of None \<Rightarrow> ''undefined'' | Some a \<Rightarrow> a))
      else g HEADERS_FORWARDED_FOR) \<and>
   (fst (nextHeaders this env options :: ('b, headers) result) = Inr h \<longrightarrow>
     (\<not> ifRequestFailure this now \<longrightarrow>
        sent (snd (getRemoteMetadataNext this env now name options
                     (run :: 'b got_event list \<times> 'b got_outcome))) =
          sent this @ [\<lparr>req_uri = conf_url (config this) @ ''/'' @ encode name,
                         req_method = (if truthy (opt_method options) then the (opt_method options) else ''GET''),
                         req_headers = h, req_agent = agent this\<rparr>]) \<and>
     sent (snd (fetchTarballNext this env u options :: ('b, unit) result)) =
       sent this @ [\<lparr>req_uri = u, req_method = ''GET'', req_headers = h, req_agent = agent this\<rparr>] \<and>
     (agent this = None \<longrightarrow> h HEADERS_FORWARDED_FOR \<noteq> None) \<and>
     (agent this \<noteq> None \<longrightarrow> toLowerCase k = ''x-forwarded-for'' \<longrightarrow>
        h k = (case uplink_header this k of
                 Some v \<Rightarrow> Some v
               | None \<Rightarrow> caller_header options k)) \<and>
     (agent this \<noteq> None \<longrightarrow> toLowerCase k = ''x-forwarded-for'' \<longrightarrow>
      uplink_header this k = None \<longrightarrow> caller_header options k = None \<longrightarrow> h k = None))"
proof (intro conjI impI)
  show "(agent (new_ProxyStorage cfg ua sid u0 prx mf ft) = None) = (prx = None)"
    by (simp add: new_ProxyStorage_def Let_def split: option.splits)
  show "addProxyHeadersNext this g ra HEADERS_FORWARDED_FOR =
     (if agent this = None
      then Some (with_comma (g ''x-forwarded-for'') @ (case ra of None \<Rightarrow> ''undefined'' | Some a \<Rightarrow> a))
      else g HEADERS_FORWARDED_FOR)"
    by (rule addProxyHeadersNext_forwarded)
next
  assume nh: "fst (nextHeaders this env options :: ('b, headers) result) = Inr h"
  note f = nextHeaders_forwarded [OF nh]
  show "sent (snd (fetchTarballNext this env u options :: ('b, unit) result)) =
       sent this @ [\<lparr>req_uri = u, req_method = ''GET'', req_headers = h, req_agent = agent this\<rparr>]"
    by (rule tarballNext_sent [OF nh])
  show "sent (snd (getRemoteMetadataNext this env now name options run)) =
          sent this @ [\<lparr>req_uri = conf_url (config this) @ ''/'' @ encode name,
                         req_method = (if truthy (opt_method options) then the (opt_method options) else ''GET''),
                         req_headers = h, req_agent = agent this\<rparr>]"
    if "\<not> ifRequestFailure this now"
    by (rule metadata_sent [OF that nh])
  show "h HEADERS_FORWARDED_FOR \<noteq> None" if "agent this = None"
    using f that by (simp split: option.splits)
  show "h k = (case uplink_header this k of
                 Some v \<Rightarrow> Some v
               | None \<Rightarrow> caller_header options k)"
    if "agent this \<noteq> None" "toLowerCase k = ''x-forwarded-for''"
    using that by (rule nextHeaders_forwarded_name [OF nh])
  show "h k = None"
    if "agent this \<noteq> None" "toLowerCase k = ''x-forwarded-for''"
      "uplink_header this k = None" "caller_header options k = None"
    using nextHeaders_forwarded_name [OF nh that(1,2)] that(3,4) by simp
qed

text \<open>
  Claim C5 as stated fails: with a proxy selected (\<open>http://corp:8080\<close>) and
  \<open>X-Forwarded-For\<close> among the uplink's configured headers, the request of
  \<open>getRemoteMetadataNext\<close> carries \<open>X-Forwarded-For\<close>.
\<close>

theorem forwarded_for_header_counterexample:
  "proxy ex_proxied = Some ''http://corp:8080'' \<and>
   agent ex_proxied = Some (AgentHTTPS ''http://corp:8080'') \<and>
   map (\<lambda>r. req_headers r HEADERS_FORWARDED_FOR)
     (sent (snd (getRemoteMetadataNext ex_proxied Map.empty 2000 ''pkg'' ex_options_via
                   ([], Resolved (ex_response 200))))) = [Some ''10.1.1.1'']"
proof -
  have on: "\<not> ifRequestFailure ex_proxied 2000"
    by (simp add: ifRequestFailure_def ex_defs2)
  have nh: "fst (nextHeaders ex_proxied Map.empty ex_options_via :: (json, headers) result)
              = Inr ex_headers_proxied"
    by (simp add: ex_nextHeaders_proxied)
  have s0: "sent ex_proxied = []" "proxy ex_proxied = Some ''http://corp:8080''"
    "agent ex_proxied = Some (AgentHTTPS ''http://corp:8080'')"
    by (simp_all add: ex_defs2)
  show ?thesis
    using metadata_sent [OF on nh, of "''pkg''" "([], Resolved (ex_response 200))"]
    by (simp add: s0 ex_headers_at const_defs)
qed

text \<open>\<open>X-Forwarded-For\<close> without a proxy, and with one (with and without a configured value).\<close>

theorem forwarded_for_header_witness:
  "agent (new_ProxyStorage ex_config ''verdaccio/6'' ''srv'' ex_url (Some ''http://corp:8080'') 2 300000)
     \<noteq> None \<and>
   map (\<lambda>r. req_headers r HEADERS_FORWARDED_FOR)
     (sent (snd (getRemoteMetadataNext ex_client Map.empty 2000 ''pkg'' ex_options
                   ([], Resolved (ex_response 200))))) = [Some ''10.0.0.7''] \<and>
   map (\<lambda>r. req_headers r HEADERS_FORWARDED_FOR)
     (sent (snd (fetchTarballNext ex_proxied Map.empty ''https://registry.example.com/pkg/-/pkg-1.0.0.tgz''
                   ex_options_via :: (json, unit) result))) = [Some ''10.1.1.1''] \<and>
   map (\<lambda>r. req_headers r HEADERS_FORWARDED_FOR)
     (sent (snd (getRemoteMetadataNext ex_proxied_plain Map.empty 2000 ''pkg'' ex_options
                   ([], Resolved (ex_response 200))))) = [None]"
proof -
  have on: "\<not> ifRequestFailure ex_client 2000" "\<not> ifRequestFailure ex_proxied_plain 2000"
    by (simp_all add: ifRequestFailure_def ex_defs2 ex_proxied_plain_def)
  have nh1: "fst (nextHeaders ex_client Map.empty ex_options :: (json, headers) result) = Inr ex_headers"
    by (simp add: ex_nextHeaders)
  have nh2: "fst (nextHeaders ex_proxied Map.empty ex_options_via :: (json, headers) result)
              = Inr ex_headers_proxied"
    by (simp add: ex_nextHeaders_proxied)
  have nh3: "fst (nextHeaders ex_proxied_plain Map.empty ex_options :: (json, headers) result)
              = Inr ex_headers_proxied_plain"
    by (simp add: ex_nextHeaders_proxied_plain)
  have s0: "sent ex_client = []" "sent ex_proxied = []" "sent ex_proxied_plain = []"
    "agent ex_client = None" "agent ex_proxied \<noteq> None" "agent ex_proxied_plain \<noteq> None"
    by (simp_all add: ex_defs2 ex_proxied_plain_def)
  have c: "uplink_header ex_proxied HEADERS_FORWARDED_FOR = Some ''10.1.1.1''"
    "uplink_header ex_proxied_plain HEADERS_FORWARDED_FOR = None"
    "caller_header ex_options HEADERS_FORWARDED_FOR = None"
    "toLowerCase HEADERS_FORWARDED_FOR = ''x-forwarded-for''"
    by (simp_all add: uplink_header_def caller_header_def ex_defs2 ex_proxied_plain_def const_defs
        toLowerCase_def to_lower_def Let_def char_of_eq_iff)
  note t0 = forwarded_for_header [where cfg = ex_config and ua = "''verdaccio/6''" and sid = "''srv''"
        and ?u0.0 = ex_url and prx = "Some ''http://corp:8080''" and mf = 2 and ft = 300000
        and this = ex_client and g = Map.empty and ra = None
        and env = Map.empty and options = ex_options and h = ex_headers and now = 2000
        and name = "''pkg''" and run = "([], Resolved (ex_response 200))"
        and u = "''https://registry.example.com/pkg/-/pkg-1.0.0.tgz''" and k = HEADERS_FORWARDED_FOR]
  note t2 = forwarded_for_header [where cfg = ex_config and ua = "''verdaccio/6''" and sid = "''srv''"
        and ?u0.0 = ex_url and prx = "Some ''http://corp:8080''" and mf = 2 and ft = 300000
        and this = ex_proxied and g = Map.empty and ra = None
        and env = Map.empty and options = ex_options_via and h = ex_headers_proxied and now = 2000
        and name = "''pkg''" and run = "([], Resolved (ex_response 200))"
        and u = "''https://registry.example.com/pkg/-/pkg-1.0.0.tgz''" and k = HEADERS_FORWARDED_FOR]
  note t3 = forwarded_for_header [where cfg = ex_config and ua = "''verdaccio/6''" and sid = "''srv''"
        and ?u0.0 = ex_url and prx = "Some ''http://corp:8080''" and mf = 2 and ft = 300000
        and this = ex_proxied_plain and g = Map.empty and ra = None
        and env = Map.empty and options = ex_options and h = ex_headers_proxied_plain and now = 2000
        and name = "''pkg''" and run = "([], Resolved (ex_response 200))"
        and u = "''https://registry.example.com/pkg/-/pkg-1.0.0.tgz''" and k = HEADERS_FORWARDED_FOR]
  have a0: "agent (new_ProxyStorage ex_config ''verdaccio/6'' ''srv'' ex_url (Some ''http://corp:8080'') 2 300000)
     \<noteq> None"
    using t0 by simp
  have a1: "map (\<lambda>r. req_headers r HEADERS_FORWARDED_FOR)
     (sent (snd (getRemoteMetadataNext ex_client Map.empty 2000 ''pkg'' ex_options
                   ([], Resolved (ex_response 200))))) = [Some ''10.0.0.7'']"
    using t0 on nh1 by (simp add: s0 ex_headers_def const_defs)
  have a2: "map (\<lambda>r. req_headers r HEADERS_FORWARDED_FOR)
     (sent (snd (fetchTarballNext ex_proxied Map.empty ''https://registry.example.com/pkg/-/pkg-1.0.0.tgz''
                   ex_options_via :: (json, unit) result))) = [Some ''10.1.1.1'']"
    using t2 nh2 c by (simp add: s0)
  have a3: "map (\<lambda>r. req_headers r HEADERS_FORWARDED_FOR)
     (sent (snd (getRemoteMetadataNext ex_proxied_plain Map.empty 2000 ''pkg'' ex_options
                   ([], Resolved (ex_response 200))))) = [None]"
    using t3 on nh3 c by (simp add: s0)
  show ?thesis
    using a0 a1 a2 a3 by blast
qed

section \<open>The Authorization header (claim C6)\<close>

lemma to_lower_char_of:
  "n < 256 \<Longrightarrow> to_lower (char_of (n::nat)) = (if 65 \<le> n \<and> n \<le> 90 then char_of (n + 32) else char_of n)"
  by (simp add: to_lower_def Let_def)

lemma to_lower_to_upper: "to_lower (to_upper c) = to_lower c"
proof (cases "97 \<le> (of_char c :: nat) \<and> (of_char c :: nat) \<le> 122")
  case True
  define m where "m = (of_char c :: nat) - 32"
  have m: "m < 256" "65 \<le> m" "m \<le> 90" "m + 32 = of_char c"
    using True unfolding m_def by arith+
  have "to_upper c = char_of m"
    using True by (simp add: to_upper_def m_def Let_def)
  then have "to_lower (to_upper c) = char_of (m + 32)"
    using m(1-3) by (simp add: to_lower_char_of)
  also have "\<dots> = c" by (simp add: m(4))
  finally have "to_lower (to_upper c) = c" .
  moreover have "to_lower c = c" using True by (simp add: to_lower_def Let_def)
  ultimately show ?thesis by simp
next
  case False
  then show ?thesis by (auto simp: to_upper_def Let_def)
qed

lemma toLowerCase_upperFirst: "toLowerCase (upperFirst ty) = toLowerCase ty"
  by (cases ty) (simp_all add: toLowerCase_def upperFirst_def to_lower_to_upper)

lemma capitalised_type:
  "toLowerCase ty = ''basic'' \<Longrightarrow> upperFirst (toLowerCase (upperFirst ty)) = TOKEN_BASIC"
  "toLowerCase ty = ''bearer'' \<Longrightarrow> upperFirst (toLowerCase (upperFirst ty)) = TOKEN_BEARER"
  by (simp_all only: toLowerCase_upperFirst)
    (simp_all add: upperFirst_def to_upper_def Let_def char_of_eq_iff const_defs)

lemma setHeaderAuthorization_accepted:
  "toLowerCase ty = ''basic'' \<Longrightarrow>
     (setHeaderAuthorization this hdrs ty t :: ('b, headers) result) =
     (Inr (hdrs(HEADERS_AUTHORIZATION \<mapsto> TOKEN_BASIC @ '' '' @ t)), this)"
  "toLowerCase ty = ''bearer'' \<Longrightarrow>
     (setHeaderAuthorization this hdrs ty t :: ('b, headers) result) =
     (Inr (hdrs(HEADERS_AUTHORIZATION \<mapsto> TOKEN_BEARER @ '' '' @ t)), this)"
proof -
  have l: "toLowerCase TOKEN_BEARER = ''bearer''" "toLowerCase TOKEN_BASIC = ''basic''"
    by (simp_all add: toLowerCase_def to_lower_def const_defs Let_def char_of_eq_iff)
  show "(setHeaderAuthorization this hdrs ty t :: ('b, headers) result) =
     (Inr (hdrs(HEADERS_AUTHORIZATION \<mapsto> TOKEN_BASIC @ '' '' @ t)), this)"
    if "toLowerCase ty = ''basic''"
    using that by (simp add: setHeaderAuthorization_def Let_def l buildToken_def capitalised_type)
  show "(setHeaderAuthorization this hdrs ty t :: ('b, headers) result) =
     (Inr (hdrs(HEADERS_AUTHORIZATION \<mapsto> TOKEN_BEARER @ '' '' @ t)), this)"
    if "toLowerCase ty = ''bearer''"
    using that by (simp add: setHeaderAuthorization_def Let_def l buildToken_def capitalised_type)
qed

lemma setHeaderAuthorization_rejected:
  assumes "toLowerCase ty \<noteq> ''basic''" "toLowerCase ty \<noteq> ''bearer''"
  shows "fst (setHeaderAuthorization this hdrs ty t :: ('b, headers) result) =
         Inl (AuthError (AuthTypeNotAllowed (toLowerCase ty)))"
proof -
  have l: "toLowerCase TOKEN_BEARER = ''bearer''" "toLowerCase TOKEN_BASIC = ''basic''"
    by (simp_all add: toLowerCase_def to_lower_def const_defs Let_def char_of_eq_iff)
  show ?thesis
    using assms by (simp add: setHeaderAuthorization_def Let_def l throwErrorAuth_def)
qed

text \<open>
  Claim C6, amended.  \<open>setAuthNext\<close> returns the headers as they are when \<open>auth\<close> is not
  configured or the caller has set \<open>Authorization\<close>, and fails with \<open>Auth invalid\<close> when
  \<open>auth\<close> is not an object.  Otherwise the token is \<open>auth.token\<close> when that is a string;
  else the environment variable named by \<open>auth.token_env\<close> when that is a string; else
  \<open>NPM_TOKEN\<close> when \<open>auth.token_env\<close> is \<open>true\<close> or absent.  When the variable read is not
  set, or \<open>auth.token_env\<close> is \<open>false\<close> or of another kind, the call fails with
  \<open>TokenRequired\<close>.  With a token, the type (\<open>Basic\<close> when \<open>auth.type\<close> is missing or
  empty) is accepted in any letter case as \<open>basic\<close> or \<open>bearer\<close>; the header is then the
  type capitalised, \<open>Basic\<close> or \<open>Bearer\<close>, a space and the token; any other type fails with
  \<open>Auth type ... not allowed\<close>.
\<close>

theorem auth_header:
  "(conf_auth (config this) = AuthNil \<or> truthy (hdrs HEADERS_AUTHORIZATION) \<longrightarrow>
      (setAuthNext this env hdrs :: ('b, headers) result) = (Inr hdrs, this)) \<and>
   (conf_auth (config this) = AuthNotObject \<longrightarrow> \<not> truthy (hdrs HEADERS_AUTHORIZATION) \<longrightarrow>
      fst (setAuthNext this env hdrs :: ('b, headers) result) = Inl (AuthError AuthInvalidMsg)) \<and>
   (conf_auth (config this) = AuthObject c \<longrightarrow> \<not> truthy (hdrs HEADERS_AUTHORIZATION) \<longrightarrow>
    ty = (if truthy (auth_type c) then the (auth_type c) else TOKEN_BASIC) \<longrightarrow>
      (token c = Some t \<longrightarrow>
         (setAuthNext this env hdrs :: ('b, headers) result) = setHeaderAuthorization this hdrs ty t) \<and>
      (token c = None \<longrightarrow> token_env c = TokenEnvString n \<longrightarrow> env n = Some t \<longrightarrow>
         (setAuthNext this env hdrs :: ('b, headers) result) = setHeaderAuthorization this hdrs ty t) \<and>
      (token c = None \<longrightarrow> token_env c = TokenEnvBoolean True \<or> token_env c = TokenEnvNil \<longrightarrow>
       env ''NPM_TOKEN'' = Some t \<longrightarrow>
         (setAuthNext this env hdrs :: ('b, headers) result) = setHeaderAuthorization this hdrs ty t) \<and>
      (token c = None \<longrightarrow> token_env c = TokenEnvString n \<longrightarrow> env n = None \<longrightarrow>
         fst (setAuthNext this env hdrs :: ('b, headers) result) = Inl TokenRequired) \<and>
      (token c = None \<longrightarrow> token_env c = TokenEnvBoolean True \<or> token_env c = TokenEnvNil \<longrightarrow>
       env ''NPM_TOKEN'' = None \<longrightarrow>
         fst (setAuthNext this env hdrs :: ('b, headers) result) = Inl TokenRequired) \<and>
      (token c = None \<longrightarrow> token_env c = TokenEnvBoolean False \<or> token_env c = TokenEnvOther \<longrightarrow>
         fst (setAuthNext this env hdrs :: ('b, headers) result) = Inl TokenRequired)) \<and>
   (toLowerCase ty' = ''basic'' \<longrightarrow>
      fst (setHeaderAuthorization this hdrs ty' t' :: ('b, headers) result) =
        Inr (hdrs(HEADERS_AUTHORIZATION \<mapsto> ''Basic '' @ t'))) \<and>
   (toLowerCase ty' = ''bearer'' \<longrightarrow>
      fst (setHeaderAuthorization this hdrs ty' t' :: ('b, headers) result) =
        Inr (hdrs(HEADERS_AUTHORIZATION \<mapsto> ''Bearer '' @ t'))) \<and>
   (toLowerCase ty' \<noteq> ''basic'' \<and> toLowerCase ty' \<noteq> ''bearer'' \<longrightarrow>
      fst (setHeaderAuthorization this hdrs ty' t' :: ('b, headers) result) =
        Inl (AuthError (AuthTypeNotAllowed (toLowerCase ty'))))"
proof (intro conjI impI)
  show "(setAuthNext this env hdrs :: ('b, headers) result) = (Inr hdrs, this)"
    if "conf_auth (config this) = AuthNil \<or> truthy (hdrs HEADERS_AUTHORIZATION)"
    using that by (auto simp: setAuthNext_def split: auth_value.splits)
  show "fst (setAuthNext this env hdrs :: ('b, headers) result) = Inl (AuthError AuthInvalidMsg)"
    if "conf_auth (config this) = AuthNotObject" "\<not> truthy (hdrs HEADERS_AUTHORIZATION)"
    using that by (simp add: setAuthNext_def throwErrorAuth_def)
  show "fst (setHeaderAuthorization this hdrs ty' t' :: ('b, headers) result) =
        Inr (hdrs(HEADERS_AUTHORIZATION \<mapsto> ''Basic '' @ t'))"
    if "toLowerCase ty' = ''basic''"
    by (simp add: setHeaderAuthorization_accepted(1) [OF that] TOKEN_BASIC_def)
  show "fst (setHeaderAuthorization this hdrs ty' t' :: ('b, headers) result) =
        Inr (hdrs(HEADERS_AUTHORIZATION \<mapsto> ''Bearer '' @ t'))"
    if "toLowerCase ty' = ''bearer''"
    by (simp add: setHeaderAuthorization_accepted(2) [OF that] TOKEN_BEARER_def)
  show "fst (setHeaderAuthorization this hdrs ty' t' :: ('b, headers) result) =
        Inl (AuthError (AuthTypeNotAllowed (toLowerCase ty')))"
    if "toLowerCase ty' \<noteq> ''basic'' \<and> toLowerCase ty' \<noteq> ''bearer''"
    using that by (simp add: setHeaderAuthorization_rejected)
next
  assume a: "conf_auth (config this) = AuthObject c" "\<not> truthy (hdrs HEADERS_AUTHORIZATION)"
    "ty = (if truthy (auth_type c) then the (auth_type c) else TOKEN_BASIC)"
  show "(setAuthNext this env hdrs :: ('b, headers) result) = setHeaderAuthorization this hdrs ty t"
    if "token c = Some t"
    using a that by (simp add: setAuthNext_def Let_def)
  show "(setAuthNext this env hdrs :: ('b, headers) result) = setHeaderAuthorization this hdrs ty t"
    if "token c = None" "token_env c = TokenEnvString n" "env n = Some t"
    using a that by (simp add: setAuthNext_def Let_def)
  show "(setAuthNext this env hdrs :: ('b, headers) result) = setHeaderAuthorization this hdrs ty t"
    if "token c = None" "token_env c = TokenEnvBoolean True \<or> token_env c = TokenEnvNil"
      "env ''NPM_TOKEN'' = Some t"
    using a that by (auto simp: setAuthNext_def Let_def)
  show "fst (setAuthNext this env hdrs :: ('b, headers) result) = Inl TokenRequired"
    if "token c = None" "token_env c = TokenEnvString n" "env n = None"
    using a that by (simp add: setAuthNext_def Let_def throwErrorAuth_def TokenRequired_def)
  show "fst (setAuthNext this env hdrs :: ('b, headers) result) = Inl TokenRequired"
    if "token c = None" "token_env c = TokenEnvBoolean True \<or> token_env c = TokenEnvNil"
      "env ''NPM_TOKEN'' = None"
    using a that by (auto simp: setAuthNext_def Let_def throwErrorAuth_def TokenRequired_def)
  show "fst (setAuthNext this env hdrs :: ('b, headers) result) = Inl TokenRequired"
    if "token c = None" "token_env c = TokenEnvBoolean False \<or> token_env c = TokenEnvOther"
    using a that by (auto simp: setAuthNext_def Let_def throwErrorAuth_def TokenRequired_def)
qed

text \<open>
  Claim C6 as stated fails: with \<open>auth = {type: 'Bearer'}\<close>, which has neither a
  \<open>token\<close> nor a \<open>token_env\<close>, none of the three sources the claim lists applies, yet the
  call does not fail with \<open>TokenRequired\<close>: it takes \<open>NPM_TOKEN\<close> from the environment and
  sets the header.
\<close>

theorem auth_header_counterexample:
  "fst (setAuthNext
          (ex_auth_client (AuthObject \<lparr>auth_type = Some ''Bearer'', token = None, token_env = TokenEnvNil\<rparr>))
          ex_env Map.empty :: (json, headers) result) =
     Inr [''authorization'' \<mapsto> ''Bearer secret'']"
proof -
  have c: "char_of (66::nat) = CHR ''B''"
    by (simp add: char_of_eq_iff)
  show ?thesis
    by (simp add: setAuthNext_def setHeaderAuthorization_def ex_auth_client_def Let_def truthy_def
        toLowerCase_def to_lower_def upperFirst_def to_upper_def buildToken_def ex_env_def
        const_defs char_of_eq_iff c)
qed

text \<open>
  The header builder on nine configurations: no \<open>auth\<close>; an \<open>auth\<close> that is not an
  object; a literal token beside a \<open>token_env\<close>, with the type \<open>BEARER\<close>; a named variable;
  \<open>token_env: true\<close>;
  a named variable that is not set; \<open>token_env: true\<close> without \<open>NPM_TOKEN\<close>;
  \<open>token_env: false\<close>; and the type \<open>digest\<close>.
\<close>

theorem auth_header_witness:
  "(setAuthNext (ex_auth_client AuthNil) ex_env Map.empty = ((Inr Map.empty, ex_auth_client AuthNil) :: (json, headers) result)) \<and>
   (fst (setAuthNext (ex_auth_client (AuthNotObject)) ex_env Map.empty :: (json, headers) result) = Inl (AuthError AuthInvalidMsg)) \<and>
   (fst (setAuthNext (ex_auth_client (AuthObject \<lparr>auth_type = Some ''BEARER'', token = Some ''lit'', token_env = TokenEnvString ''UPLINK_TOKEN''\<rparr>)) ex_env Map.empty :: (json, headers) result) = Inr [''authorization'' \<mapsto> ''Bearer lit'']) \<and>
   (fst (setAuthNext (ex_auth_client (AuthObject \<lparr>auth_type = Some ''Basic'', token = None, token_env = TokenEnvString ''UPLINK_TOKEN''\<rparr>)) ex_env Map.empty :: (json, headers) result) = Inr [''authorization'' \<mapsto> ''Basic fromenv'']) \<and>
   (fst (setAuthNext (ex_auth_client (AuthObject \<lparr>auth_type = None, token = None, token_env = TokenEnvBoolean True\<rparr>)) ex_env Map.empty :: (json, headers) result) = Inr [''authorization'' \<mapsto> ''Basic secret'']) \<and>
   (fst (setAuthNext (ex_auth_client (AuthObject \<lparr>auth_type = Some ''bearer'', token = None, token_env = TokenEnvString ''MISSING''\<rparr>)) ex_env Map.empty :: (json, headers) result) = Inl TokenRequired) \<and>
   (fst (setAuthNext (ex_auth_client (AuthObject \<lparr>auth_type = None, token = None, token_env = TokenEnvBoolean True\<rparr>)) Map.empty Map.empty :: (json, headers) result) = Inl TokenRequired) \<and>
   (fst (setAuthNext (ex_auth_client (AuthObject \<lparr>auth_type = Some ''bearer'', token = None, token_env = TokenEnvBoolean False\<rparr>)) ex_env Map.empty :: (json, headers) result) = Inl TokenRequired) \<and>
   (fst (setAuthNext (ex_auth_client (AuthObject \<lparr>auth_type = Some ''digest'', token = Some ''lit'', token_env = TokenEnvNil\<rparr>)) ex_env Map.empty :: (json, headers) result) = Inl (AuthError (AuthTypeNotAllowed ''digest'')))"
proof -
  have f: "conf_auth (config (ex_auth_client a)) = a" "\<not> truthy (Map.empty HEADERS_AUTHORIZATION)"
    "HEADERS_AUTHORIZATION = ''authorization''" "TOKEN_BASIC = ''Basic''"
    "toLowerCase ''bearer'' = ''bearer''" "toLowerCase ''Basic'' = ''basic''"
    "toLowerCase ''digest'' = ''digest''" "toLowerCase ''BEARER'' = ''bearer''"
    "ex_env ''UPLINK_TOKEN'' = Some ''fromenv''" "ex_env ''NPM_TOKEN'' = Some ''secret''"
    "ex_env ''MISSING'' = None" "truthy (Some ''bearer'')" "truthy (Some ''Basic'')"
    "truthy (Some ''digest'')" "truthy (Some ''BEARER'')" "\<not> truthy None" for a
    by (simp_all add: ex_auth_client_def ex_config_def truthy_def const_defs toLowerCase_def
        to_lower_def upperFirst_def to_upper_def Let_def char_of_eq_iff ex_env_def)
  have a1: "setAuthNext (ex_auth_client AuthNil) ex_env Map.empty = ((Inr Map.empty, ex_auth_client AuthNil) :: (json, headers) result)"
    using auth_header [where this = "ex_auth_client (AuthNil)" and hdrs = Map.empty and env = ex_env
        and c = "\<lparr>auth_type = Some ''bearer'', token = Some ''lit'', token_env = TokenEnvString ''UPLINK_TOKEN''\<rparr>" and ty = "''bearer''" and t = "''lit''" and n = "''UPLINK_TOKEN''" and ty' = "''bearer''" and t' = "''lit''",
        where ?'b = json]
    by (simp add: f)
  have a2: "fst (setAuthNext (ex_auth_client (AuthNotObject)) ex_env Map.empty :: (json, headers) result) = Inl (AuthError AuthInvalidMsg)"
    using auth_header [where this = "ex_auth_client (AuthNotObject)" and hdrs = Map.empty and env = ex_env
        and c = "\<lparr>auth_type = Some ''bearer'', token = Some ''lit'', token_env = TokenEnvString ''UPLINK_TOKEN''\<rparr>" and ty = "''bearer''" and t = "''lit''" and n = "''UPLINK_TOKEN''" and ty' = "''bearer''" and t' = "''lit''",
        where ?'b = json]
    by (simp add: f)
  have a3: "fst (setAuthNext (ex_auth_client (AuthObject \<lparr>auth_type = Some ''BEARER'', token = Some ''lit'', token_env = TokenEnvString ''UPLINK_TOKEN''\<rparr>)) ex_env Map.empty :: (json, headers) result) = Inr [''authorization'' \<mapsto> ''Bearer lit'']"
    using auth_header [where this = "ex_auth_client (AuthObject \<lparr>auth_type = Some ''BEARER'', token = Some ''lit'', token_env = TokenEnvString ''UPLINK_TOKEN''\<rparr>)" and hdrs = Map.empty and env = ex_env
        and c = "\<lparr>auth_type = Some ''BEARER'', token = Some ''lit'', token_env = TokenEnvString ''UPLINK_TOKEN''\<rparr>" and ty = "''BEARER''" and t = "''lit''" and n = "''UPLINK_TOKEN''" and ty' = "''BEARER''" and t' = "''lit''",
        where ?'b = json]
    by (simp add: f)
  have a4: "fst (setAuthNext (ex_auth_client (AuthObject \<lparr>auth_type = Some ''Basic'', token = None, token_env = TokenEnvString ''UPLINK_TOKEN''\<rparr>)) ex_env Map.empty :: (json, headers) result) = Inr [''authorization'' \<mapsto> ''Basic fromenv'']"
    using auth_header [where this = "ex_auth_client (AuthObject \<lparr>auth_type = Some ''Basic'', token = None, token_env = TokenEnvString ''UPLINK_TOKEN''\<rparr>)" and hdrs = Map.empty and env = ex_env
        and c = "\<lparr>auth_type = Some ''Basic'', token = None, token_env = TokenEnvString ''UPLINK_TOKEN''\<rparr>" and ty = "''Basic''" and t = "''fromenv''" and n = "''UPLINK_TOKEN''" and ty' = "''Basic''" and t' = "''fromenv''",
        where ?'b = json]
    by (simp add: f)
  have a5: "fst (setAuthNext (ex_auth_client (AuthObject \<lparr>auth_type = None, token = None, token_env = TokenEnvBoolean True\<rparr>)) ex_env Map.empty :: (json, headers) result) = Inr [''authorization'' \<mapsto> ''Basic secret'']"
    using auth_header [where this = "ex_auth_client (AuthObject \<lparr>auth_type = None, token = None, token_env = TokenEnvBoolean True\<rparr>)" and hdrs = Map.empty and env = ex_env
        and c = "\<lparr>auth_type = None, token = None, token_env = TokenEnvBoolean True\<rparr>" and ty = "''Basic''" and t = "''secret''" and n = "''UPLINK_TOKEN''" and ty' = "''Basic''" and t' = "''secret''",
        where ?'b = json]
    by (simp add: f)
  have a6: "fst (setAuthNext (ex_auth_client (AuthObject \<lparr>auth_type = Some ''bearer'', token = None, token_env = TokenEnvString ''MISSING''\<rparr>)) ex_env Map.empty :: (json, headers) result) = Inl TokenRequired"
    using auth_header [where this = "ex_auth_client (AuthObject \<lparr>auth_type = Some ''bearer'', token = None, token_env = TokenEnvString ''MISSING''\<rparr>)" and hdrs = Map.empty and env = ex_env
        and c = "\<lparr>auth_type = Some ''bearer'', token = None, token_env = TokenEnvString ''MISSING''\<rparr>" and ty = "''bearer''" and t = "''lit''" and n = "''MISSING''" and ty' = "''bearer''" and t' = "''lit''",
        where ?'b = json]
    by (simp add: f)
  have a7: "fst (setAuthNext (ex_auth_client (AuthObject \<lparr>auth_type = None, token = None, token_env = TokenEnvBoolean True\<rparr>)) Map.empty Map.empty :: (json, headers) result) = Inl TokenRequired"
    using auth_header [where this = "ex_auth_client (AuthObject \<lparr>auth_type = None, token = None, token_env = TokenEnvBoolean True\<rparr>)" and hdrs = Map.empty and env = Map.empty
        and c = "\<lparr>auth_type = None, token = None, token_env = TokenEnvBoolean True\<rparr>" and ty = "''Basic''" and t = "''lit''" and n = "''MISSING''" and ty' = "''Basic''" and t' = "''lit''",
        where ?'b = json]
    by (simp add: f)
  have a8: "fst (setAuthNext (ex_auth_client (AuthObject \<lparr>auth_type = Some ''bearer'', token = None, token_env = TokenEnvBoolean False\<rparr>)) ex_env Map.empty :: (json, headers) result) = Inl TokenRequired"
    using auth_header [where this = "ex_auth_client (AuthObject \<lparr>auth_type = Some ''bearer'', token = None, token_env = TokenEnvBoolean False\<rparr>)" and hdrs = Map.empty and env = ex_env
        and c = "\<lparr>auth_type = Some ''bearer'', token = None, token_env = TokenEnvBoolean False\<rparr>" and ty = "''bearer''" and t = "''lit''" and n = "''MISSING''" and ty' = "''bearer''" and t' = "''lit''",
        where ?'b = json]
    by (simp add: f)
  have a9: "fst (setAuthNext (ex_auth_client (AuthObject \<lparr>auth_type = Some ''digest'', token = Some ''lit'', token_env = TokenEnvNil\<rparr>)) ex_env Map.empty :: (json, headers) result) = Inl (AuthError (AuthTypeNotAllowed ''digest''))"
    using auth_header [where this = "ex_auth_client (AuthObject \<lparr>auth_type = Some ''digest'', token = Some ''lit'', token_env = TokenEnvNil\<rparr>)" and hdrs = Map.empty and env = ex_env
        and c = "\<lparr>auth_type = Some ''digest'', token = Some ''lit'', token_env = TokenEnvNil\<rparr>" and ty = "''digest''" and t = "''lit''" and n = "''MISSING''" and ty' = "''digest''" and t' = "''lit''",
        where ?'b = json]
    by (simp add: f)
  show ?thesis
    using a1 a2 a3 a4 a5 a6 a7 a8 a9 by blast
qed

section \<open>Round trip of the package name encoding (claim C7)\<close>

lemma hex_value_hex_digit: "n < 16 \<Longrightarrow> hex_value (hex_digit n) = Some n"
  by (auto simp: hex_value_def hex_digit_def Let_def)

lemma unreserved_not_percent: "is_unreserved c \<Longrightarrow> c \<noteq> CHR ''%''"
  by (auto simp: is_unreserved_def Let_def)

lemma decode_encode_byte:
  "percent_decode (encode_byte c @ t) = map_option ((#) c) (percent_decode t)"
proof (cases "is_unreserved c")
  case True
  then show ?thesis by (simp add: encode_byte_def unreserved_not_percent)
next
  case False
  have lt: "(of_char c :: nat) < 256" by simp
  have d: "(of_char c :: nat) div 16 < 16" using lt by (simp add: less_mult_imp_div_less)
  have m: "(of_char c :: nat) mod 16 < 16" by simp
  have "char_of (16 * ((of_char c :: nat) div 16) + (of_char c :: nat) mod 16) = c"
    by simp
  with False d m show ?thesis
    by (simp add: encode_byte_def hex_value_hex_digit)
qed

lemma decode_encodeURIComponent: "percent_decode (encodeURIComponent s) = Some s"
  by (induction s) (simp_all add: encodeURIComponent_def decode_encode_byte)

lemma encodeURIComponent_Cons: "encodeURIComponent (c # s) = encode_byte c @ encodeURIComponent s"
  by (simp add: encodeURIComponent_def)

lemma encode_byte_at: "encode_byte (CHR ''@'') = ''%40''"
  by (simp add: encode_byte_def is_unreserved_def hex_digit_def Let_def char_of_eq_iff)

lemma percent_decode_encode: "percent_decode (encode name) = Some name"
proof (cases "take 3 (encodeURIComponent name) = ''%40''")
  case True
  then have e: "encodeURIComponent name = ''%40'' @ drop 3 (encodeURIComponent name)"
    by (metis append_take_drop_id)
  have at: "char_of (64::nat) = CHR ''@''" by (simp add: char_of_eq_iff)
  have "percent_decode (''%40'' @ drop 3 (encodeURIComponent name)) = Some name"
    using e decode_encodeURIComponent [of name] by simp
  then have "percent_decode (CHR ''@'' # drop 3 (encodeURIComponent name)) = Some name"
    by (simp add: hex_value_def Let_def at)
  with True show ?thesis by (simp add: encode_def Let_def)
next
  case False
  then show ?thesis by (simp add: encode_def Let_def decode_encodeURIComponent)
qed

lemma encode_scoped: "encode (CHR ''@'' # rest) = CHR ''@'' # encodeURIComponent rest"
  by (simp add: encode_def Let_def encodeURIComponent_Cons encode_byte_at)

lemma encode_example: "encode ''@scope/pkg'' = ''@scope%2Fpkg''"
  by (simp add: encode_def Let_def encodeURIComponent_def encode_byte_def is_unreserved_def hex_digit_def char_of_eq_iff)

text \<open>
  Claim C7.  For every package name, percent-decoding \<open>encode name\<close> gives the name
  back; a leading \<open>@\<close> is written literally and the rest of the name is
  percent-encoded; and \<open>@scope/pkg\<close> encodes to \<open>@scope%2Fpkg\<close>.
\<close>

theorem encode_round_trip:
  "percent_decode (encode name) = Some name \<and>
   encode (CHR ''@'' # rest) = CHR ''@'' # encodeURIComponent rest \<and>
   encode ''@scope/pkg'' = ''@scope%2Fpkg''"
  using percent_decode_encode [of name] encode_scoped [of rest] encode_example by blast

section \<open>Errors on the tarball stream (claim C8)\<close>

lemma errors_of_append: "errors_of (xs @ ys) = errors_of xs @ errors_of ys"
  by (induction xs rule: errors_of.induct) simp_all

lemma errors_of_data: "errors_of (map SData ds) = []"
  by (induction ds) simp_all

lemma foldl_tarball_data:
  "foldl tarball_event (t, st) (map EvData ds) =
     (t, st\<lparr>current_length := current_length st + sum_list ds,
            emitted := emitted st @ (if piped st then map SData ds else [])\<rparr>)"
proof (induction ds arbitrary: st)
  case Nil
  then show ?case by simp
next
  case (Cons d ds)
  show ?case
    by (simp add: Cons Let_def emit_def add.assoc)
qed

lemma tarball_live:
  assumes "\<not> ifRequestFailure this now"
    and "fst (setHeaders this env (Some [''Accept'' \<mapsto> contentTypeAccept]) :: ('b, headers) result) = Inr h"
  obtains t' where
    "\<And>events. fst (fetchTarball this env now u (events :: 'b req_event list)) =
           Inr (emitted (snd (foldl tarball_event (t', tarball_init) events)))"
proof -
  obtain t0 where sh: "(setHeaders this env (Some [''Accept'' \<mapsto> contentTypeAccept]) :: ('b, headers) result) = (Inr h, t0)"
    using assms(2)
    by (cases "setHeaders this env (Some [''Accept'' \<mapsto> contentTypeAccept]) :: ('b, headers) result") simp
  define t' where "t' = (log Info MakingRequest t0)\<lparr>sent := sent (log Info MakingRequest t0) @
      [\<lparr>req_uri = (if u \<noteq> [] then u else conf_url (config t0) @ ''undefined''),
        req_method = ''GET'',
        req_headers = applyUplinkHeaders t0 (addProxyHeaders t0 None h), req_agent = None\<rparr>]\<rparr>"
  have "\<And>events. fst (fetchTarball this env now u (events :: 'b req_event list)) =
           Inr (emitted (snd (foldl tarball_event (t', tarball_init) events)))"
    using assms(1) sh by (simp add: fetchTarball_def request_def Let_def truthy_def t'_def)
  then show ?thesis by (rule that)
qed

lemma trace_not_found:
  assumes "statusCode r = 404"
  shows "emitted (snd (foldl tarball_event (t', tarball_init :: 'b tarball_state)
            ([EvResponse t r] @ map EvData ds @ [EvEnd d]))) = [SError NotFileUplink]"
  using assms
  by (cases d) (simp_all add: foldl_tarball_data Let_def emit_def tarball_init_def truthy_def const_defs)

lemma trace_bad_status:
  assumes "statusCode r \<noteq> 404" "\<not> (200 \<le> statusCode r \<and> statusCode r < 300)"
  shows "emitted (snd (foldl tarball_event (t', tarball_init :: 'b tarball_state)
            ([EvResponse t r] @ map EvData ds @ [EvEnd d]))) =
         [SError (InternalError (BadUplinkStatus (statusCode r)) None)]"
  using assms
  by (cases d) (simp_all add: foldl_tarball_data Let_def emit_def tarball_init_def truthy_def const_defs)

lemma truthy_None: "truthy None = False"
  by (simp add: truthy_def)

lemma trace_ok:
  assumes "200 \<le> statusCode r \<and> statusCode r < 300"
  shows "emitted (snd (foldl tarball_event (t', tarball_init :: 'b tarball_state)
            ([EvResponse t r] @ map EvData ds @ [EvEnd d]))) =
         (if truthy (res_headers r HEADER_TYPE_CONTENT_LENGTH)
          then [SContentLength (the (res_headers r HEADER_TYPE_CONTENT_LENGTH))] else []) @
         map SData ds @
         (if truthy (res_headers r HEADER_TYPE_CONTENT_LENGTH) \<and>
             ToNumber (the (res_headers r HEADER_TYPE_CONTENT_LENGTH)) \<noteq>
               Some (sum_list ds + (case d of None \<Rightarrow> 0 | Some n \<Rightarrow> n))
          then [SError ContentMismatch] else []) @
         [SEnd]"
  using assms
  by (cases d) (simp_all add: foldl_tarball_data Let_def emit_def tarball_init_def HTTP_STATUS_OK_def
      HTTP_STATUS_MULTIPLE_CHOICES_def HTTP_STATUS_NOT_FOUND_def truthy_None)

lemma trace_error:
  "emitted (snd (foldl tarball_event (t', tarball_init :: 'b tarball_state) [EvError t e])) = [SError e]"
  by (simp add: Let_def emit_def tarball_init_def)

lemma request_errors_mem: "EvError t e \<in> set events \<Longrightarrow> e \<in> set (request_errors events)"
  by (induction events rule: request_errors.induct) auto

lemma tarball_event_listed:
  assumes "\<forall>e \<in> set (errors_of (emitted st)). listed_error events e" "ev \<in> set events"
  shows "\<forall>e \<in> set (errors_of (emitted (snd (tarball_event (t, st) ev)))). listed_error events e"
proof (cases ev)
  case (EvError now err)
  then have "listed_error events err"
    using assms(2) by (auto simp: listed_error_def dest: request_errors_mem)
  with EvError assms(1) show ?thesis
    by (auto simp: Let_def emit_def errors_of_append)
next
  case (EvResponse now res)
  with assms(1) show ?thesis
    by (auto simp: Let_def emit_def errors_of_append listed_error_def is_bad_uplink_status_def)
next
  case (EvData n)
  with assms(1) show ?thesis
    by (auto simp: Let_def emit_def errors_of_append)
next
  case (EvEnd d)
  with assms(1) show ?thesis
    by (auto simp: Let_def emit_def errors_of_append listed_error_def split: option.splits)
qed

lemma foldl_tarball_listed:
  assumes "\<forall>e \<in> set (errors_of (emitted (snd p))). listed_error events e" "set evs \<subseteq> set events"
  shows "\<forall>e \<in> set (errors_of (emitted (snd (foldl tarball_event p evs)))). listed_error events e"
  using assms
proof (induction evs arbitrary: p)
  case Nil
  then show ?case by simp
next
  case (Cons ev evs)
  obtain t st where p: "p = (t, st)" by (cases p)
  have "\<forall>e \<in> set (errors_of (emitted (snd (tarball_event (t, st) ev)))). listed_error events e"
    using Cons.prems p by (intro tarball_event_listed) auto
  then show ?case using Cons.IH [of "tarball_event (t, st) ev"] Cons.prems(2) p by simp
qed

text \<open>
  Claim C8, amended.  The stream \<open>fetchTarball\<close> returns emits \<open>UplinkOffline\<close>, and nothing
  else, when the preflight check finds the uplink offline.  Otherwise, once the headers
  are built: a request that emits a response, its data and its end makes the stream
  emit exactly one error for a 404 (\<open>NotFileUplink\<close>) and for any other status outside
  2xx (\<open>bad uplink status code\<close>), and for a 2xx exactly one error (\<open>ContentMismatch\<close>)
  when the \<open>content-length\<close> header is present and differs from the number of bytes
  counted at the end, and none otherwise; a request that only fails makes it emit that
  error; and whatever the request emits, every error on the stream is one of these
  four kinds.
\<close>

theorem tarball_errors:
  "(ifRequestFailure this now \<longrightarrow>
      fetchTarball this env now u (events :: 'b req_event list) = (Inr [SError UplinkOffline], this)) \<and>
   (\<not> ifRequestFailure this now \<longrightarrow>
    fst (setHeaders this env (Some [''Accept'' \<mapsto> contentTypeAccept]) :: ('b, headers) result) = Inr h \<longrightarrow>
      (statusCode r = 404 \<longrightarrow>
         fst (fetchTarball this env now u ([EvResponse t r] @ map EvData ds @ [EvEnd d] :: 'b req_event list))
           = Inr [SError NotFileUplink]) \<and>
      (statusCode r \<noteq> 404 \<and> \<not> (200 \<le> statusCode r \<and> statusCode r < 300) \<longrightarrow>
         fst (fetchTarball this env now u ([EvResponse t r] @ map EvData ds @ [EvEnd d] :: 'b req_event list))
           = Inr [SError (InternalError (BadUplinkStatus (statusCode r)) None)]) \<and>
      (200 \<le> statusCode r \<and> statusCode r < 300 \<longrightarrow>
         fst (fetchTarball this env now u ([EvResponse t r] @ map EvData ds @ [EvEnd d] :: 'b req_event list))
           = Inr ((if truthy (res_headers r HEADER_TYPE_CONTENT_LENGTH)
                   then [SContentLength (the (res_headers r HEADER_TYPE_CONTENT_LENGTH))] else []) @
                  map SData ds @
                  (if truthy (res_headers r HEADER_TYPE_CONTENT_LENGTH) \<and>
                      ToNumber (the (res_headers r HEADER_TYPE_CONTENT_LENGTH)) \<noteq>
                        Some (sum_list ds + (case d of None \<Rightarrow> 0 | Some n \<Rightarrow> n))
                   then [SError ContentMismatch] else []) @
                  [SEnd])) \<and>
      fst (fetchTarball this env now u ([EvError t e] :: 'b req_event list)) = Inr [SError e] \<and>
      (fst (fetchTarball this env now u events) = Inr out \<longrightarrow>
         (\<forall>x \<in> set (errors_of out). listed_error events x)))"
proof (intro conjI impI)
  show "fetchTarball this env now u events = (Inr [SError UplinkOffline], this)"
    if "ifRequestFailure this now"
    using that by (rule tarball_offline)
next
  assume on: "\<not> ifRequestFailure this now"
    and sh: "fst (setHeaders this env (Some [''Accept'' \<mapsto> contentTypeAccept]) :: ('b, headers) result) = Inr h"
  from tarball_live [OF on sh, where u = u] obtain t' where
    live: "\<And>events. fst (fetchTarball this env now u (events :: 'b req_event list)) =
           Inr (emitted (snd (foldl tarball_event (t', tarball_init) events)))"
    by blast
  show "fst (fetchTarball this env now u ([EvResponse t r] @ map EvData ds @ [EvEnd d] :: 'b req_event list))
           = Inr [SError NotFileUplink]" if "statusCode r = 404"
    by (simp only: live trace_not_found [OF that])
  show "fst (fetchTarball this env now u ([EvResponse t r] @ map EvData ds @ [EvEnd d] :: 'b req_event list))
           = Inr [SError (InternalError (BadUplinkStatus (statusCode r)) None)]"
    if c: "statusCode r \<noteq> 404 \<and> \<not> (200 \<le> statusCode r \<and> statusCode r < 300)"
  proof -
    from c have a: "statusCode r \<noteq> 404" and b: "\<not> (200 \<le> statusCode r \<and> statusCode r < 300)"
      by simp_all
    show ?thesis by (simp only: live trace_bad_status [OF a b])
  qed
  show "fst (fetchTarball this env now u ([EvResponse t r] @ map EvData ds @ [EvEnd d] :: 'b req_event list))
           = Inr ((if truthy (res_headers r HEADER_TYPE_CONTENT_LENGTH)
                   then [SContentLength (the (res_headers r HEADER_TYPE_CONTENT_LENGTH))] else []) @
                  map SData ds @
                  (if truthy (res_headers r HEADER_TYPE_CONTENT_LENGTH) \<and>
                      ToNumber (the (res_headers r HEADER_TYPE_CONTENT_LENGTH)) \<noteq>
                        Some (sum_list ds + (case d of None \<Rightarrow> 0 | Some n \<Rightarrow> n))
                   then [SError ContentMismatch] else []) @
                  [SEnd])"
    if "200 \<le> statusCode r \<and> statusCode r < 300"
    by (simp only: live trace_ok [OF that])
  show "fst (fetchTarball this env now u ([EvError t e] :: 'b req_event list)) = Inr [SError e]"
    by (simp only: live trace_error)
  show "\<forall>x \<in> set (errors_of out). listed_error events x"
    if "fst (fetchTarball this env now u events) = Inr out"
  proof -
    have "out = emitted (snd (foldl tarball_event (t', tarball_init) events))"
      using that live [of events] by simp
    then show ?thesis
      using foldl_tarball_listed [of "(t', tarball_init)" events events]
      by (simp add: tarball_init_def)
  qed
qed

lemma ex_tarball_two_errors:
  "fst (fetchTarball ex_client Map.empty 2000 ''https://registry.example.com/pkg/-/pkg-1.0.0.tgz''
          ([EvResponse 2100 (ex_tar_response 500),
            EvError 2200 (LibError (RequestError ''ECONNRESET''))] :: json req_event list)) =
     Inr [SError (InternalError (BadUplinkStatus 500) None),
          SError (LibError (RequestError ''ECONNRESET''))]"
proof -
  from tarball_live [OF ex_client_is_online, where env = Map.empty
      and h = "[''Accept'' \<mapsto> ''application/json;'', ''Accept-Encoding'' \<mapsto> ''gzip'',
        ''User-Agent'' \<mapsto> ''npm (verdaccio/6)'']"
      and u = "''https://registry.example.com/pkg/-/pkg-1.0.0.tgz''", where ?'b = json]
  obtain t' where
    live: "\<And>events. fst (fetchTarball ex_client Map.empty 2000
             ''https://registry.example.com/pkg/-/pkg-1.0.0.tgz'' (events :: json req_event list)) =
           Inr (emitted (snd (foldl tarball_event (t', tarball_init) events)))"
    by (auto simp: ex_setHeaders)
  show ?thesis
    by (simp add: live Let_def emit_def tarball_init_def ex_tar_response_def const_defs)
qed

text \<open>
  Claim C8 as stated fails twice.  On an offline uplink the stream emits
  \<open>UplinkOffline\<close>, with no request sent: an error outside the four causes the claim
  lists.  And when a response with status 500 is followed by an error of the request,
  the stream emits two errors.
\<close>

theorem tarball_errors_counterexample:
  "fetchTarball ex_offline Map.empty 2000 ''https://registry.example.com/pkg/-/pkg-1.0.0.tgz''
     ([] :: json req_event list) =
     (Inr [SError (InternalError (Api UPLINK_OFFLINE) None)], ex_offline) \<and>
   sent ex_offline = [] \<and>
   fst (fetchTarball ex_client Map.empty 2000 ''https://registry.example.com/pkg/-/pkg-1.0.0.tgz''
          ([EvResponse 2100 (ex_tar_response 500),
            EvError 2200 (LibError (RequestError ''ECONNRESET''))] :: json req_event list)) =
     Inr [SError (InternalError (BadUplinkStatus 500) None),
          SError (LibError (RequestError ''ECONNRESET''))]"
proof -
  have "sent ex_offline = []" by (simp add: ex_defs)
  then show ?thesis
    using tarball_offline [OF ex_offline_is_offline, of Map.empty
        "''https://registry.example.com/pkg/-/pkg-1.0.0.tgz''" "[] :: json req_event list"]
      ex_tarball_two_errors
    by (simp add: UplinkOffline_def)
qed

text \<open>
  The stream on an offline uplink; for the statuses 404 and 500; for a 200 that
  announces 100 bytes and carries 80, and one that carries 100; for a request that
  fails; and the two errors of a 500 followed by a failure.
\<close>

theorem tarball_errors_witness:
  "(fetchTarball ex_offline Map.empty 2000 ''https://registry.example.com/pkg/-/pkg-1.0.0.tgz'' ([] :: json req_event list) = (Inr [SError UplinkOffline], ex_offline)) \<and>
   (fst (fetchTarball ex_client Map.empty 2000 ''https://registry.example.com/pkg/-/pkg-1.0.0.tgz''
          ([EvResponse 2100 (ex_tar_response 404), EvData 9, EvEnd None] :: json req_event list)) = Inr [SError NotFileUplink]) \<and>
   (fst (fetchTarball ex_client Map.empty 2000 ''https://registry.example.com/pkg/-/pkg-1.0.0.tgz''
          ([EvResponse 2100 (ex_tar_response 500), EvData 9, EvEnd None] :: json req_event list)) = Inr [SError (InternalError (BadUplinkStatus 500) None)]) \<and>
   (fst (fetchTarball ex_client Map.empty 2000 ''https://registry.example.com/pkg/-/pkg-1.0.0.tgz''
          ([EvResponse 2100 (ex_tar_response 200), EvData 50, EvData 30, EvEnd None] :: json req_event list)) =
     Inr [SContentLength ''100'', SData 50, SData 30, SError ContentMismatch, SEnd]) \<and>
   (fst (fetchTarball ex_client Map.empty 2000 ''https://registry.example.com/pkg/-/pkg-1.0.0.tgz''
          ([EvResponse 2100 (ex_tar_response 200), EvData 50, EvData 30, EvEnd (Some 20)] :: json req_event list)) =
     Inr [SContentLength ''100'', SData 50, SData 30, SEnd]) \<and>
   (fst (fetchTarball ex_client Map.empty 2000 ''https://registry.example.com/pkg/-/pkg-1.0.0.tgz''
          ([EvError 2100 (LibError (RequestError ''ECONNRESET''))] :: json req_event list)) = Inr [SError (LibError (RequestError ''ECONNRESET''))]) \<and>
   (listed_error ([EvResponse 2100 (ex_tar_response 500), EvError 2200 (LibError (RequestError ''ECONNRESET''))] :: json req_event list) (InternalError (BadUplinkStatus 500) None)) \<and>
   (listed_error ([EvResponse 2100 (ex_tar_response 500), EvError 2200 (LibError (RequestError ''ECONNRESET''))] :: json req_event list) (LibError (RequestError ''ECONNRESET'')))"
proof -
  have sh: "fst (setHeaders ex_client Map.empty (Some [''Accept'' \<mapsto> contentTypeAccept])
             :: (json, headers) result) =
           Inr [''Accept'' \<mapsto> ''application/json;'', ''Accept-Encoding'' \<mapsto> ''gzip'',
                ''User-Agent'' \<mapsto> ''npm (verdaccio/6)'']"
    by (simp add: ex_setHeaders)
  have f: "statusCode (ex_tar_response c) = c"
    "res_headers (ex_tar_response c) HEADER_TYPE_CONTENT_LENGTH = Some ''100''"
    "truthy (Some ''100'')" "ToNumber ''100'' = Some 100" for c
    by (simp_all add: ex_tar_response_def const_defs truthy_def ToNumber_def)
  have o2: "fst (fetchTarball ex_client Map.empty 2000 ''https://registry.example.com/pkg/-/pkg-1.0.0.tgz''
          ([EvResponse 2100 (ex_tar_response 500),
            EvError 2200 (LibError (RequestError ''ECONNRESET''))] :: json req_event list)) =
     Inr [SError (InternalError (BadUplinkStatus 500) None),
          SError (LibError (RequestError ''ECONNRESET''))]"
    by (rule ex_tarball_two_errors)
  have a1: "fetchTarball ex_offline Map.empty 2000 ''https://registry.example.com/pkg/-/pkg-1.0.0.tgz'' ([] :: json req_event list) = (Inr [SError UplinkOffline], ex_offline)"
    using tarball_errors [where this = ex_offline and now = 2000 and env = Map.empty and u = "''https://registry.example.com/pkg/-/pkg-1.0.0.tgz''"
      and events = "[] :: json req_event list" and h = "[''Accept'' \<mapsto> ''application/json;'', ''Accept-Encoding'' \<mapsto> ''gzip'', ''User-Agent'' \<mapsto> ''npm (verdaccio/6)'']"
      and r = "ex_tar_response 404" and t = 2100 and ds = "[9]" and d = "None"
      and e = "LibError (RequestError ''ECONNRESET'')" and out = "[]"]
      ex_offline_is_offline ex_client_is_online sh
    by (simp add: f)
  have a2: "fst (fetchTarball ex_client Map.empty 2000 ''https://registry.example.com/pkg/-/pkg-1.0.0.tgz''
          ([EvResponse 2100 (ex_tar_response 404), EvData 9, EvEnd None] :: json req_event list)) = Inr [SError NotFileUplink]"
    using tarball_errors [where this = ex_client and now = 2000 and env = Map.empty and u = "''https://registry.example.com/pkg/-/pkg-1.0.0.tgz''"
      and events = "[] :: json req_event list" and h = "[''Accept'' \<mapsto> ''application/json;'', ''Accept-Encoding'' \<mapsto> ''gzip'', ''User-Agent'' \<mapsto> ''npm (verdaccio/6)'']"
      and r = "ex_tar_response 404" and t = 2100 and ds = "[9]" and d = "None"
      and e = "LibError (RequestError ''ECONNRESET'')" and out = "[]"]
      ex_offline_is_offline ex_client_is_online sh
    by (simp add: f)
  have a3: "fst (fetchTarball ex_client Map.empty 2000 ''https://registry.example.com/pkg/-/pkg-1.0.0.tgz''
          ([EvResponse 2100 (ex_tar_response 500), EvData 9, EvEnd None] :: json req_event list)) = Inr [SError (InternalError (BadUplinkStatus 500) None)]"
    using tarball_errors [where this = ex_client and now = 2000 and env = Map.empty and u = "''https://registry.example.com/pkg/-/pkg-1.0.0.tgz''"
      and events = "[] :: json req_event list" and h = "[''Accept'' \<mapsto> ''application/json;'', ''Accept-Encoding'' \<mapsto> ''gzip'', ''User-Agent'' \<mapsto> ''npm (verdaccio/6)'']"
      and r = "ex_tar_response 500" and t = 2100 and ds = "[9]" and d = "None"
      and e = "LibError (RequestError ''ECONNRESET'')" and out = "[]"]
      ex_offline_is_offline ex_client_is_online sh
    by (simp add: f)
  have a4: "fst (fetchTarball ex_client Map.empty 2000 ''https://registry.example.com/pkg/-/pkg-1.0.0.tgz''
          ([EvResponse 2100 (ex_tar_response 200), EvData 50, EvData 30, EvEnd None] :: json req_event list)) =
     Inr [SContentLength ''100'', SData 50, SData 30, SError ContentMismatch, SEnd]"
    using tarball_errors [where this = ex_client and now = 2000 and env = Map.empty and u = "''https://registry.example.com/pkg/-/pkg-1.0.0.tgz''"
      and events = "[] :: json req_event list" and h = "[''Accept'' \<mapsto> ''application/json;'', ''Accept-Encoding'' \<mapsto> ''gzip'', ''User-Agent'' \<mapsto> ''npm (verdaccio/6)'']"
      and r = "ex_tar_response 200" and t = 2100 and ds = "[50, 30]" and d = "None"
      and e = "LibError (RequestError ''ECONNRESET'')" and out = "[]"]
      ex_offline_is_offline ex_client_is_online sh
    by (simp add: f)
  have a5: "fst (fetchTarball ex_client Map.empty 2000 ''https://registry.example.com/pkg/-/pkg-1.0.0.tgz''
          ([EvResponse 2100 (ex_tar_response 200), EvData 50, EvData 30, EvEnd (Some 20)] :: json req_event list)) =
     Inr [SContentLength ''100'', SData 50, SData 30, SEnd]"
    using tarball_errors [where this = ex_client and now = 2000 and env = Map.empty and u = "''https://registry.example.com/pkg/-/pkg-1.0.0.tgz''"
      and events = "[] :: json req_event list" and h = "[''Accept'' \<mapsto> ''application/json;'', ''Accept-Encoding'' \<mapsto> ''gzip'', ''User-Agent'' \<mapsto> ''npm (verdaccio/6)'']"
      and r = "ex_tar_response 200" and t = 2100 and ds = "[50, 30]" and d = "Some 20"
      and e = "LibError (RequestError ''ECONNRESET'')" and out = "[]"]
      ex_offline_is_offline ex_client_is_online sh
    by (simp add: f)
  have a6: "fst (fetchTarball ex_client Map.empty 2000 ''https://registry.example.com/pkg/-/pkg-1.0.0.tgz''
          ([EvError 2100 (LibError (RequestError ''ECONNRESET''))] :: json req_event list)) = Inr [SError (LibError (RequestError ''ECONNRESET''))]"
    using tarball_errors [where this = ex_client and now = 2000 and env = Map.empty and u = "''https://registry.example.com/pkg/-/pkg-1.0.0.tgz''"
      and events = "[] :: json req_event list" and h = "[''Accept'' \<mapsto> ''application/json;'', ''Accept-Encoding'' \<mapsto> ''gzip'', ''User-Agent'' \<mapsto> ''npm (verdaccio/6)'']"
      and r = "ex_tar_response 200" and t = 2100 and ds = "[50, 30]" and d = "None"
      and e = "LibError (RequestError ''ECONNRESET'')" and out = "[]"]
      ex_offline_is_offline ex_client_is_online sh
    by (simp add: f)
  have a7: "listed_error ([EvResponse 2100 (ex_tar_response 500), EvError 2200 (LibError (RequestError ''ECONNRESET''))] :: json req_event list) (InternalError (BadUplinkStatus 500) None)"
    using tarball_errors [where this = ex_client and now = 2000 and env = Map.empty and u = "''https://registry.example.com/pkg/-/pkg-1.0.0.tgz''"
      and events = "[EvResponse 2100 (ex_tar_response 500), EvError 2200 (LibError (RequestError ''ECONNRESET''))] :: json req_event list" and h = "[''Accept'' \<mapsto> ''application/json;'', ''Accept-Encoding'' \<mapsto> ''gzip'', ''User-Agent'' \<mapsto> ''npm (verdaccio/6)'']"
      and r = "ex_tar_response 200" and t = 2100 and ds = "[50, 30]" and d = "None"
      and e = "LibError (RequestError ''ECONNRESET'')" and out = "[SError (InternalError (BadUplinkStatus 500) None), SError (LibError (RequestError ''ECONNRESET''))]"]
      ex_offline_is_offline ex_client_is_online sh o2
    by (simp add: f)
  have a8: "listed_error ([EvResponse 2100 (ex_tar_response 500), EvError 2200 (LibError (RequestError ''ECONNRESET''))] :: json req_event list) (LibError (RequestError ''ECONNRESET''))"
    using tarball_errors [where this = ex_client and now = 2000 and env = Map.empty and u = "''https://registry.example.com/pkg/-/pkg-1.0.0.tgz''"
      and events = "[EvResponse 2100 (ex_tar_response 500), EvError 2200 (LibError (RequestError ''ECONNRESET''))] :: json req_event list" and h = "[''Accept'' \<mapsto> ''application/json;'', ''Accept-Encoding'' \<mapsto> ''gzip'', ''User-Agent'' \<mapsto> ''npm (verdaccio/6)'']"
      and r = "ex_tar_response 200" and t = 2100 and ds = "[50, 30]" and d = "None"
      and e = "LibError (RequestError ''ECONNRESET'')" and out = "[SError (InternalError (BadUplinkStatus 500) None), SError (LibError (RequestError ''ECONNRESET''))]"]
      ex_offline_is_offline ex_client_is_online sh o2
    by (simp add: f)
  show ?thesis
    using a1 a2 a3 a4 a5 a6 a7 a8 by blast
qed

section \<open>The search request and its stream (claim C9)\<close>

lemma collapse_take1: "take (Suc 0) (collapse_slashes xs) = take (Suc 0) xs"
  by (cases xs rule: collapse_slashes.cases) auto

lemma collapse_take2: "take 2 (collapse_slashes xs) = take 2 xs"
proof (cases xs rule: collapse_slashes.cases)
  case (1 c d e rest)
  then show ?thesis
    using collapse_take1 [of "d # e # rest"] by (auto simp: numeral_2_eq_2)
qed auto

lemma double_slash_after_slash:
  assumes "\<not> double_slash ys" "take (Suc 0) ys \<noteq> [CHR ''/'']"
  shows "\<not> double_slash (c # CHR ''/'' # ys)"
proof (cases ys)
  case Nil
  then show ?thesis by simp
next
  case (Cons y ys')
  with assms show ?thesis by (cases ys') auto
qed

lemma dropWhile_no_slash: "take (Suc 0) (dropWhile (\<lambda>x. x = CHR ''/'') xs) \<noteq> [CHR ''/'']"
  by (induction xs) auto

lemma collapse_no_double_slash: "\<not> double_slash (collapse_slashes xs)"
proof (induction xs rule: collapse_slashes.induct)
  case (1 c d e rest)
  show ?case
  proof (cases "c \<noteq> CHR '':'' \<and> d = CHR ''/'' \<and> e = CHR ''/''")
    case True
    let ?r = "dropWhile (\<lambda>x. x = CHR ''/'') rest"
    have "\<not> double_slash (collapse_slashes ?r)" using 1(1) True by simp
    moreover have "take (Suc 0) (collapse_slashes ?r) \<noteq> [CHR ''/'']"
      using dropWhile_no_slash [of rest] by (simp add: collapse_take1)
    ultimately have "\<not> double_slash (c # CHR ''/'' # collapse_slashes ?r)"
      by (rule double_slash_after_slash)
    with True show ?thesis by simp
  next
    case False
    have ih: "\<not> double_slash (collapse_slashes (d # e # rest))" using 1(2) False by simp
    obtain zs where z: "collapse_slashes (d # e # rest) = d # e # zs"
      using collapse_take2 [of "d # e # rest"]
      by (cases "collapse_slashes (d # e # rest)" rule: collapse_slashes.cases)
         (auto simp: numeral_2_eq_2)
    from False ih z show ?thesis by auto
  qed
qed simp_all

lemma filter_dropWhile_same:
  "filter (\<lambda>x. x \<noteq> a) (dropWhile (\<lambda>x. x = a) xs) = filter (\<lambda>x. x \<noteq> a) xs"
  by (induction xs) auto

lemma collapse_only_slashes:
  "filter (\<lambda>x. x \<noteq> CHR ''/'') (collapse_slashes xs) = filter (\<lambda>x. x \<noteq> CHR ''/'') xs"
  by (induction xs rule: collapse_slashes.induct) (auto simp: filter_dropWhile_same)

lemma collapse_identity: "\<not> double_slash xs \<Longrightarrow> collapse_slashes xs = xs"
  by (induction xs rule: collapse_slashes.induct) auto

lemma JSONStream_parse_one:
  "filter (\<lambda>kv. fst kv = key) kvs = [(key, v)] \<Longrightarrow> v \<noteq> JNull \<Longrightarrow>
   JSONStream_parse key (JObj kvs) = [v]"
proof -
  assume a: "filter (\<lambda>kv. fst kv = key) kvs = [(key, v)]" and b: "v \<noteq> JNull"
  have "filter (\<lambda>kv. fst kv = key \<and> snd kv \<noteq> JNull) kvs =
        filter (\<lambda>kv. snd kv \<noteq> JNull) (filter (\<lambda>kv. fst kv = key) kvs)"
    by (simp add: conj_commute)
  with a b show ?thesis by (simp add: JSONStream_parse_def)
qed

lemma search_result:
  assumes "URL_href (href (url this) @ p) = Some full"
  shows "fst (search this URL_href p fetched) =
         (case fetched of
            FetchFailed err \<Rightarrow> Inl err
          | Fetched r \<Rightarrow>
              if statusCode r \<ge> HTTP_STATUS_BAD_REQUEST
              then Inl (InternalError (BadStatusFromUplink (statusCode r)) None)
              else Inr (JSONStream_parse ''objects'' (res_body r)))"
  using assms by (cases fetched) (simp_all add: search_def Let_def)

text \<open>
  Claim C9, amended.  \<open>search\<close> sends one \<open>GET\<close> request, without headers, to the \<open>href\<close>
  of the base URL followed by the given path, in which every run of slashes after a
  character other than \<open>:\<close> is collapsed to one slash: the result has no such run left,
  differs from the \<open>href\<close> only in slashes, and is the \<open>href\<close> itself when there is
  nothing to collapse.  A response status of 400 or more fails with the bad status
  code error, and a transport error is thrown as it is.  Otherwise the returned stream
  yields what \<open>JSONStream.parse('objects')\<close> emits: one item, the value of the top-level
  \<open>objects\<close> key (the whole array, its elements in order), and nothing for the other
  keys.
\<close>

theorem search_stream:
  "(URL_href (href (url this) @ p) = Some full \<longrightarrow>
      sent (snd (search this URL_href p fetched)) =
        sent this @ [\<lparr>req_uri = collapse_slashes full, req_method = ''GET'',
                       req_headers = Map.empty, req_agent = None\<rparr>] \<and>
      (statusCode r \<ge> 400 \<longrightarrow>
         fst (search this URL_href p (Fetched r)) =
           Inl (InternalError (BadStatusFromUplink (statusCode r)) None)) \<and>
      (statusCode r < 400 \<longrightarrow>
         fst (search this URL_href p (Fetched r)) = Inr (JSONStream_parse ''objects'' (res_body r))) \<and>
      fst (search this URL_href p (FetchFailed err)) = Inl err) \<and>
   \<not> double_slash (collapse_slashes s) \<and>
   filter (\<lambda>x. x \<noteq> CHR ''/'') (collapse_slashes s) = filter (\<lambda>x. x \<noteq> CHR ''/'') s \<and>
   (\<not> double_slash s \<longrightarrow> collapse_slashes s = s) \<and>
   (filter (\<lambda>kv. fst kv = ''objects'') kvs = [(''objects'', JArr xs)] \<longrightarrow>
      JSONStream_parse ''objects'' (JObj kvs) = [JArr xs])"
  using search_sent [of URL_href this p full fetched]
    search_result [of URL_href this p full "Fetched r"]
    search_result [of URL_href this p full "FetchFailed err"]
    collapse_no_double_slash [of s] collapse_only_slashes [of s] collapse_identity [of s]
    JSONStream_parse_one [of "''objects''" kvs "JArr xs"]
  by (simp add: HTTP_STATUS_BAD_REQUEST_def)

text \<open>
  Claim C9 as stated fails: for the body
  \<open>{"total":2,"objects":[{"a":1},{"a":2}],"date":"..."}\<close> the stream does not yield the
  two elements of \<open>objects\<close>; it yields one item, the array.
\<close>

theorem search_stream_counterexample:
  "fst (search ex_client Some ''/-/v1/search?text=a'' (Fetched (ex_search_response 200))) =
     Inr [JArr [JObj [(''a'', JNum 1)], JObj [(''a'', JNum 2)]]] \<and>
   fst (search ex_client Some ''/-/v1/search?text=a'' (Fetched (ex_search_response 200))) \<noteq>
     Inr [JObj [(''a'', JNum 1)], JObj [(''a'', JNum 2)]]"
  by (simp add: search_def Let_def ex_defs ex_search_response_def ex_search_body_def
      JSONStream_parse_def HTTP_STATUS_BAD_REQUEST_def)

text \<open>
  A search on \<open>https://registry.example.com/\<close> with the path \<open>/-/v1/search?text=a\<close>: the
  request, the result for the statuses 200 and 503 and for a transport error, and the
  string \<open>http://h/a/b\<close>, in which there is nothing to collapse.
\<close>

theorem search_stream_witness:
  "sent (snd (search ex_client Some ''/-/v1/search?text=a'' (Fetched (ex_search_response 200)))) =
     [\<lparr>req_uri = ''https://registry.example.com/-/v1/search?text=a'', req_method = ''GET'',
       req_headers = Map.empty, req_agent = None\<rparr>] \<and>
   fst (search ex_client Some ''/-/v1/search?text=a'' (Fetched (ex_search_response 200))) =
     Inr [JArr [JObj [(''a'', JNum 1)], JObj [(''a'', JNum 2)]]] \<and>
   fst (search ex_client Some ''/-/v1/search?text=a'' (Fetched (ex_search_response 503))) =
     Inl (InternalError (BadStatusFromUplink 503) None) \<and>
   fst (search ex_client Some ''/-/v1/search?text=a'' (FetchFailed (LibError (RequestError ''ECONNRESET'')))) =
     Inl (LibError (RequestError ''ECONNRESET'')) \<and>
   collapse_slashes ''http://h/a/b'' = ''http://h/a/b''"
proof -
  have u: "Some (href (url ex_client) @ ''/-/v1/search?text=a'') =
           Some ''https://registry.example.com//-/v1/search?text=a''"
    by (simp add: ex_defs)
  have col: "collapse_slashes ''https://registry.example.com//-/v1/search?text=a'' =
             ''https://registry.example.com/-/v1/search?text=a''"
    by simp
  have nd: "\<not> double_slash ''http://h/a/b''"
    by simp
  have f: "filter (\<lambda>kv. fst kv = ''objects'')
             [(''total'', JNum 2),
              (''objects'', JArr [JObj [(''a'', JNum 1)], JObj [(''a'', JNum 2)]]),
              (''date'', JStr ''Wed Nov 01 2023'')] =
           [(''objects'', JArr [JObj [(''a'', JNum 1)], JObj [(''a'', JNum 2)]])]"
    by simp
  have s0: "sent ex_client = []" "statusCode (ex_search_response c) = c"
    "res_body (ex_search_response c) = ex_search_body" for c
    by (simp_all add: ex_defs ex_search_response_def)
  note t1 = search_stream [where URL_href = Some and this = ex_client and p = "''/-/v1/search?text=a''"
      and full = "''https://registry.example.com//-/v1/search?text=a''"
      and fetched = "Fetched (ex_search_response 200)" and r = "ex_search_response 200"
      and err = "LibError (RequestError ''ECONNRESET'')" and s = "''http://h/a/b''"
      and kvs = "[(''total'', JNum 2),
              (''objects'', JArr [JObj [(''a'', JNum 1)], JObj [(''a'', JNum 2)]]),
              (''date'', JStr ''Wed Nov 01 2023'')]"
      and xs = "[JObj [(''a'', JNum 1)], JObj [(''a'', JNum 2)]]"]
  note t2 = search_stream [where URL_href = Some and this = ex_client and p = "''/-/v1/search?text=a''"
      and full = "''https://registry.example.com//-/v1/search?text=a''"
      and fetched = "Fetched (ex_search_response 503)" and r = "ex_search_response 503"
      and err = "LibError (RequestError ''ECONNRESET'')" and s = "''http://h/a/b''"
      and kvs = "[(''total'', JNum 2),
              (''objects'', JArr [JObj [(''a'', JNum 1)], JObj [(''a'', JNum 2)]]),
              (''date'', JStr ''Wed Nov 01 2023'')]"
      and xs = "[JObj [(''a'', JNum 1)], JObj [(''a'', JNum 2)]]"]
  have a1: "sent (snd (search ex_client Some ''/-/v1/search?text=a'' (Fetched (ex_search_response 200)))) =
     [\<lparr>req_uri = ''https://registry.example.com/-/v1/search?text=a'', req_method = ''GET'',
       req_headers = Map.empty, req_agent = None\<rparr>]"
    using t1 u by (simp add: s0 col del: collapse_slashes.simps)
  have a2: "fst (search ex_client Some ''/-/v1/search?text=a'' (Fetched (ex_search_response 200))) =
     Inr [JArr [JObj [(''a'', JNum 1)], JObj [(''a'', JNum 2)]]]"
    using t1 u f by (simp add: s0 ex_search_body_def del: collapse_slashes.simps)
  have a3: "fst (search ex_client Some ''/-/v1/search?text=a'' (Fetched (ex_search_response 503))) =
     Inl (InternalError (BadStatusFromUplink 503) None)"
    using t2 u by (simp add: s0 del: collapse_slashes.simps)
  have a4: "fst (search ex_client Some ''/-/v1/search?text=a'' (FetchFailed (LibError (RequestError ''ECONNRESET'')))) =
     Inl (LibError (RequestError ''ECONNRESET''))"
    using t1 u by (simp add: s0 del: collapse_slashes.simps)
  have a5: "collapse_slashes ''http://h/a/b'' = ''http://h/a/b''"
    using t1 nd by blast
  show ?thesis
    using a1 a2 a3 a4 a5 by blast
qed

section \<open>X-Forwarded-For without a remote address (claim C10)\<close>

text \<open>
  Claim C10, amended.  With no agent set and \<open>options.remoteAddress\<close> omitted,
  \<open>addProxyHeadersNext\<close> sets \<open>X-Forwarded-For\<close> to a value that ends with \<open>undefined\<close>, and
  the request that \<open>getRemoteMetadataNext\<close> (on an online uplink) and \<open>fetchTarballNext\<close>
  send carries the header with that value, unless the uplink's configured headers set
  \<open>X-Forwarded-For\<close>: then the configured value is sent.
\<close>

theorem forwarded_for_undefined:
  "agent this = None \<longrightarrow> remoteAddress options = None \<longrightarrow>
   addProxyHeadersNext this g (remoteAddress options) HEADERS_FORWARDED_FOR =
     Some (with_comma (g ''x-forwarded-for'') @ ''undefined'') \<and>
   (fst (nextHeaders this env options :: ('b, headers) result) = Inr h \<longrightarrow>
     (\<not> ifRequestFailure this now \<longrightarrow>
        sent (snd (getRemoteMetadataNext this env now name options
                     (run :: 'b got_event list \<times> 'b got_outcome))) =
          sent this @ [\<lparr>req_uri = conf_url (config this) @ ''/'' @ encode name,
                         req_method = (if truthy (opt_method options) then the (opt_method options) else ''GET''),
                         req_headers = h, req_agent = agent this\<rparr>]) \<and>
     sent (snd (fetchTarballNext this env u options :: ('b, unit) result)) =
       sent this @ [\<lparr>req_uri = u, req_method = ''GET'', req_headers = h, req_agent = agent this\<rparr>] \<and>
     (uplink_header this HEADERS_FORWARDED_FOR = None \<longrightarrow>
        h HEADERS_FORWARDED_FOR =
          Some (with_comma (caller_header options ''x-forwarded-for'') @ ''undefined'')) \<and>
     (uplink_header this HEADERS_FORWARDED_FOR = Some v \<longrightarrow> h HEADERS_FORWARDED_FOR = Some v))"
proof (intro conjI impI)
  assume ag: "agent this = None" and ra: "remoteAddress options = None"
  show "addProxyHeadersNext this g (remoteAddress options) HEADERS_FORWARDED_FOR =
     Some (with_comma (g ''x-forwarded-for'') @ ''undefined'')"
    using ag ra by (simp add: addProxyHeadersNext_forwarded)
  assume nh: "fst (nextHeaders this env options :: ('b, headers) result) = Inr h"
  note f = nextHeaders_forwarded [OF nh]
  show "sent (snd (fetchTarballNext this env u options :: ('b, unit) result)) =
       sent this @ [\<lparr>req_uri = u, req_method = ''GET'', req_headers = h, req_agent = agent this\<rparr>]"
    by (rule tarballNext_sent [OF nh])
  show "sent (snd (getRemoteMetadataNext this env now name options run)) =
          sent this @ [\<lparr>req_uri = conf_url (config this) @ ''/'' @ encode name,
                         req_method = (if truthy (opt_method options) then the (opt_method options) else ''GET''),
                         req_headers = h, req_agent = agent this\<rparr>]"
    if "\<not> ifRequestFailure this now"
    by (rule metadata_sent [OF that nh])
  show "h HEADERS_FORWARDED_FOR =
          Some (with_comma (caller_header options ''x-forwarded-for'') @ ''undefined'')"
    if "uplink_header this HEADERS_FORWARDED_FOR = None"
    using f that ag ra by simp
  show "h HEADERS_FORWARDED_FOR = Some v" if "uplink_header this HEADERS_FORWARDED_FOR = Some v"
    using f that by simp
qed

text \<open>
  Claim C10 as stated fails: with no agent set, \<open>remoteAddress\<close> omitted and
  \<open>X-Forwarded-For\<close> among the uplink's configured headers, the requests of
  \<open>getRemoteMetadataNext\<close> and \<open>fetchTarballNext\<close> carry the configured value
  \<open>10.1.1.1\<close>, which does not end with \<open>undefined\<close>.
\<close>

theorem forwarded_for_undefined_counterexample:
  "agent ex_override = None \<and> remoteAddress ex_options_via = None \<and>
   map (\<lambda>r. req_headers r HEADERS_FORWARDED_FOR)
     (sent (snd (getRemoteMetadataNext ex_override Map.empty 2000 ''pkg'' ex_options_via
                   ([], Resolved (ex_response 200))))) = [Some ''10.1.1.1''] \<and>
   map (\<lambda>r. req_headers r HEADERS_FORWARDED_FOR)
     (sent (snd (fetchTarballNext ex_override Map.empty ''https://registry.example.com/pkg/-/pkg-1.0.0.tgz''
                   ex_options_via :: (json, unit) result))) = [Some ''10.1.1.1'']"
proof -
  have on: "\<not> ifRequestFailure ex_override 2000"
    by (simp add: ifRequestFailure_def ex_defs2)
  have nh: "fst (nextHeaders ex_override Map.empty ex_options_via :: (json, headers) result)
              = Inr ex_headers_override"
    by (simp add: ex_nextHeaders_override)
  have s0: "sent ex_override = []" "agent ex_override = None" "remoteAddress ex_options_via = None"
    by (simp_all add: ex_defs2)
  show ?thesis
    using metadata_sent [OF on nh, of "''pkg''" "([], Resolved (ex_response 200))"]
      tarballNext_sent [OF nh, of "''https://registry.example.com/pkg/-/pkg-1.0.0.tgz''"]
    by (simp add: s0 ex_headers_at const_defs)
qed

text \<open>
  \<open>X-Forwarded-For\<close> with \<open>remoteAddress\<close> omitted: alone, after a forwarded address of
  the caller, and with a configured value.
\<close>

theorem forwarded_for_undefined_witness:
  "addProxyHeadersNext ex_client Map.empty None HEADERS_FORWARDED_FOR = Some ''undefined'' \<and>
   map (\<lambda>r. req_headers r HEADERS_FORWARDED_FOR)
     (sent (snd (getRemoteMetadataNext ex_client Map.empty 2000 ''pkg'' ex_options_via
                   ([], Resolved (ex_response 200))))) = [Some ''undefined''] \<and>
   map (\<lambda>r. req_headers r HEADERS_FORWARDED_FOR)
     (sent (snd (fetchTarballNext ex_client Map.empty ''https://registry.example.com/pkg/-/pkg-1.0.0.tgz''
                   ex_options_none :: (json, unit) result))) = [Some ''192.168.0.9, undefined''] \<and>
   map (\<lambda>r. req_headers r HEADERS_FORWARDED_FOR)
     (sent (snd (fetchTarballNext ex_override Map.empty ''https://registry.example.com/pkg/-/pkg-1.0.0.tgz''
                   ex_options_via :: (json, unit) result))) = [Some ''10.1.1.1'']"
proof -
  have on: "\<not> ifRequestFailure ex_client 2000"
    by (rule ex_client_is_online)
  have nh1: "fst (nextHeaders ex_client Map.empty ex_options_via :: (json, headers) result) = Inr ex_headers_via"
    by (simp add: ex_nextHeaders_via)
  have nh2: "fst (nextHeaders ex_client Map.empty ex_options_none :: (json, headers) result) = Inr ex_headers_none"
    by (simp add: ex_nextHeaders_none)
  have nh3: "fst (nextHeaders ex_override Map.empty ex_options_via :: (json, headers) result)
              = Inr ex_headers_override"
    by (simp add: ex_nextHeaders_override)
  have s0: "sent ex_client = []" "sent ex_override = []" "agent ex_client = None" "agent ex_override = None"
    "remoteAddress ex_options_via = None" "remoteAddress ex_options_none = None"
    by (simp_all add: ex_defs2 ex_options_none_def)
  have c: "uplink_header ex_client HEADERS_FORWARDED_FOR = None"
    "uplink_header ex_override HEADERS_FORWARDED_FOR = Some ''10.1.1.1''"
    "caller_header ex_options_via ''x-forwarded-for'' = None"
    "caller_header ex_options_none ''x-forwarded-for'' = Some ''192.168.0.9''"
    by (simp_all add: uplink_header_def caller_header_def ex_defs2 ex_options_none_def const_defs)
  note t1 = forwarded_for_undefined [where this = ex_client and options = ex_options_via
        and g = Map.empty and env = Map.empty and h = ex_headers_via and now = 2000
        and name = "''pkg''" and run = "([], Resolved (ex_response 200))"
        and u = "''https://registry.example.com/pkg/-/pkg-1.0.0.tgz''" and v = "''10.1.1.1''"]
  note t2 = forwarded_for_undefined [where this = ex_client and options = ex_options_none
        and g = Map.empty and env = Map.empty and h = ex_headers_none and now = 2000
        and name = "''pkg''" and run = "([], Resolved (ex_response 200))"
        and u = "''https://registry.example.com/pkg/-/pkg-1.0.0.tgz''" and v = "''10.1.1.1''"]
  note t3 = forwarded_for_undefined [where this = ex_override and options = ex_options_via
        and g = Map.empty and env = Map.empty and h = ex_headers_override and now = 2000
        and name = "''pkg''" and run = "([], Resolved (ex_response 200))"
        and u = "''https://registry.example.com/pkg/-/pkg-1.0.0.tgz''" and v = "''10.1.1.1''"]
  have a0: "addProxyHeadersNext ex_client Map.empty None HEADERS_FORWARDED_FOR = Some ''undefined''"
    using t1 by (simp add: s0 with_comma_def)
  have a1: "map (\<lambda>r. req_headers r HEADERS_FORWARDED_FOR)
     (sent (snd (getRemoteMetadataNext ex_client Map.empty 2000 ''pkg'' ex_options_via
                   ([], Resolved (ex_response 200))))) = [Some ''undefined'']"
    using t1 on nh1 c by (simp add: s0 with_comma_def)
  have a2: "map (\<lambda>r. req_headers r HEADERS_FORWARDED_FOR)
     (sent (snd (fetchTarballNext ex_client Map.empty ''https://registry.example.com/pkg/-/pkg-1.0.0.tgz''
                   ex_options_none :: (json, unit) result))) = [Some ''192.168.0.9, undefined'']"
    using t2 nh2 c by (simp add: s0 with_comma_def)
  have a3: "map (\<lambda>r. req_headers r HEADERS_FORWARDED_FOR)
     (sent (snd (fetchTarballNext ex_override Map.empty ''https://registry.example.com/pkg/-/pkg-1.0.0.tgz''
                   ex_options_via :: (json, unit) result))) = [Some ''10.1.1.1'']"
    using t3 nh3 c by (simp add: s0)
  show ?thesis
    using a0 a1 a2 a3 by blast
qed

end
